(* ===== verification/Prelude.thy ===== *)
theory Prelude
  imports Main "HOL-Library.Word"
begin

text \<open>
  Shared vocabulary of the SunnyProxy development (src/src/SunnyProxy/Proxy.go).
  \<^item> The Go types the dialer handles: \<open>byte\<close> (8-bit), \<open>net.IP\<close> as a byte slice
    (\<open>ip\<close>, the empty list standing for Go's \<open>nil\<close> slice), Go's 64-bit \<open>int\<close> and
    \<open>time.Duration\<close> (an \<open>int64\<close> of nanoseconds) as \<open>64 word\<close>, so that the
    multiplications of the source wrap around as they do on the machine.
  \<^item> The error values the code and its collaborators return, as one datatype.
  \<^item> Go's two-value returns \<open>(T, error)\<close>: a pair of options, since Go code may return
    both as \<open>nil\<close> or both as non-\<open>nil\<close>, and the pair keeps that observable.
  \<^item> Byte-string helpers the Go standard library provides and the model needs:
    index search, decimal and hexadecimal rendering, ASCII lower-casing.
  The named collection \<open>model_simps\<close> gathers the equations that evaluation proofs
  (witnesses) unfold.
\<close>

named_theorems model_simps "equations unfolded when a model function is evaluated"

type_synonym byte = "8 word"

type_synonym ip = "byte list"

type_synonym goint = "64 word"

type_synonym duration = "64 word"

datatype error =
    ErrURL string
  | ErrInvalidHost
  | ErrInvalidScheme string
  | ErrAddr string string
  | ErrNet string
  | ErrResponse string

type_synonym 'a go_ret = "'a option \<times> error option"

definition go_ret :: "error + 'a \<Rightarrow> 'a go_ret" where
  "go_ret r = (case r of Inl e \<Rightarrow> (None, Some e) | Inr x \<Rightarrow> (Some x, None))"

subsection \<open>Index search in byte strings\<close>

text \<open>
  \<open>index_of x xs\<close> is Go's \<open>strings.IndexByte\<close> where the byte occurs; where it does
  not, Go returns -1 and the model returns \<open>length xs\<close>: every use in the model is
  guarded by \<open>x \<in> set xs\<close>, as every use in the source is guarded by \<open>< 0\<close>.
\<close>

fun index_of :: "'a \<Rightarrow> 'a list \<Rightarrow> nat" where
  "index_of x [] = 0"
| "index_of x (y # ys) = (if y = x then 0 else Suc (index_of x ys))"

definition last_index_of :: "'a \<Rightarrow> 'a list \<Rightarrow> nat" where
  "last_index_of x xs = length xs - Suc (index_of x (rev xs))"

subsection \<open>Rendering numbers\<close>

text \<open>
  Go renders a byte of an IPv4 address in decimal and a 16-bit group of an IPv6
  address in lower-case hexadecimal, both without leading zeros
  (\<open>netip.appendDecimal\<close>, \<open>netip.appendHex\<close>); \<open>net.IP.String\<close> renders a
  slice of unusual length as two hexadecimal digits per byte (\<open>hexString\<close>).
\<close>

definition hex_digit :: "nat \<Rightarrow> char" where
  "hex_digit d = (if d < 10 then char_of (48 + d) else char_of (87 + d))"

function digits_base :: "nat \<Rightarrow> nat \<Rightarrow> string" where
  "digits_base b n =
     (if b < 2 \<or> n < b then [hex_digit n] else digits_base b (n div b) @ [hex_digit (n mod b)])"
  by pat_completeness auto
termination
  by (relation "measure (\<lambda>(b, n). n)") auto

declare digits_base.simps [simp del]

abbreviation dec_string :: "nat \<Rightarrow> string" where
  "dec_string \<equiv> digits_base 10"

abbreviation hex_string :: "nat \<Rightarrow> string" where
  "hex_string \<equiv> digits_base 16"

definition hex_byte :: "byte \<Rightarrow> string" where
  "hex_byte b = [hex_digit (unat b div 16), hex_digit (unat b mod 16)]"

definition hex_chars :: string where
  "hex_chars = ''0123456789abcdef''"

subsection \<open>ASCII lower-casing\<close>

text \<open>
  \<open>strings.ToLower\<close> on the scheme of a URL: \<open>url.Parse\<close> admits only ASCII letters,
  digits, \<open>+\<close>, \<open>-\<close> and \<open>.\<close> in a scheme, so lower-casing the ASCII capitals is
  the whole effect there.
\<close>

definition lower_char :: "char \<Rightarrow> char" where
  "lower_char c = (let n = of_char c :: nat in if 65 \<le> n \<and> n \<le> 90 then char_of (n + 32) else c)"

definition ToLower :: "string \<Rightarrow> string" where
  "ToLower s = map lower_char s"

declare go_ret_def [model_simps] hex_digit_def [model_simps] hex_byte_def [model_simps]
  lower_char_def [model_simps] ToLower_def [model_simps] last_index_of_def [model_simps]

section \<open>Lemmas on the shared vocabulary\<close>

lemma go_ret_simps [simp]:
  "go_ret (Inl e) = (None, Some e)"
  "go_ret (Inr x) = (Some x, None)"
  by (simp_all add: go_ret_def)

lemma go_ret_fst_None [simp]: "(fst (go_ret r) = None) = isl r"
  by (cases r) simp_all

lemma index_of_less [simp]: "(index_of x xs < length xs) = (x \<in> set xs)"
  by (induction xs) auto

lemma index_of_nth: "x \<in> set xs \<Longrightarrow> xs ! index_of x xs = x"
  by (induction xs) auto

lemma index_of_not_in_take: "x \<notin> set (take (index_of x xs) xs)"
  by (induction xs) auto

lemma index_of_append_notin [simp]: "x \<notin> set xs \<Longrightarrow> index_of x (xs @ ys) = length xs + index_of x ys"
  by (induction xs) auto

lemma index_of_append_in: "x \<in> set xs \<Longrightarrow> index_of x (xs @ ys) = index_of x xs"
  by (induction xs) auto

lemma index_of_Cons_eq [simp]: "index_of x (x # ys) = 0"
  by simp

lemma index_of_nth_distinct: "distinct xs \<Longrightarrow> i < length xs \<Longrightarrow> index_of (xs ! i) xs = i"
  by (induction xs arbitrary: i) (auto simp: nth_Cons split: nat.splits)

lemma index_of_notin: "x \<notin> set xs \<Longrightarrow> index_of x xs = length xs"
  by (induction xs) auto

lemma last_index_of_append_notin [simp]:
  "x \<notin> set ys \<Longrightarrow> last_index_of x (xs @ x # ys) = length xs"
  by (simp add: last_index_of_def)

lemma hex_digit_table: "map hex_digit [0..<16] = hex_chars"
  unfolding hex_chars_def by code_simp

lemma hex_digit_in: "d < 16 \<Longrightarrow> hex_digit d \<in> set hex_chars"
  by (simp flip: hex_digit_table del: set_map)
    (metis atLeastLessThan_iff image_eqI le0 set_map set_upt)

lemma digits_base_chars:
  "2 \<le> b \<Longrightarrow> b \<le> 16 \<Longrightarrow> set (digits_base b n) \<subseteq> set hex_chars"
proof (induction b n rule: digits_base.induct)
  case (1 b n)
  show ?case
  proof (cases "n < b")
    case True
    with "1.prems" show ?thesis
      by (subst digits_base.simps) (simp add: hex_digit_in)
  next
    case False
    with "1.prems" "1.IH" have "set (digits_base b (n div b)) \<subseteq> set hex_chars"
      by simp
    moreover from "1.prems" have "hex_digit (n mod b) \<in> set hex_chars"
      by (intro hex_digit_in) (meson order_less_le_trans mod_less_divisor le_trans zero_less_numeral)
    ultimately show ?thesis
      using False "1.prems" by (subst digits_base.simps) simp
  qed
qed

lemma dec_string_chars: "set (dec_string n) \<subseteq> set hex_chars"
  by (rule digits_base_chars) simp_all

lemma hex_string_chars: "set (hex_string n) \<subseteq> set hex_chars"
  by (rule digits_base_chars) simp_all

lemma hex_byte_chars: "set (hex_byte b) \<subseteq> set hex_chars"
proof -
  have "unat b < 256" using unsigned_less [of b] by simp
  then have "unat b div 16 < 16" by simp
  then show ?thesis
    by (simp add: hex_byte_def hex_digit_in)
qed

lemma hex_chars_delims [simp]:
  "CHR '':'' \<notin> set hex_chars" "CHR ''['' \<notin> set hex_chars" "CHR '']'' \<notin> set hex_chars"
  "CHR ''.'' \<notin> set hex_chars"
  by (simp_all add: hex_chars_def)

lemma digits_base_nonempty [simp]: "digits_base b n \<noteq> []"
  by (subst digits_base.simps) simp

lemma ToLower_length [simp]: "length (ToLower s) = length s"
  by (simp add: ToLower_def)

text \<open>The facts that evaluate \<open>ToLower\<close> on a string literal by \<open>simp\<close>.\<close>

lemmas ToLower_eval = ToLower_def lower_char_def char_of_def bit_0

subsection \<open>Signed 64-bit arithmetic\<close>

text \<open>
  A product of \<open>int64\<close> values is the mathematical product exactly when it lies in
  the signed range; Go's \<open>time.Duration(n) * time.Millisecond\<close> is such a product.
\<close>

lemma sint_mult_exact:
  fixes a b :: "64 word"
  assumes "- (2 ^ 63) \<le> sint a * sint b" "sint a * sint b < 2 ^ 63"
  shows "sint (a * b) = sint a * sint b"
proof -
  have "sint (a * b) = signed_take_bit 63 (sint a * sint b)"
    by (simp add: sint_word_mult)
  also have "\<dots> = sint a * sint b"
    using assms by (intro signed_take_bit_int_eq_self) simp_all
  finally show ?thesis .
qed

end
