(* ===== verification/Proxy.thy ===== *)
theory Proxy
  imports Prelude
begin

text \<open>
  The proxy descriptor of src/src/SunnyProxy/Proxy.go, lines 16--138: the \<open>Proxy\<close>
  struct (an embedded \<open>*url.URL\<close>, a timeout, the bypass predicate \<open>Regexp\<close> and the
  diagnostic \<open>DialAddr\<close>), its constructor \<open>ParseProxy\<close>, the nil-safe accessors
  \<open>IsSocksType\<close>, \<open>String\<close>, \<open>User\<close>, \<open>Pass\<close>, \<open>Clone\<close>, \<open>SetTimeout\<close>,
  \<open>getTimeout\<close> and \<open>getSocksAuth\<close>. A Go pointer \<open>*Proxy\<close> is a \<open>Proxy option\<close>,
  \<open>None\<close> for \<open>nil\<close>. The URL parser and printer of \<open>net/url\<close> are not part of
  the repository: they enter as the interface \<open>url_lib\<close>, and the lemmas about
  \<open>Clone\<close> state what they need of it (that printing and re-parsing gives the URL
  back).
\<close>

subsection \<open>Durations\<close>

definition Millisecond :: duration where
  "Millisecond = 1000000"

definition Second :: duration where
  "Second = 1000000000"

subsection \<open>URLs and the URL library\<close>

record Userinfo =
  username :: string
  password :: "string option"

record url =
  url_Scheme :: string
  url_User :: "Userinfo option"
  url_Host :: string
  url_Rest :: string

record url_lib =
  url_Parse :: "string \<Rightarrow> error + url option"
  url_String :: "url \<Rightarrow> string"

subsection \<open>The descriptor\<close>

record Proxy =
  URL :: "url option"
  timeout :: duration
  Regexp :: "(string \<Rightarrow> bool) option"
  DialAddr :: string

text \<open>Go's zero value \<open>&Proxy{}\<close>.\<close>

definition zero_Proxy :: Proxy where
  "zero_Proxy = \<lparr>URL = None, timeout = 0, Regexp = None, DialAddr = ''''\<rparr>"

record Auth =
  auth_User :: string
  auth_Password :: string

definition proxy_schemes :: "string list" where
  "proxy_schemes = [''http'', ''https'', ''socket'', ''sock'', ''socket5'', ''socks5'', ''socks'']"

definition socks_schemes :: "string list" where
  "socks_schemes = [''socket'', ''sock'', ''socket5'', ''socks5'', ''socks'']"

definition ParseProxy :: "url_lib \<Rightarrow> string \<Rightarrow> goint list \<Rightarrow> error + Proxy" where
  "ParseProxy L u timeouts =
     (case url_Parse L u of
        Inl e \<Rightarrow> Inl e
      | Inr None \<Rightarrow> Inl ErrInvalidHost
      | Inr (Some U) \<Rightarrow>
          (let s = ToLower (url_Scheme U) in
           if s \<notin> set proxy_schemes then Inl (ErrInvalidScheme (url_Scheme U))
           else
             (let U' = (if s \<in> set socks_schemes then U\<lparr>url_Scheme := ''socks5''\<rparr> else U) in
              if length (url_Host U') < 3 then Inl ErrInvalidHost
              else Inr \<lparr>URL = Some U',
                        timeout = (case timeouts of [] \<Rightarrow> 30 * Second | t # _ \<Rightarrow> t * Millisecond),
                        Regexp = None, DialAddr = ''''\<rparr>)))"

definition IsSocksType :: "Proxy option \<Rightarrow> bool" where
  "IsSocksType p =
     (case p of None \<Rightarrow> False
      | Some q \<Rightarrow> (case URL q of None \<Rightarrow> False | Some U \<Rightarrow> url_Scheme U = ''socks5''))"

definition proxy_String :: "url_lib \<Rightarrow> Proxy option \<Rightarrow> string" where
  "proxy_String L p =
     (case p of None \<Rightarrow> ''''
      | Some q \<Rightarrow> (case URL q of None \<Rightarrow> '''' | Some U \<Rightarrow> url_String L U))"

definition User :: "Proxy option \<Rightarrow> string" where
  "User p =
     (case p of None \<Rightarrow> ''''
      | Some q \<Rightarrow> (case URL q of None \<Rightarrow> ''''
          | Some U \<Rightarrow> (case url_User U of None \<Rightarrow> '''' | Some ui \<Rightarrow> username ui)))"

definition Pass :: "Proxy option \<Rightarrow> string" where
  "Pass p =
     (case p of None \<Rightarrow> ''''
      | Some q \<Rightarrow> (case URL q of None \<Rightarrow> ''''
          | Some U \<Rightarrow> (case url_User U of None \<Rightarrow> ''''
              | Some ui \<Rightarrow> (case password ui of None \<Rightarrow> '''' | Some pw \<Rightarrow> pw))))"

definition Clone :: "url_lib \<Rightarrow> Proxy option \<Rightarrow> Proxy option" where
  "Clone L p =
     (case p of None \<Rightarrow> None
      | Some q \<Rightarrow> (case URL q of None \<Rightarrow> None
          | Some U \<Rightarrow>
              if length (url_Host U) < 3 then None
              else Some \<lparr>URL = (case url_Parse L (url_String L U) of Inl _ \<Rightarrow> None | Inr V \<Rightarrow> V),
                         timeout = timeout q, Regexp = Regexp q, DialAddr = DialAddr q\<rparr>))"

definition SetTimeout :: "Proxy option \<Rightarrow> duration \<Rightarrow> Proxy option" where
  "SetTimeout p d = (case p of None \<Rightarrow> None | Some q \<Rightarrow> Some (q\<lparr>timeout := d\<rparr>))"

definition getTimeout :: "Proxy option \<Rightarrow> duration" where
  "getTimeout p =
     (case p of None \<Rightarrow> 15 * Second | Some q \<Rightarrow> if timeout q = 0 then 15 * Second else timeout q)"

definition getSocksAuth :: "Proxy option \<Rightarrow> Auth option" where
  "getSocksAuth p =
     (if User p = '''' then None else Some \<lparr>auth_User = User p, auth_Password = Pass p\<rparr>)"

declare Millisecond_def [model_simps] Second_def [model_simps] zero_Proxy_def [model_simps]
  proxy_schemes_def [model_simps] socks_schemes_def [model_simps] ParseProxy_def [model_simps]
  IsSocksType_def [model_simps] proxy_String_def [model_simps] User_def [model_simps]
  Pass_def [model_simps] Clone_def [model_simps] SetTimeout_def [model_simps]
  getTimeout_def [model_simps] getSocksAuth_def [model_simps]

subsection \<open>The descriptor invariant\<close>

text \<open>
  What \<open>ParseProxy\<close> establishes of a descriptor with a URL: its host field
  (\<open>host:port\<close>) has at least three bytes and its scheme is either the canonical
  \<open>socks5\<close> or one that lower-cases to \<open>http\<close> or \<open>https\<close>. A descriptor
  without a URL (Go's zero value) is well-formed too: every operation treats it as
  "no proxy". \<open>url_roundtrips\<close> is what \<open>Clone\<close> needs of the URL library.
\<close>

definition proxy_wf :: "Proxy \<Rightarrow> bool" where
  "proxy_wf q =
     (case URL q of None \<Rightarrow> True
      | Some U \<Rightarrow> 3 \<le> length (url_Host U) \<and>
                  (url_Scheme U = ''socks5'' \<or> ToLower (url_Scheme U) \<in> {''http'', ''https''}))"

definition url_roundtrips :: "url_lib \<Rightarrow> url \<Rightarrow> bool" where
  "url_roundtrips L U \<longleftrightarrow> url_Parse L (url_String L U) = Inr (Some U)"

subsection \<open>An example URL library\<close>

text \<open>
  A URL library that knows six URLs, printing a URL as scheme, \<open>://\<close>, user
  information, host and the rest; the witnesses of the descriptor's properties run on it.
\<close>

definition ex_cred :: "Userinfo option" where
  "ex_cred = Some \<lparr>username = ''u'', password = Some ''p''\<rparr>"

definition ex_url :: "string \<Rightarrow> Userinfo option \<Rightarrow> string \<Rightarrow> url" where
  "ex_url s ui h = \<lparr>url_Scheme = s, url_User = ui, url_Host = h, url_Rest = ''''\<rparr>"

definition ex_url_String :: "url \<Rightarrow> string" where
  "ex_url_String U =
     url_Scheme U @ ''://'' @
     (case url_User U of None \<Rightarrow> ''''
      | Some ui \<Rightarrow> username ui @ (case password ui of None \<Rightarrow> '''' | Some pw \<Rightarrow> '':'' @ pw) @ ''@'') @
     url_Host U @ url_Rest U"

definition ex_lib :: url_lib where
  "ex_lib =
     \<lparr>url_Parse = (\<lambda>s.
        if s = ''SOCKS://u:p@1.2.3.4:1080'' then Inr (Some (ex_url ''SOCKS'' ex_cred ''1.2.3.4:1080''))
        else if s = ''socks5://u:p@1.2.3.4:1080'' then Inr (Some (ex_url ''socks5'' ex_cred ''1.2.3.4:1080''))
        else if s = ''http://proxy.local:8080'' then Inr (Some (ex_url ''http'' None ''proxy.local:8080''))
        else if s = ''http://ab'' then Inr (Some (ex_url ''http'' None ''ab''))
        else if s = ''short://ab'' then Inr (Some (ex_url ''short'' None ''ab''))
        else Inl (ErrURL s)),
      url_String = ex_url_String\<rparr>"

definition ex_parsed :: Proxy where
  "ex_parsed =
     \<lparr>URL = Some (ex_url ''socks5'' ex_cred ''1.2.3.4:1080''), timeout = 30 * Second,
      Regexp = None, DialAddr = ''''\<rparr>"

definition ex_http :: Proxy where
  "ex_http =
     \<lparr>URL = Some (ex_url ''http'' None ''proxy.local:8080''), timeout = 30 * Second,
      Regexp = None, DialAddr = ''''\<rparr>"

subsection \<open>Descriptor lemmas\<close>

lemma ParseProxy_Inr_cases:
  assumes "ParseProxy L u ts = Inr q"
  obtains U where "url_Parse L u = Inr (Some U)" "ToLower (url_Scheme U) \<in> set proxy_schemes"
    "3 \<le> length (url_Host U)"
    "q = \<lparr>URL = Some (if ToLower (url_Scheme U) \<in> set socks_schemes
                       then U\<lparr>url_Scheme := ''socks5''\<rparr> else U),
          timeout = (case ts of [] \<Rightarrow> 30 * Second | t # _ \<Rightarrow> t * Millisecond),
          Regexp = None, DialAddr = ''''\<rparr>"
  using assms
  by (auto simp: ParseProxy_def Let_def split: sum.splits option.splits if_splits)

lemma SetTimeout_wf: "SetTimeout (Some q) d = Some q' \<Longrightarrow> proxy_wf q \<Longrightarrow> proxy_wf q'"
  by (auto simp: SetTimeout_def proxy_wf_def)

lemma getTimeout_nonzero: "getTimeout p \<noteq> 0"
  by (simp add: getTimeout_def Second_def split: option.splits)

lemma ParseProxy_timeout:
  assumes "ParseProxy L u ts = Inr q"
  shows "timeout q = (case ts of [] \<Rightarrow> 30 * Second | t # _ \<Rightarrow> t * Millisecond)"
  using assms by (rule ParseProxy_Inr_cases) simp

lemma ToLower_socks5 [simp]: "ToLower ''socks5'' = ''socks5''"
  by (simp add: ToLower_eval)

lemma ex_parse_socks: "ParseProxy ex_lib ''SOCKS://u:p@1.2.3.4:1080'' [] = Inr ex_parsed"
  by (simp add: ParseProxy_def ex_lib_def ex_url_def ex_parsed_def ToLower_eval proxy_schemes_def
      socks_schemes_def Let_def)

lemma ex_parse_http:
  "ParseProxy ex_lib ''http://proxy.local:8080'' ts =
     Inr (ex_http\<lparr>timeout := (case ts of [] \<Rightarrow> 30 * Second | t # _ \<Rightarrow> t * Millisecond)\<rparr>)"
  by (simp add: ParseProxy_def ex_lib_def ex_url_def ex_http_def ToLower_eval proxy_schemes_def
      socks_schemes_def Let_def)

subsection \<open>Properties of the descriptor\<close>

text \<open>
  C16: every descriptor \<open>ParseProxy\<close> returns is well-formed: its URL is set, its host
  field has at least three bytes, and its scheme is the canonical \<open>socks5\<close> or
  lower-cases to \<open>http\<close> or \<open>https\<close>.
\<close>

theorem ParseProxy_wf:
  assumes "ParseProxy L u ts = Inr q"
  shows "proxy_wf q \<and> URL q \<noteq> None"
  using assms by (rule ParseProxy_Inr_cases) (auto simp: proxy_wf_def proxy_schemes_def socks_schemes_def)

theorem ParseProxy_wf_witness:
  "ParseProxy ex_lib ''SOCKS://u:p@1.2.3.4:1080'' [] = Inr ex_parsed \<and> proxy_wf ex_parsed"
  using ParseProxy_wf [OF ex_parse_socks] ex_parse_socks by simp

text \<open>
  C20: the two timeout defaults: a descriptor parsed without an explicit timeout dials
  with 30 seconds, while a nil descriptor, Go's zero-value descriptor and a descriptor
  whose timeout was set to zero dial with 15 seconds.
\<close>

theorem getTimeout_defaults:
  assumes "ParseProxy L u [] = Inr q"
  shows "getTimeout (Some q) = 30 * Second \<and> getTimeout None = 15 * Second \<and>
         getTimeout (Some zero_Proxy) = 15 * Second \<and>
         getTimeout (SetTimeout (Some q) 0) = 15 * Second"
  using ParseProxy_timeout [OF assms]
  by (simp add: getTimeout_def SetTimeout_def zero_Proxy_def Second_def)

theorem getTimeout_defaults_witness:
  "ParseProxy ex_lib ''http://proxy.local:8080'' [] = Inr ex_http \<and>
   getTimeout (Some ex_http) = 30 * Second"
proof -
  have h: "ParseProxy ex_lib ''http://proxy.local:8080'' [] = Inr ex_http"
    using ex_parse_http [of "[]"] by (simp add: ex_http_def)
  show ?thesis using getTimeout_defaults [OF h] h by simp
qed

text \<open>
  C21: an explicit timeout of \<open>t\<close> milliseconds with \<open>|t| \<le> 9223372036854\<close> becomes
  exactly \<open>t\<close> times \<open>10^6\<close> nanoseconds (no wrap-around in that range), and the dial
  uses it unless \<open>t = 0\<close>, which falls back to 15 seconds.
\<close>

theorem ParseProxy_timeout_exact:
  assumes "ParseProxy L u (t # ts) = Inr q" "\<bar>sint t\<bar> \<le> 9223372036854"
  shows "sint (timeout q) = sint t * 1000000 \<and>
         getTimeout (Some q) = (if t = 0 then 15 * Second else timeout q)"
proof -
  have tq: "timeout q = t * 1000000"
    using ParseProxy_timeout [OF assms(1)] by (simp add: Millisecond_def)
  have m: "sint (1000000 :: 64 word) = 1000000" by simp
  have "- (2 ^ 63) \<le> sint t * 1000000" "sint t * 1000000 < 2 ^ 63"
    using assms(2) by (simp_all add: abs_le_iff)
  then have ex: "sint (timeout q) = sint t * 1000000"
    using sint_mult_exact [of t 1000000] by (simp add: tq m)
  have "(timeout q = 0) = (t = 0)"
  proof
    assume "timeout q = 0"
    then have "sint t * 1000000 = 0" using ex by simp
    then show "t = 0" by (simp add: signed_eq_0_iff)
  qed (simp add: tq)
  with ex show ?thesis by (simp add: getTimeout_def)
qed

theorem ParseProxy_timeout_exact_witness:
  "ParseProxy ex_lib ''http://proxy.local:8080'' [2500] = Inr (ex_http\<lparr>timeout := 2500 * Millisecond\<rparr>) \<and>
   \<bar>sint (2500 :: 64 word)\<bar> \<le> 9223372036854 \<and>
   sint (timeout (ex_http\<lparr>timeout := 2500 * Millisecond\<rparr>)) = 2500000000"
proof -
  have h1: "ParseProxy ex_lib ''http://proxy.local:8080'' [2500] = Inr (ex_http\<lparr>timeout := 2500 * Millisecond\<rparr>)"
    using ex_parse_http [of "[2500]"] by simp
  have h2: "\<bar>sint (2500 :: 64 word)\<bar> \<le> 9223372036854" by simp
  show ?thesis using ParseProxy_timeout_exact [OF h1 h2] h1 h2 by simp
qed

text \<open>
  C22: larger explicit timeouts wrap around in the 64-bit multiplication: \<open>2^58\<close>
  milliseconds gives a timeout of 0, so the dial silently uses 15 seconds, and
  9223372036855 milliseconds gives a negative timeout.
\<close>

theorem ParseProxy_timeout_wraps:
  assumes "ParseProxy L u [2 ^ 58] = Inr q" "ParseProxy L u [9223372036855] = Inr q'"
  shows "timeout q = 0 \<and> getTimeout (Some q) = 15 * Second \<and> sint (timeout q') < 0"
proof -
  have a: "timeout q = 2 ^ 58 * 1000000" "timeout q' = 9223372036855 * 1000000"
    using ParseProxy_timeout [OF assms(1)] ParseProxy_timeout [OF assms(2)]
    by (simp_all add: Millisecond_def)
  have z: "(2 ^ 58 * 1000000 :: 64 word) = 0" by simp
  have n: "sint (9223372036855 * 1000000 :: 64 word) < 0" by simp
  show ?thesis using a z n by (simp add: getTimeout_def)
qed

theorem ParseProxy_timeout_wraps_witness:
  "ParseProxy ex_lib ''http://proxy.local:8080'' [2 ^ 58] = Inr (ex_http\<lparr>timeout := 2 ^ 58 * Millisecond\<rparr>) \<and>
   getTimeout (Some (ex_http\<lparr>timeout := 2 ^ 58 * Millisecond\<rparr>)) = 15 * Second"
proof -
  have h1: "ParseProxy ex_lib ''http://proxy.local:8080'' [2 ^ 58] = Inr (ex_http\<lparr>timeout := 2 ^ 58 * Millisecond\<rparr>)"
    using ex_parse_http [of "[2 ^ 58]"] by simp
  have h2: "ParseProxy ex_lib ''http://proxy.local:8080'' [9223372036855] =
      Inr (ex_http\<lparr>timeout := 9223372036855 * Millisecond\<rparr>)"
    using ex_parse_http [of "[9223372036855]"] by simp
  show ?thesis using ParseProxy_timeout_wraps [OF h1 h2] h1 by (simp add: Millisecond_def)
qed

text \<open>
  C23: with a URL library whose printer and parser round-trip the descriptor's URL, the
  clone of a descriptor with a URL whose host has at least three bytes equals it in
  every field: the reparsed URL, the timeout, the bypass predicate and the DialAddr.
\<close>

theorem Clone_identity:
  assumes "URL q = Some U" "3 \<le> length (url_Host U)" "url_roundtrips L U"
  shows "Clone L (Some q) = Some q"
  using assms by (simp add: Clone_def url_roundtrips_def)

theorem Clone_identity_witness:
  "URL (ex_parsed\<lparr>timeout := 5 * Second, Regexp := Some (\<lambda>h. h = ''skip.me''),
                  DialAddr := ''10.0.0.1:80''\<rparr>) = Some (ex_url ''socks5'' ex_cred ''1.2.3.4:1080'') \<and>
   3 \<le> length (url_Host (ex_url ''socks5'' ex_cred ''1.2.3.4:1080'')) \<and>
   url_roundtrips ex_lib (ex_url ''socks5'' ex_cred ''1.2.3.4:1080'') \<and>
   Clone ex_lib (Some (ex_parsed\<lparr>timeout := 5 * Second, Regexp := Some (\<lambda>h. h = ''skip.me''),
                                 DialAddr := ''10.0.0.1:80''\<rparr>)) =
     Some (ex_parsed\<lparr>timeout := 5 * Second, Regexp := Some (\<lambda>h. h = ''skip.me''),
                     DialAddr := ''10.0.0.1:80''\<rparr>)"
proof -
  have h1: "URL (ex_parsed\<lparr>timeout := 5 * Second, Regexp := Some (\<lambda>h. h = ''skip.me''),
                  DialAddr := ''10.0.0.1:80''\<rparr>) = Some (ex_url ''socks5'' ex_cred ''1.2.3.4:1080'')"
    by (simp add: ex_parsed_def)
  have h2: "3 \<le> length (url_Host (ex_url ''socks5'' ex_cred ''1.2.3.4:1080''))"
    by (simp add: ex_url_def)
  have h3: "url_roundtrips ex_lib (ex_url ''socks5'' ex_cred ''1.2.3.4:1080'')"
    by (simp add: url_roundtrips_def ex_lib_def ex_url_def ex_url_String_def ex_cred_def)
  show ?thesis using Clone_identity [OF h1 h2 h3] h1 h2 h3 by simp
qed

text \<open>
  C17: a successful parse keeps the host, the user information and the rest of the URL
  and normalises the scheme: every SOCKS spelling, in any letter case, becomes the
  canonical \<open>socks5\<close> and makes the descriptor a SOCKS one; otherwise the scheme is
  kept as written, lower-cases to \<open>http\<close> or \<open>https\<close>, and the descriptor is an HTTP one.
\<close>

theorem ParseProxy_normalizes:
  assumes "url_Parse L u = Inr (Some U)" "ParseProxy L u ts = Inr q"
  shows "\<exists>V. URL q = Some V \<and> url_Host V = url_Host U \<and> url_User V = url_User U \<and>
             url_Rest V = url_Rest U \<and>
             (if ToLower (url_Scheme U) \<in> set socks_schemes
              then url_Scheme V = ''socks5'' \<and> IsSocksType (Some q)
              else url_Scheme V = url_Scheme U \<and> ToLower (url_Scheme U) \<in> {''http'', ''https''} \<and>
                   \<not> IsSocksType (Some q))"
proof -
  obtain U' where U': "url_Parse L u = Inr (Some U')" "ToLower (url_Scheme U') \<in> set proxy_schemes"
    and q: "q = \<lparr>URL = Some (if ToLower (url_Scheme U') \<in> set socks_schemes
                       then U'\<lparr>url_Scheme := ''socks5''\<rparr> else U'),
          timeout = (case ts of [] \<Rightarrow> 30 * Second | t # _ \<Rightarrow> t * Millisecond),
          Regexp = None, DialAddr = ''''\<rparr>"
    using assms(2) by (rule ParseProxy_Inr_cases)
  from U'(1) assms(1) have "U' = U" by simp
  show ?thesis
  proof (cases "ToLower (url_Scheme U) \<in> set socks_schemes")
    case True
    then show ?thesis by (simp add: q \<open>U' = U\<close> IsSocksType_def)
  next
    case False
    then have "url_Scheme U \<noteq> ''socks5''" by (auto simp: socks_schemes_def)
    with False U'(2) show ?thesis
      by (auto simp: q \<open>U' = U\<close> IsSocksType_def proxy_schemes_def socks_schemes_def)
  qed
qed

theorem ParseProxy_normalizes_witness:
  "url_Parse ex_lib ''SOCKS://u:p@1.2.3.4:1080'' = Inr (Some (ex_url ''SOCKS'' ex_cred ''1.2.3.4:1080'')) \<and>
   ParseProxy ex_lib ''SOCKS://u:p@1.2.3.4:1080'' [] = Inr ex_parsed \<and> IsSocksType (Some ex_parsed)"
proof -
  have h1: "url_Parse ex_lib ''SOCKS://u:p@1.2.3.4:1080'' = Inr (Some (ex_url ''SOCKS'' ex_cred ''1.2.3.4:1080''))"
    by (simp add: ex_lib_def)
  show ?thesis
    using ParseProxy_normalizes [OF h1 ex_parse_socks] h1 ex_parse_socks
    by (auto simp: ToLower_eval socks_schemes_def ex_url_def)
qed

text \<open>
  C18: the scheme is checked before the host: a URL whose scheme is not one of the seven
  accepted spellings is refused with the invalid-scheme error naming the scheme as
  written, whatever its host.
\<close>

theorem ParseProxy_invalid_scheme:
  assumes "url_Parse L u = Inr (Some U)" "ToLower (url_Scheme U) \<notin> set proxy_schemes"
  shows "ParseProxy L u ts = Inl (ErrInvalidScheme (url_Scheme U))"
  using assms by (simp add: ParseProxy_def)

theorem ParseProxy_invalid_scheme_witness:
  "url_Parse ex_lib ''short://ab'' = Inr (Some (ex_url ''short'' None ''ab'')) \<and>
   ToLower ''short'' \<notin> set proxy_schemes \<and>
   ParseProxy ex_lib ''short://ab'' [] = Inl (ErrInvalidScheme ''short'')"
proof -
  have h1: "url_Parse ex_lib ''short://ab'' = Inr (Some (ex_url ''short'' None ''ab''))"
    by (simp add: ex_lib_def)
  have h2: "ToLower (url_Scheme (ex_url ''short'' None ''ab'')) \<notin> set proxy_schemes"
    by (simp add: ex_url_def ToLower_eval proxy_schemes_def)
  show ?thesis
    using ParseProxy_invalid_scheme [OF h1 h2] h1 h2 by (simp add: ex_url_def)
qed

text \<open>
  C19: a URL with an accepted scheme whose host field (\<open>host:port\<close>) has fewer than
  three bytes is refused with the invalid-host error.
\<close>

theorem ParseProxy_invalid_host:
  assumes "url_Parse L u = Inr (Some U)" "ToLower (url_Scheme U) \<in> set proxy_schemes"
    and "length (url_Host U) < 3"
  shows "ParseProxy L u ts = Inl ErrInvalidHost"
  using assms by (simp add: ParseProxy_def Let_def)

theorem ParseProxy_invalid_host_witness:
  "url_Parse ex_lib ''http://ab'' = Inr (Some (ex_url ''http'' None ''ab'')) \<and>
   ToLower ''http'' \<in> set proxy_schemes \<and> length ''ab'' < 3 \<and>
   ParseProxy ex_lib ''http://ab'' [] = Inl ErrInvalidHost"
proof -
  have h1: "url_Parse ex_lib ''http://ab'' = Inr (Some (ex_url ''http'' None ''ab''))"
    by (simp add: ex_lib_def)
  have h2: "ToLower (url_Scheme (ex_url ''http'' None ''ab'')) \<in> set proxy_schemes"
    by (simp add: ex_url_def ToLower_eval proxy_schemes_def)
  have h3: "length (url_Host (ex_url ''http'' None ''ab'')) < 3"
    by (simp add: ex_url_def)
  show ?thesis
    using ParseProxy_invalid_host [OF h1 h2 h3] h1 h2 by (simp add: ex_url_def)
qed

text \<open>
  C35: the credentials of the parsed URL reach the SOCKS5 dialer: when the URL has a user
  name, \<open>getSocksAuth\<close> of the parsed descriptor is that user name with the password
  (empty when the URL has none).
\<close>

theorem getSocksAuth_from_URL:
  assumes "url_Parse L u = Inr (Some U)" "ParseProxy L u ts = Inr q"
    and "url_User U = Some ui" "username ui \<noteq> ''''"
  shows "getSocksAuth (Some q) =
           Some \<lparr>auth_User = username ui, auth_Password = (case password ui of None \<Rightarrow> '''' | Some pw \<Rightarrow> pw)\<rparr>"
proof -
  obtain U' where U': "url_Parse L u = Inr (Some U')"
    and q: "q = \<lparr>URL = Some (if ToLower (url_Scheme U') \<in> set socks_schemes
                       then U'\<lparr>url_Scheme := ''socks5''\<rparr> else U'),
          timeout = (case ts of [] \<Rightarrow> 30 * Second | t # _ \<Rightarrow> t * Millisecond),
          Regexp = None, DialAddr = ''''\<rparr>"
    using assms(2) by (rule ParseProxy_Inr_cases)
  from U' assms(1) have "U' = U" by simp
  with assms(3,4) show ?thesis
    by (simp add: q getSocksAuth_def User_def Pass_def split: option.split)
qed

theorem getSocksAuth_from_URL_witness:
  "url_Parse ex_lib ''SOCKS://u:p@1.2.3.4:1080'' = Inr (Some (ex_url ''SOCKS'' ex_cred ''1.2.3.4:1080'')) \<and>
   getSocksAuth (Some ex_parsed) = Some \<lparr>auth_User = ''u'', auth_Password = ''p''\<rparr>"
proof -
  have h1: "url_Parse ex_lib ''SOCKS://u:p@1.2.3.4:1080'' = Inr (Some (ex_url ''SOCKS'' ex_cred ''1.2.3.4:1080''))"
    by (simp add: ex_lib_def)
  have h3: "url_User (ex_url ''SOCKS'' ex_cred ''1.2.3.4:1080'') = Some \<lparr>username = ''u'', password = Some ''p''\<rparr>"
    by (simp add: ex_url_def ex_cred_def)
  have h4: "username \<lparr>username = ''u'', password = Some ''p''\<rparr> \<noteq> ''''" by simp
  show ?thesis using h1 getSocksAuth_from_URL [OF h1 ex_parse_socks h3 h4] by simp
qed

end
