(* ===== verification/Address.thy ===== *)
theory Address
  imports Prelude
begin

text \<open>
  Network addresses as the dialer handles them. \<open>FormatIP\<close> (Proxy.go, lines
  270--275) renders a resolved IP and a port as the address string handed to the dialers
  and stored in \<open>DialAddr\<close>: \<open>ip:port\<close> for an IPv4 address (also an IPv4-mapped
  IPv6 one), \<open>[ip]:port\<close> otherwise. It rests on two functions of Go's \<open>net\<close>
  package, modelled here from their documented behaviour: \<open>IP.To4\<close> and
  \<open>IP.String\<close> (dotted decimal; RFC 5952 compressed IPv6 as \<open>netip\<close> prints it,
  the first longest run of at least two zero groups replaced by \<open>::\<close>; \<open>?\<close> and
  hexadecimal for other lengths; \<open><nil>\<close> for the empty slice). \<open>net.SplitHostPort\<close>,
  which \<open>Dial\<close> applies to the destination and to the proxy's own address, is
  modelled the same way, with each of its error returns.
\<close>

subsection \<open>\<open>net.IP\<close>\<close>

definition To4 :: "ip \<Rightarrow> ip option" where
  "To4 ip =
     (if length ip = 4 then Some ip
      else if length ip = 16 \<and> take 10 ip = replicate 10 0 \<and> ip ! 10 = 0xff \<and> ip ! 11 = 0xff
      then Some (drop 12 ip)
      else None)"

definition dotted :: "ip \<Rightarrow> string" where
  "dotted p4 =
     dec_string (unat (p4 ! 0)) @ ''.'' @ dec_string (unat (p4 ! 1)) @ ''.'' @
     dec_string (unat (p4 ! 2)) @ ''.'' @ dec_string (unat (p4 ! 3))"

definition v6_groups :: "ip \<Rightarrow> nat list" where
  "v6_groups ip = map (\<lambda>i. unat (ip ! (2 * i)) * 256 + unat (ip ! (2 * i + 1))) [0..<8]"

definition zero_run :: "nat list \<Rightarrow> nat \<Rightarrow> nat" where
  "zero_run gs i = length (takeWhile (\<lambda>g. g = 0) (drop i gs))"

text \<open>
  The first loop of \<open>netip.Addr.appendTo6\<close>: the start and the length of the first
  longest run of zero groups of length at least two; the start 255 means none (Go keeps
  the start and the end, \<open>uint8(255)\<close> both, so the initial length is 0).
\<close>

fun best_zero_run :: "nat list \<Rightarrow> nat list \<Rightarrow> nat \<times> nat \<Rightarrow> nat \<times> nat" where
  "best_zero_run gs [] best = best"
| "best_zero_run gs (i # is) (zs, zl) =
     (let l = zero_run gs i in
      best_zero_run gs is (if 2 \<le> l \<and> zl < l then (i, l) else (zs, zl)))"

text \<open>The second loop: groups joined by \<open>:\<close>, the chosen run printed as \<open>::\<close>.\<close>

function render6 :: "nat list \<Rightarrow> nat \<Rightarrow> nat \<Rightarrow> nat \<Rightarrow> string" where
  "render6 gs zs zl i =
     (if 8 \<le> i then []
      else if i = zs then
        ''::'' @ (if 8 \<le> i + zl then [] else hex_string (gs ! (i + zl)) @ render6 gs zs zl (Suc (i + zl)))
      else (if 0 < i then '':'' else []) @ hex_string (gs ! i) @ render6 gs zs zl (Suc i))"
  by pat_completeness auto
termination
  by (relation "measure (\<lambda>(gs, zs, zl, i). 8 - i)") auto

declare render6.simps [simp del]

definition string6 :: "ip \<Rightarrow> string" where
  "string6 ip =
     (let gs = v6_groups ip; (zs, zl) = best_zero_run gs [0..<8] (255, 0) in render6 gs zs zl 0)"

definition ip_String :: "ip \<Rightarrow> string" where
  "ip_String ip =
     (if ip = [] then ''<nil>''
      else if length ip \<noteq> 4 \<and> length ip \<noteq> 16 then ''?'' @ concat (map hex_byte ip)
      else (case To4 ip of Some p4 \<Rightarrow> dotted p4 | None \<Rightarrow> string6 ip))"

definition FormatIP :: "ip \<Rightarrow> string \<Rightarrow> string" where
  "FormatIP ip port =
     (if To4 ip \<noteq> None then ip_String ip @ '':'' @ port
      else ''['' @ ip_String ip @ '']:'' @ port)"

subsection \<open>\<open>net.SplitHostPort\<close>\<close>

definition split_rest :: "string \<Rightarrow> string \<Rightarrow> nat \<Rightarrow> nat \<Rightarrow> nat \<Rightarrow> error + string \<times> string" where
  "split_rest hp host j k i =
     (if CHR ''['' \<in> set (drop j hp) then Inl (ErrAddr ''unexpected '[' in address'' hp)
      else if CHR '']'' \<in> set (drop k hp) then Inl (ErrAddr ''unexpected ']' in address'' hp)
      else Inr (host, drop (Suc i) hp))"

definition SplitHostPort :: "string \<Rightarrow> error + string \<times> string" where
  "SplitHostPort hp =
     (if CHR '':'' \<notin> set hp then Inl (ErrAddr ''missing port in address'' hp)
      else
        (let i = last_index_of CHR '':'' hp in
         if hd hp = CHR ''['' then
           (if CHR '']'' \<notin> set hp then Inl (ErrAddr ''missing ']' in address'' hp)
            else
              (let e = index_of CHR '']'' hp in
               if Suc e = length hp then Inl (ErrAddr ''missing port in address'' hp)
               else if Suc e = i then split_rest hp (take (e - 1) (drop 1 hp)) 1 (Suc e) i
               else if hp ! Suc e = CHR '':'' then Inl (ErrAddr ''too many colons in address'' hp)
               else Inl (ErrAddr ''missing port in address'' hp)))
         else
           (let host = take i hp in
            if CHR '':'' \<in> set host then Inl (ErrAddr ''too many colons in address'' hp)
            else split_rest hp host 0 0 i)))"

text \<open>\<open>Host, _, _ := net.SplitHostPort(addr)\<close>: the host, or \<open>""\<close> on an error.\<close>

definition split_host :: "string \<Rightarrow> string" where
  "split_host a = (case SplitHostPort a of Inl _ \<Rightarrow> '''' | Inr (h, _) \<Rightarrow> h)"

text \<open>
  The reference for the zero run, as RFC 5952 section 4.2.3 states it and as the AFP's
  IPv6 theory computes it with a maximum over the runs: the first longest run of zero
  groups, if it has at least two groups.
\<close>

definition zero_run_ref :: "nat list \<Rightarrow> nat \<times> nat" where
  "zero_run_ref gs =
     (let runs = map (zero_run gs) [0..<8]; m = foldr max runs 0 in
      if m < 2 then (255, 0) else (index_of m runs, m))"

declare To4_def [model_simps] dotted_def [model_simps] v6_groups_def [model_simps]
  zero_run_def [model_simps] render6.simps [model_simps] string6_def [model_simps]
  ip_String_def [model_simps] FormatIP_def [model_simps] split_rest_def [model_simps]
  SplitHostPort_def [model_simps] split_host_def [model_simps]

subsection \<open>Address lemmas\<close>

lemma dotted_chars: "set (dotted p4) \<subseteq> insert CHR ''.'' (set hex_chars)"
  using dec_string_chars by (fastforce simp: dotted_def)

lemma render6_chars: "set (render6 gs zs zl i) \<subseteq> insert CHR '':'' (set hex_chars)"
proof (induction gs zs zl i rule: render6.induct)
  case (1 gs zs zl i)
  then show ?case
    using hex_string_chars by (subst render6.simps) auto
qed

lemma string6_chars: "set (string6 ip) \<subseteq> insert CHR '':'' (set hex_chars)"
proof -
  obtain zs zl where "best_zero_run (v6_groups ip) [0..<8] (255, 0) = (zs, zl)"
    by fastforce
  then show ?thesis
    using render6_chars by (simp add: string6_def)
qed

lemma ip_String_chars:
  "set (ip_String ip) \<subseteq> set hex_chars \<union> set ''.:?<nil>''"
proof -
  have "set (concat (map hex_byte ip)) \<subseteq> set hex_chars"
    using hex_byte_chars by auto
  moreover have "set (dotted p4) \<subseteq> set hex_chars \<union> set ''.:?<nil>''" for p4
    using dotted_chars [of p4] by auto
  moreover have "set (string6 ip) \<subseteq> set hex_chars \<union> set ''.:?<nil>''"
    using string6_chars [of ip] by auto
  ultimately show ?thesis
    by (auto simp: ip_String_def split: option.splits)
qed

lemma ip_String_no_brackets [simp]:
  "CHR ''['' \<notin> set (ip_String ip)" "CHR '']'' \<notin> set (ip_String ip)"
  using ip_String_chars [of ip] by auto

lemma To4_Some_length: "To4 ip = Some p4 \<Longrightarrow> length p4 = 4 \<and> (length ip = 4 \<or> length ip = 16)"
  by (auto simp: To4_def split: if_splits)

lemma ip_String_v4: "To4 ip = Some p4 \<Longrightarrow> ip_String ip = dotted p4"
  using To4_Some_length [of ip p4] by (auto simp: ip_String_def)

lemma dotted_shape: "dotted p4 \<noteq> [] \<and> hd (dotted p4) \<in> set hex_chars \<and> CHR '':'' \<notin> set (dotted p4)"
proof -
  have "hd (dec_string (unat (p4 ! 0))) \<in> set hex_chars"
    using dec_string_chars digits_base_nonempty hd_in_set by blast
  then show ?thesis
    using dotted_chars [of p4] by (auto simp: dotted_def)
qed

text \<open>
  C25: the address \<open>FormatIP\<close> produces starts with a bracket exactly when the IP is
  not an IPv4 address (nor an IPv4-mapped IPv6 one): DialAddr is in \<open>[ipv6]:port\<close> form
  iff the address is not IPv4.
\<close>

theorem FormatIP_bracketed: "(hd (FormatIP ip port) = CHR ''['') = (To4 ip = None)"
proof (cases "To4 ip")
  case (Some p4)
  then show ?thesis
    using dotted_shape [of p4] by (auto simp: FormatIP_def ip_String_v4)
qed (simp add: FormatIP_def)

text \<open>
  C24: for every IP and every port without \<open>:\<close>, \<open>[\<close> or \<open>]\<close>, the address
  \<open>FormatIP\<close> produces is split by \<open>net.SplitHostPort\<close> back into the IP's
  textual form and the port: the addresses the dialer builds and records are
  well-formed \<open>host:port\<close> strings.
\<close>

theorem FormatIP_SplitHostPort:
  assumes "CHR '':'' \<notin> set port" "CHR ''['' \<notin> set port" "CHR '']'' \<notin> set port"
  shows "SplitHostPort (FormatIP ip port) = Inr (ip_String ip, port)"
proof (cases "To4 ip")
  case (Some p4)
  let ?s = "ip_String ip"
  have s: "?s \<noteq> []" "hd ?s \<noteq> CHR ''[''" "CHR '':'' \<notin> set ?s"
    using dotted_shape [of p4] ip_String_v4 [OF Some] by auto
  have hd: "hd (?s @ CHR '':'' # port) = hd ?s" using s(1) by simp
  show ?thesis
    using Some assms s hd
    by (simp add: FormatIP_def SplitHostPort_def split_rest_def Let_def)
next
  case None
  let ?s = "ip_String ip"
  let ?hp = "FormatIP ip port"
  have eq: "?hp = (CHR ''['' # ?s @ [CHR '']'']) @ CHR '':'' # port"
    using None by (simp add: FormatIP_def)
  have "last_index_of CHR '':'' ((CHR ''['' # ?s @ [CHR '']'']) @ CHR '':'' # port)
          = length (CHR ''['' # ?s @ [CHR '']''])"
    using assms(1) by (rule last_index_of_append_notin)
  then have i: "last_index_of CHR '':'' ?hp = Suc (Suc (length ?s))"
    by (simp only: eq) simp
  have e: "index_of CHR '']'' ?hp = Suc (length ?s)"
    by (simp add: eq)
  have facts: "hd ?hp = CHR ''[''" "CHR '':'' \<in> set ?hp" "CHR '']'' \<in> set ?hp"
    "length ?hp = length ?s + 3 + length port"
    "take (length ?s) (drop (Suc 0) ?hp) = ?s"
    "CHR ''['' \<notin> set (drop (Suc 0) ?hp)"
    "CHR '']'' \<notin> set (drop (Suc (Suc (length ?s))) ?hp)"
    "drop (Suc (Suc (Suc (length ?s)))) ?hp = port"
    using assms by (simp_all add: eq)
  show ?thesis
    by (simp add: SplitHostPort_def split_rest_def Let_def i e facts)
qed

theorem FormatIP_SplitHostPort_witness:
  "SplitHostPort (FormatIP [10, 0, 0, 1] ''8080'') = Inr (ip_String [10, 0, 0, 1], ''8080'') \<and>
   ip_String [10, 0, 0, 1] = ''10.0.0.1''"
proof -
  have h: "CHR '':'' \<notin> set ''8080''" "CHR ''['' \<notin> set ''8080''" "CHR '']'' \<notin> set ''8080''"
    by simp_all
  have s: "ip_String [10, 0, 0, 1] = ''10.0.0.1''" by code_simp
  show ?thesis using FormatIP_SplitHostPort [OF h] s by simp
qed

subsection \<open>The zero-run loop against its reference\<close>

lemma foldr_max_in: "foldr max xs (0::nat) \<noteq> 0 \<Longrightarrow> foldr max xs 0 \<in> set xs"
  by (induction xs) (auto simp: max_def)

lemma best_zero_run_first_max:
  "best_zero_run gs is (zs, zl) =
     (let f = zero_run gs; M = foldr max (map f is) 0 in
      if M \<le> zl \<or> M < 2 then (zs, zl) else (is ! index_of M (map f is), M))"
proof (induction "is" arbitrary: zs zl)
  case Nil
  then show ?case by simp
next
  case (Cons i "is")
  let ?f = "zero_run gs"
  let ?l = "?f i" and ?M' = "foldr max (map ?f is) 0"
  show ?case
  proof (cases "2 \<le> ?l \<and> zl < ?l")
    case True
    then show ?thesis
      using Cons.IH [of i ?l] by (auto simp: Let_def max_def)
  next
    case False
    then show ?thesis
      using Cons.IH [of zs zl] by (auto simp: Let_def max_def)
  qed
qed

text \<open>
  Go's loop that picks the run of zero groups printed as \<open>::\<close> (the first loop of
  \<open>netip.Addr.appendTo6\<close>, starting from \<open>(255, 0)\<close> and replacing the best run only
  by a strictly longer one) computes the reference.
\<close>

lemma best_zero_run_equiv: "best_zero_run gs [0..<8] (255, 0) = zero_run_ref gs"
proof -
  let ?runs = "map (zero_run gs) [0..<8]"
  let ?M = "foldr max ?runs 0"
  show ?thesis
  proof (cases "?M < 2")
    case True
    then show ?thesis by (simp add: best_zero_run_first_max zero_run_ref_def Let_def)
  next
    case False
    then have "?M \<in> set ?runs" by (intro foldr_max_in) simp
    then have "index_of ?M ?runs < 8" by (metis index_of_less length_map length_upt minus_nat.diff_0)
    with False show ?thesis by (simp add: best_zero_run_first_max zero_run_ref_def Let_def)
  qed
qed

end
