(* ===== verification/Net.thy ===== *)
theory Net
  imports Proxy Address
begin

text \<open>
  The world the dialer acts on. \<open>Dial\<close> talks to three collaborators that are not part of
  Proxy.go, and the model makes each an explicit interface:
  \<^item> the network, through \<open>net.Dialer\<close> (\<open>direct.Dial\<close> and \<open>direct.DialContext\<close>,
    Proxy.go lines 256--269) and through the SOCKS5 dialer of \<open>golang.org/x/net/proxy\<close>
    built over it (line 185);
    their outcomes come from a \<open>net_env\<close>, a record of functions fixed for one run, so
    every theorem holds for every behaviour of the network;
  \<^item> the connection returned by a dial (\<open>Write\<close>, \<open>Read\<close>, \<open>Close\<close>), also in
    \<open>net_env\<close>;
  \<^item> the repository's \<open>dns\<close> package (\<open>LookupIP\<close>, \<open>GetFirstIP\<close>, \<open>SetFirstIP\<close>),
    which lives outside src/ and is modelled from the spec: the candidate list of a host
    name comes from \<open>net_env\<close>, the remembered "first" IP per (host, tag) is mutable
    state of the \<open>world\<close>.
  The \<open>world\<close> also keeps the trace of effects (\<open>events\<close>): every dial with its
  timeout and address, every \<open>SetFirstIP\<close>, every write, read and close, in the order
  the code performs them. Ordering claims are statements about this trace.
\<close>

record conn =
  conn_id :: nat
  RemoteAddr :: string

datatype event =
    DialTCP duration string string
  | DialSOCKS string "Auth option" duration string string
  | SetFirst string string ip
  | ConnWrite conn string
  | ConnRead conn
  | ConnClose conn

record net_env =
  env_dial :: "duration \<Rightarrow> string \<Rightarrow> string \<Rightarrow> error + conn"
  env_socks_new :: "string \<Rightarrow> string \<Rightarrow> Auth option \<Rightarrow> error option"
  env_socks :: "string \<Rightarrow> Auth option \<Rightarrow> duration \<Rightarrow> string \<Rightarrow> string \<Rightarrow> error + conn"
  env_lookup :: "string \<Rightarrow> ip list"
  env_parse_ip :: "string \<Rightarrow> ip option"
  env_write :: "conn \<Rightarrow> string \<Rightarrow> error option"
  env_read :: "conn \<Rightarrow> string \<times> error option"

record world =
  first_ips :: "string \<times> string \<Rightarrow> ip option"
  events :: "event list"

definition log_events :: "event list \<Rightarrow> world \<Rightarrow> world" where
  "log_events evs w = w\<lparr>events := events w @ evs\<rparr>"

subsection \<open>The dialers\<close>

text \<open>
  \<open>direct t\<close> is the struct \<open>direct{timeout: t}\<close>; \<open>SOCKS5 a auth t\<close> is the dialer
  \<open>proxy.SOCKS5("tcp", a, auth, direct{timeout: t})\<close>, whose \<open>Dial(network, target)\<close>
  connects to the proxy at \<open>a\<close> and asks it for a tunnel to \<open>target\<close>.
\<close>

datatype dialer = direct duration | SOCKS5 string "Auth option" duration

fun dialer_Dial :: "net_env \<Rightarrow> dialer \<Rightarrow> string \<Rightarrow> string \<Rightarrow> world \<Rightarrow> (error + conn) \<times> world" where
  "dialer_Dial E (direct t) network a w =
     (env_dial E t network a, log_events [DialTCP t network a] w)"
| "dialer_Dial E (SOCKS5 pa auth t) network a w =
     (env_socks E pa auth t network a, log_events [DialSOCKS pa auth t network a] w)"

text \<open>
  \<open>direct.DialContext\<close> (lines 265--269) is \<open>net.Dialer{Timeout: t}.DialContext(ctx, ...)\<close>;
  no function of Proxy.go calls it, but \<open>x/net/proxy\<close>'s SOCKS5 dialer reaches the proxy
  through it, with a background context, since \<open>direct\<close> implements
  \<open>proxy.ContextDialer\<close>. The context enters as whether it is already done: a done
  context fails the dial with \<open>net\<close>'s "operation was canceled" error before any
  connection attempt, a live one makes the same attempt as \<open>Dial\<close>. A cancellation
  arriving while the connection is being made belongs to \<open>net.Dialer\<close> and is not
  modelled.
\<close>

record dial_context =
  ctx_done :: bool

definition direct_DialContext :: "net_env \<Rightarrow> dial_context \<Rightarrow> duration \<Rightarrow> string \<Rightarrow> string \<Rightarrow> world \<Rightarrow> (error + conn) \<times> world" where
  "direct_DialContext E ctx t network a w =
     (if ctx_done ctx then (Inl (ErrNet ''operation was canceled''), w)
      else dialer_Dial E (direct t) network a w)"

subsection \<open>The resolver interface\<close>

definition LookupIP :: "net_env \<Rightarrow> string \<Rightarrow> ip list" where
  "LookupIP E h = env_lookup E h"

definition GetFirstIP :: "world \<Rightarrow> string \<Rightarrow> string \<Rightarrow> ip" where
  "GetFirstIP w h tag = (case first_ips w (h, tag) of None \<Rightarrow> [] | Some ip \<Rightarrow> ip)"

definition SetFirstIP :: "string \<Rightarrow> string \<Rightarrow> ip \<Rightarrow> world \<Rightarrow> world" where
  "SetFirstIP h tag ip w =
     w\<lparr>first_ips := (first_ips w)((h, tag) \<mapsto> ip), events := events w @ [SetFirst h tag ip]\<rparr>"

text \<open>
  The remembered IPs are well-formed when none is the \<open>nil\<close> slice: \<open>Dial\<close> stores
  only IPs it has checked to be non-\<open>nil\<close>, and reads \<open>nil\<close> as "nothing remembered".
\<close>

definition resolver_wf :: "world \<Rightarrow> bool" where
  "resolver_wf w \<longleftrightarrow> (\<forall>k ip. first_ips w k = Some ip \<longrightarrow> ip \<noteq> [])"

declare log_events_def [model_simps] LookupIP_def [model_simps] GetFirstIP_def [model_simps]
  SetFirstIP_def [model_simps]

subsection \<open>Lemmas on effects\<close>

lemma log_events_simps [simp]:
  "events (log_events evs w) = events w @ evs"
  "first_ips (log_events evs w) = first_ips w"
  "log_events [] w = w"
  "log_events evs (log_events evs' w) = log_events (evs' @ evs) w"
  by (simp_all add: log_events_def)

lemma dialer_Dial_world:
  "dialer_Dial E d network a w = (r, w') \<Longrightarrow> first_ips w' = first_ips w"
  by (cases d) auto

lemma direct_DialContext_background:
  "direct_DialContext E \<lparr>ctx_done = False\<rparr> t network a w = dialer_Dial E (direct t) network a w"
  by (simp add: direct_DialContext_def)

lemma direct_DialContext_done:
  "direct_DialContext E \<lparr>ctx_done = True\<rparr> t network a w = (Inl (ErrNet ''operation was canceled''), w)"
  by (simp add: direct_DialContext_def)

lemma SetFirstIP_simps [simp]:
  "events (SetFirstIP h tag ip w) = events w @ [SetFirst h tag ip]"
  "first_ips (SetFirstIP h tag ip w) = (first_ips w)((h, tag) \<mapsto> ip)"
  by (simp_all add: SetFirstIP_def)

lemma resolver_wf_log [simp]: "resolver_wf (log_events evs w) = resolver_wf w"
  by (simp add: resolver_wf_def)

lemma resolver_wf_SetFirstIP:
  "resolver_wf w \<Longrightarrow> ip \<noteq> [] \<Longrightarrow> resolver_wf (SetFirstIP h tag ip w)"
  by (simp add: resolver_wf_def)

lemma GetFirstIP_wf:
  "resolver_wf w \<Longrightarrow> GetFirstIP w h tag \<noteq> [] \<longleftrightarrow> first_ips w (h, tag) \<noteq> None"
  by (auto simp: resolver_wf_def GetFirstIP_def split: option.splits)

end
