(* ===== verification/Fmt.thy ===== *)
theory Fmt
  imports Prelude
begin

text \<open>
  Go's \<open>fmt.Errorf(format)\<close> called with no operands, as the HTTP handshake calls it on the
  proxy's reply (Proxy.go line 251, \<open>fmt.Errorf(string(b))\<close>). The format is not under
  src/; it is modelled from the Go library's \<open>(*pp).doPrintf\<close>, \<open>argNumber\<close>,
  \<open>parseArgNumber\<close>, \<open>parsenum\<close> and \<open>utf8.DecodeRuneInString\<close>, specialised to an
  empty operand list: text outside a verb is copied; \<open>%%\<close> gives \<open>%\<close>; after
  \<open>%\<close> the flags \<open>#0+- \<close>, an argument index \<open>[n]\<close>, a width (digits or \<open>*\<close>) and a
  precision (\<open>.\<close> then digits or \<open>*\<close>) are consumed, a \<open>*\<close> writes \<open>%!(BADWIDTH)\<close>
  or \<open>%!(BADPREC)\<close>, and the verb (one UTF-8 rune, \<open>U+FFFD\<close> for an invalid byte) is
  rendered \<open>%!v(BADINDEX)\<close> after an index and \<open>%!v(MISSING)\<close> otherwise; a format that
  ends inside a verb ends with \<open>%!(NOVERB)\<close>. Each scanner returns the rest of the format,
  as in a parser of type \<open>string \<Rightarrow> 'a \<times> string\<close>.
\<close>

definition is_digit :: "char \<Rightarrow> bool" where
  "is_digit c = ((48::nat) \<le> of_char c \<and> of_char c \<le> (57::nat))"

definition is_flag :: "char \<Rightarrow> bool" where
  "is_flag c = (c \<in> set ''#0+- '')"

text \<open>\<open>parsenum\<close>: a decimal number, given up (with the rest of the format dropped) once
  the value read so far exceeds \<open>1e6\<close> and another digit follows.\<close>

fun parsenum :: "nat \<Rightarrow> bool \<Rightarrow> string \<Rightarrow> nat \<times> bool \<times> string" where
  "parsenum num isnum [] = (num, isnum, [])"
| "parsenum num isnum (c # cs) =
     (if is_digit c
      then (if 1000000 < num then (0, False, [])
            else parsenum (num * 10 + (of_char c - 48)) True cs)
      else (num, isnum, c # cs))"

text \<open>\<open>parseArgNumber\<close> on a format starting with \<open>[\<close>: whether \<open>[digits]\<close> was read,
  and how many bytes are consumed.\<close>

definition parseArgNumber :: "string \<Rightarrow> bool \<times> nat" where
  "parseArgNumber s =
     (if length s < 3 then (False, 1)
      else let j = index_of CHR '']'' (tl s)
           in if j = length (tl s) then (False, 1)
              else (case parsenum 0 False (take j (tl s)) of
                      (_, isnum, r) \<Rightarrow> (isnum \<and> r = [], Suc (Suc j))))"

text \<open>\<open>argNumber\<close> with no operands: \<open>(bad, found, rest)\<close>; an index makes the argument
  number bad, since no operand exists for it.\<close>

definition argNumber :: "string \<Rightarrow> bool \<times> bool \<times> string" where
  "argNumber s =
     (if s \<noteq> [] \<and> hd s = CHR ''[''
      then (case parseArgNumber s of (ok, wid) \<Rightarrow> (True, ok, drop wid s))
      else (False, False, s))"

text \<open>\<open>utf8.DecodeRuneInString\<close>: the length of the valid UTF-8 sequence the string starts
  with, 0 when it starts with an invalid one.\<close>

definition utf8_len :: "string \<Rightarrow> nat" where
  "utf8_len s =
     (let b = map of_char s :: nat list;
          cont = (\<lambda>i lo hi. i < length b \<and> lo \<le> b ! i \<and> b ! i \<le> hi)
      in if b = [] then 0
         else let x = b ! 0 in
           if x < 128 then 1
           else if 194 \<le> x \<and> x \<le> 223 then (if cont 1 128 191 then 2 else 0)
           else if x = 224 then (if cont 1 160 191 \<and> cont 2 128 191 then 3 else 0)
           else if (225 \<le> x \<and> x \<le> 236) \<or> x = 238 \<or> x = 239
             then (if cont 1 128 191 \<and> cont 2 128 191 then 3 else 0)
           else if x = 237 then (if cont 1 128 159 \<and> cont 2 128 191 then 3 else 0)
           else if x = 240 then (if cont 1 144 191 \<and> cont 2 128 191 \<and> cont 3 128 191 then 4 else 0)
           else if 241 \<le> x \<and> x \<le> 243
             then (if cont 1 128 191 \<and> cont 2 128 191 \<and> cont 3 128 191 then 4 else 0)
           else if x = 244 then (if cont 1 128 143 \<and> cont 2 128 191 \<and> cont 3 128 191 then 4 else 0)
           else 0)"

text \<open>The verb: its bytes as \<open>WriteRune\<close> writes them back, and the rest of the format.\<close>

definition decode_verb :: "string \<Rightarrow> string \<times> string" where
  "decode_verb s =
     (if of_char (hd s) < (128::nat) then ([hd s], tl s)
      else if utf8_len s = 0 then ([CHR 0xEF, CHR 0xBF, CHR 0xBD], tl s)
      else (take (utf8_len s) s, drop (utf8_len s) s))"

text \<open>The width of a verb, after its flags and index: \<open>(out, bad, afterIndex, rest)\<close>
  from \<open>(bad, afterIndex, format)\<close>.\<close>

definition verb_width :: "bool \<times> bool \<times> string \<Rightarrow> string \<times> bool \<times> bool \<times> string" where
  "verb_width t =
     (case t of (bad, after, s) \<Rightarrow>
        if s \<noteq> [] \<and> hd s = CHR ''*'' then (''%!(BADWIDTH)'', bad, False, tl s)
        else (case parsenum 0 False s of
                (_, widp, r) \<Rightarrow> ([], bad \<or> (after \<and> widp), after, r)))"

text \<open>The precision: a \<open>.\<close> that is not the last byte, an optional index, then digits or
  \<open>*\<close>.\<close>

definition verb_prec :: "string \<times> bool \<times> bool \<times> string \<Rightarrow> string \<times> bool \<times> bool \<times> string" where
  "verb_prec t =
     (case t of (out, bad, after, s) \<Rightarrow>
        if 2 \<le> length s \<and> hd s = CHR ''.''
        then (case argNumber (tl s) of
                (bad3, after3, s3) \<Rightarrow>
                  if s3 \<noteq> [] \<and> hd s3 = CHR ''*''
                  then (out @ ''%!(BADPREC)'', bad \<or> after \<or> bad3, False, tl s3)
                  else (out, bad \<or> after \<or> bad3, after3, snd (snd (parsenum 0 False s3))))
        else (out, bad, after, s))"

text \<open>\<open>if !afterIndex { argNumber }\<close> just before the verb.\<close>

definition verb_index :: "string \<times> bool \<times> bool \<times> string \<Rightarrow> string \<times> bool \<times> string" where
  "verb_index t =
     (case t of (out, bad, after, s) \<Rightarrow>
        if after then (out, bad, s)
        else (case argNumber s of (b, _, r) \<Rightarrow> (out, bad \<or> b, r)))"

text \<open>One verb of \<open>doPrintf\<close>, from the byte after \<open>%\<close>: the text it writes, and the rest
  of the format or \<open>None\<close> when the format ended inside the verb.\<close>

definition printf_verb :: "string \<Rightarrow> string \<times> string option" where
  "printf_verb s =
     (case verb_index (verb_prec (verb_width (argNumber (dropWhile is_flag s)))) of
        (out, bad, s5) \<Rightarrow>
          if s5 = [] then (out @ ''%!(NOVERB)'', None)
          else (case decode_verb s5 of
                  (v, rest) \<Rightarrow>
                    (out @ (if v = ''%'' then ''%''
                            else if bad then ''%!'' @ v @ ''(BADINDEX)''
                            else ''%!'' @ v @ ''(MISSING)''), Some rest)))"

text \<open>\<open>doPrintf\<close> over the whole format; \<open>fmt.Errorf(format)\<close> is the error whose text it
  returns.\<close>

function doPrintf :: "string \<Rightarrow> string" where
  "doPrintf [] = []"
| "doPrintf (c # s) =
     (if c \<noteq> CHR ''%'' then c # doPrintf s
      else (case printf_verb s of
              (out, None) \<Rightarrow> out
            | (out, Some rest) \<Rightarrow> out @ doPrintf rest))"
  by pat_completeness auto
termination
proof (relation "measure length")
  fix c s out y rest
  assume "\<not> c \<noteq> CHR ''%''" and v: "(out, y) = printf_verb s" and yr: "y = Some rest"
  have pn: "\<And>n b s. length (snd (snd (parsenum n b s))) \<le> length s"
    subgoal for n b s by (induction n b s rule: parsenum.induct) auto
    done
  have pn': "\<And>n b s x y r. parsenum n b s = (x, y, r) \<Longrightarrow> length r \<le> length s"
    using pn by (metis snd_conv)
  have an: "\<And>s. length (snd (snd (argNumber s))) \<le> length s"
    by (simp add: argNumber_def split: prod.splits)
  have an': "\<And>s b f r. argNumber s = (b, f, r) \<Longrightarrow> length r \<le> length s"
    using an by (metis snd_conv)
  have wd: "\<And>t. length (snd (snd (snd (verb_width t)))) \<le> length (snd (snd t))"
    using pn' by (auto simp: verb_width_def split: prod.splits)
  have pr: "\<And>t. length (snd (snd (snd (verb_prec t)))) \<le> length (snd (snd (snd t)))"
    by (auto simp: verb_prec_def split: prod.splits dest!: an' intro: le_trans [OF pn])
  have ix: "\<And>t. length (snd (snd (verb_index t))) \<le> length (snd (snd (snd t)))"
    by (auto simp: verb_index_def split: prod.splits dest!: an')
  let ?s5 = "snd (snd (verb_index (verb_prec (verb_width (argNumber (dropWhile is_flag s))))))"
  have s5: "length ?s5 \<le> length s"
    using ix pr wd an length_dropWhile_le by (meson le_trans)
  have "?s5 \<noteq> [] \<and> rest = snd (decode_verb ?s5)"
    using v [symmetric, unfolded yr] by (auto simp: printf_verb_def split: prod.splits if_splits)
  moreover have "\<And>s. s \<noteq> [] \<Longrightarrow> length (snd (decode_verb s)) < length s"
    by (auto simp: decode_verb_def)
  ultimately have "length rest < length s" using s5 by fastforce
  then show "(rest, c # s) \<in> measure length" by simp
qed simp_all

lemmas printf_defs = printf_verb_def verb_index_def verb_prec_def verb_width_def argNumber_def
  parseArgNumber_def decode_verb_def

text \<open>A format without \<open>%\<close> is printed as it is.\<close>

lemma doPrintf_no_percent: "CHR ''%'' \<notin> set s \<Longrightarrow> doPrintf s = s"
  by (induction s) auto

text \<open>\<open>%%\<close> prints one \<open>%\<close>; a plain ASCII verb with no operand prints
  \<open>%!v(MISSING)\<close>.\<close>

lemma doPrintf_percent: "doPrintf (CHR ''%'' # CHR ''%'' # s) = CHR ''%'' # doPrintf s"
  by (simp add: printf_defs is_flag_def is_digit_def)

lemma doPrintf_missing:
  assumes "of_char v < (128::nat)" "\<not> is_flag v" "\<not> is_digit v"
    and "v \<notin> {CHR ''['', CHR ''*'', CHR ''.'', CHR ''%''}"
  shows "doPrintf (CHR ''%'' # v # s) = ''%!'' @ [v] @ ''(MISSING)'' @ doPrintf s"
  using assms by (simp add: printf_defs)

end
