(* ===== verification/Connect.thy ===== *)
theory Connect
  imports Net Fmt
begin

text \<open>
  The HTTP CONNECT handshake of \<open>Dial\<close> (Proxy.go, lines 236--253), run once a TCP
  connection to an HTTP proxy exists: the request
  \<open>CONNECT addr HTTP/1.1\r\nHost: addr\r\n[Authorization: Basic b64(user:pass)\r\n]\r\n\<close>
  is written, one \<open>Read\<close> of at most 128 bytes is made into a zeroed buffer, fewer than
  13 bytes close the connection and return the read error (possibly \<open>nil\<close>), a first
  line not starting with \<open>HTTP/1.1 200\<close> returns \<open>fmt.Errorf(string(b))\<close>, the whole
  buffer read as a format string (\<open>doPrintf\<close> of theory Fmt), and otherwise the
  connection is returned together with the read error. Base64 is
  \<open>encoding/base64.StdEncoding\<close> (padded, standard alphabet), modelled from RFC 4648.
\<close>

definition b64_alphabet :: string where
  "b64_alphabet = ''ABCDEFGHIJKLMNOPQRSTUVWXYZabcdefghijklmnopqrstuvwxyz0123456789+/''"

definition b64_char :: "nat \<Rightarrow> char" where
  "b64_char v = b64_alphabet ! (v mod 64)"

fun b64_encode :: "nat list \<Rightarrow> string" where
  "b64_encode (a # b # c # rest) =
     (let v = a * 65536 + b * 256 + c in
      [b64_char (v div 262144), b64_char (v div 4096), b64_char (v div 64), b64_char v] @
      b64_encode rest)"
| "b64_encode [a, b] =
     (let v = a * 65536 + b * 256 in
      [b64_char (v div 262144), b64_char (v div 4096), b64_char (v div 64), CHR ''=''])"
| "b64_encode [a] =
     (let v = a * 65536 in [b64_char (v div 262144), b64_char (v div 4096), CHR ''='', CHR ''=''])"
| "b64_encode [] = []"

definition EncodeToString :: "string \<Rightarrow> string" where
  "EncodeToString s = b64_encode (map of_char s)"

text \<open>
  The decoder of RFC 4648, not called by the program: it states what the encoder
  promises (a padding character counts as the digit 0 and ends the input).
\<close>

definition b64_val :: "char \<Rightarrow> nat" where
  "b64_val c = index_of c b64_alphabet mod 64"

fun b64_decode :: "string \<Rightarrow> nat list" where
  "b64_decode (a # b # c # d # rest) =
     (let v = b64_val a * 262144 + b64_val b * 4096 + b64_val c * 64 + b64_val d in
      if c = CHR ''='' then [v div 65536]
      else if d = CHR ''='' then [v div 65536, v div 256 mod 256]
      else [v div 65536, v div 256 mod 256, v mod 256] @ b64_decode rest)"
| "b64_decode _ = []"

definition CRLF :: string where
  "CRLF = [CHR 0x0D, CHR 0x0A]"

definition connect_request :: "Proxy option \<Rightarrow> string \<Rightarrow> string" where
  "connect_request p addr =
     (let us = (if User p \<noteq> '''' then
                  ''Authorization: Basic '' @ EncodeToString (User p @ '':'' @ Pass p) @ CRLF
                else '''')
      in ''CONNECT '' @ addr @ '' HTTP/1.1'' @ CRLF @ ''Host: '' @ addr @ CRLF @ us @ CRLF)"

text \<open>\<open>b := make([]byte, 128); n, er := conn.Read(b)\<close>: the buffer after the read.\<close>

definition read_buffer :: "string \<Rightarrow> string" where
  "read_buffer data = take 128 data @ replicate (128 - length (take 128 data)) (CHR 0x00)"

definition http_handshake :: "net_env \<Rightarrow> Proxy option \<Rightarrow> string \<Rightarrow> conn \<Rightarrow> world \<Rightarrow> conn go_ret \<times> world" where
  "http_handshake E p addr c w =
     (let req = connect_request p addr;
          w1 = log_events [ConnWrite c req] w
      in case env_write E c req of
           Some e \<Rightarrow> ((None, Some e), w1)
         | None \<Rightarrow>
             (case env_read E c of
                (data, er) \<Rightarrow>
                  (let w2 = log_events [ConnRead c] w1;
                       n = length (take 128 data);
                       b = read_buffer data
                   in if n < 13 then ((None, er), log_events [ConnClose c] w2)
                      else if take 12 b \<noteq> ''HTTP/1.1 200'' then ((None, Some (ErrResponse (doPrintf b))), w2)
                      else ((Some c, er), w2))))"

declare b64_alphabet_def [model_simps] b64_char_def [model_simps] EncodeToString_def [model_simps]
  CRLF_def [model_simps] connect_request_def [model_simps] read_buffer_def [model_simps]
  http_handshake_def [model_simps]

subsection \<open>A reply fixture\<close>

text \<open>An environment whose writes succeed and whose one read returns the given bytes and error.\<close>

definition reply_env :: "string \<Rightarrow> error option \<Rightarrow> net_env" where
  "reply_env data er =
     \<lparr>env_dial = (\<lambda>t n a. Inl (ErrNet ''unused'')), env_socks_new = (\<lambda>n a auth. None),
      env_socks = (\<lambda>pa auth t n a. Inl (ErrNet ''unused'')), env_lookup = (\<lambda>h. []),
      env_parse_ip = (\<lambda>h. None), env_write = (\<lambda>c s. None), env_read = (\<lambda>c. (data, er))\<rparr>"

definition ex_proxy_conn :: conn where
  "ex_proxy_conn = \<lparr>conn_id = 7, RemoteAddr = ''10.0.0.3:8080''\<rparr>"

definition empty_world :: world where
  "empty_world = \<lparr>first_ips = Map.empty, events = []\<rparr>"

subsection \<open>Handshake lemmas\<close>

lemma read_buffer_prefix:
  "12 \<le> length data \<Longrightarrow> take 12 (read_buffer data) = take 12 data"
  by (simp add: read_buffer_def)

lemma http_handshake_first_world:
  "http_handshake E p addr c w = (r, w') \<Longrightarrow> first_ips w' = first_ips w"
  by (auto simp: http_handshake_def Let_def split: option.splits prod.splits if_splits)

subsection \<open>Base64 lemmas\<close>

lemma b64_alphabet_facts: "distinct b64_alphabet" "length b64_alphabet = 64"
  "CHR ''='' \<notin> set b64_alphabet"
  unfolding b64_alphabet_def by code_simp+

lemma b64_val_char [simp]: "b64_val (b64_char n) = n mod 64"
  using index_of_nth_distinct [OF b64_alphabet_facts(1), of "n mod 64"] b64_alphabet_facts(2)
  by (simp add: b64_val_def b64_char_def)

lemma b64_char_not_pad [simp]: "b64_char n \<noteq> CHR ''=''"
proof
  assume "b64_char n = CHR ''=''"
  moreover have "b64_char n \<in> set b64_alphabet"
    using b64_alphabet_facts(2) by (simp add: b64_char_def)
  ultimately show False using b64_alphabet_facts(3) by simp
qed

lemma b64_val_pad [simp]: "b64_val CHR ''='' = 0"
  using b64_alphabet_facts(2,3) by (simp add: b64_val_def index_of_notin)

lemma b64_digits:
  fixes n :: nat
  assumes "n < 16777216"
  shows "n div 262144 mod 64 * 262144 + n div 4096 mod 64 * 4096 + n div 64 mod 64 * 64 + n mod 64 = n"
proof -
  have a: "n div 262144 mod 64 = n div 262144" using assms by simp
  have "n div 4096 = n div 4096 div 64 * 64 + n div 4096 mod 64"
    by simp
  moreover have "n div 4096 div 64 = n div 262144"
    using div_mult2_eq [of n 4096 64] by simp
  moreover have "n div 64 = n div 64 div 64 * 64 + n div 64 mod 64"
    by simp
  moreover have "n div 64 div 64 = n div 4096"
    using div_mult2_eq [of n 64 64] by simp
  moreover have "n = n div 64 * 64 + n mod 64"
    by simp
  ultimately show ?thesis using a by linarith
qed

lemma bytes3_split:
  fixes a b c :: nat
  assumes "a < 256" "b < 256" "c < 256"
  shows "(a * 65536 + b * 256 + c) div 65536 = a \<and> (a * 65536 + b * 256 + c) div 256 mod 256 = b \<and>
         (a * 65536 + b * 256 + c) mod 256 = c"
proof -
  have e: "a * 65536 + b * 256 + c = c + (b + a * 256) * 256" by simp
  have m: "(a * 65536 + b * 256 + c) mod 256 = c"
    by (simp only: e mod_mult_self1) (simp add: assms)
  have d: "(a * 65536 + b * 256 + c) div 256 = b + a * 256"
    by (simp only: e div_mult_self1 [of 256]) (simp add: assms)
  have "(b + a * 256) div 256 = a" "(b + a * 256) mod 256 = b"
    by (simp_all only: div_mult_self1 [of 256] mod_mult_self1) (simp_all add: assms)
  moreover have "(a * 65536 + b * 256 + c) div 65536 = (a * 65536 + b * 256 + c) div 256 div 256"
    using div_mult2_eq [of "a * 65536 + b * 256 + c" 256 256] by simp
  ultimately show ?thesis using m d by simp
qed

lemma mult_64_facts:
  fixes v :: nat
  shows "v mod 4096 = 0 \<Longrightarrow> v div 64 mod 64 = 0 \<and> v mod 64 = 0"
proof -
  assume "v mod 4096 = 0"
  then have "4096 dvd v" by (simp add: dvd_eq_mod_eq_0)
  then obtain k where "v = 4096 * k" by (rule dvdE)
  then have "v = 64 * (64 * k)" by simp
  then show ?thesis by simp
qed

lemma b64_decode_group:
  assumes "v < 16777216"
  shows "b64_decode (b64_char (v div 262144) # b64_char (v div 4096) # b64_char (v div 64) # b64_char v # rest) =
           [v div 65536, v div 256 mod 256, v mod 256] @ b64_decode rest"
  by (simp only: b64_decode.simps Let_def b64_val_char b64_char_not_pad if_False b64_digits [OF assms])

lemma b64_decode_group2:
  assumes "v < 16777216" "v mod 64 = 0"
  shows "b64_decode [b64_char (v div 262144), b64_char (v div 4096), b64_char (v div 64), CHR ''=''] =
           [v div 65536, v div 256 mod 256]"
proof -
  have "b64_val CHR ''='' = v mod 64" using assms(2) by simp
  then show ?thesis
    by (simp only: b64_decode.simps Let_def b64_val_char b64_char_not_pad if_False
          b64_digits [OF assms(1)]) simp
qed

lemma b64_decode_group1:
  assumes "v < 16777216" "v mod 4096 = 0"
  shows "b64_decode [b64_char (v div 262144), b64_char (v div 4096), CHR ''='', CHR ''=''] = [v div 65536]"
proof -
  have "v div 64 mod 64 * 64 + v mod 64 = 0" using mult_64_facts [OF assms(2)] by simp
  then have "b64_val CHR ''='' * 64 + b64_val CHR ''='' = v div 64 mod 64 * 64 + v mod 64" by simp
  then show ?thesis
    by (simp only: b64_decode.simps Let_def b64_val_char b64_char_not_pad add.assoc
          b64_digits [OF assms(1), simplified add.assoc]) simp
qed

lemma b64_decode_encode:
  "\<forall>x \<in> set xs. x < 256 \<Longrightarrow> b64_decode (b64_encode xs) = xs"
proof (induction xs rule: b64_encode.induct)
  case (1 a b c rest)
  have lt: "a * 65536 + b * 256 + c < 16777216" using "1.prems" by simp
  show ?case
    unfolding b64_encode.simps Let_def append_Cons append_Nil b64_decode_group [OF lt]
    using "1.prems" "1.IH" bytes3_split [of a b c] by simp
next
  case (2 a b)
  have e: "a * 65536 + b * 256 = 64 * (a * 1024 + b * 4)" by simp
  have lt1: "a * 65536 + b * 256 < 16777216" using "2.prems" by simp
  have lt2: "(a * 65536 + b * 256) mod 64 = 0" by (simp only: e) simp
  note lt = lt1 lt2
  show ?case
    unfolding b64_encode.simps Let_def b64_decode_group2 [OF lt]
    using "2.prems" bytes3_split [of a b 0] by simp
next
  case (3 a)
  have lt: "a * 65536 < 16777216" "(a * 65536) mod 4096 = 0"
    using "3.prems" by simp_all
  show ?case
    unfolding b64_encode.simps Let_def b64_decode_group1 [OF lt]
    using "3.prems" by simp
qed simp

lemma b64_encode_length: "length (b64_encode xs) = 4 * ((length xs + 2) div 3)"
  by (induction xs rule: b64_encode.induct) (simp_all add: Let_def, presburger)

lemma b64_encode_chars: "set (b64_encode xs) \<subseteq> insert CHR ''='' (set b64_alphabet)"
proof -
  have "b64_char n \<in> set b64_alphabet" for n
    using b64_alphabet_facts(2) by (simp add: b64_char_def)
  then show ?thesis
    by (induction xs rule: b64_encode.induct) (simp_all add: Let_def)
qed


lemma of_char_lt_256: "(of_char c :: nat) < 256"
proof -
  have "(of_char c :: nat) mod 256 < 256" by simp
  then show ?thesis by (simp only: of_char_mod_256)
qed

lemma b64_decode_encode_chars: "b64_decode (b64_encode (map of_char s)) = map of_char s"
  by (rule b64_decode_encode) (simp add: of_char_lt_256)

lemma EncodeToString_decode: "map char_of (b64_decode (EncodeToString s)) = s"
proof -
  have "map char_of (map of_char s) = s" by simp
  then show ?thesis unfolding EncodeToString_def b64_decode_encode_chars .
qed

subsection \<open>The handshake outcomes\<close>

text \<open>
  C10: when the proxy's answer has at least 13 bytes but does not start with
  \<open>HTTP/1.1 200\<close>, the handshake fails with \<open>fmt.Errorf(string(b))\<close>: the error text is
  the whole 128-byte read buffer printed as a format string, which is the buffer itself
  exactly when the answer contains no \<open>%\<close>; the connection is neither closed nor
  returned: the trace ends with the write and the read, no close.
\<close>

theorem http_handshake_rejects:
  assumes "env_write E c (connect_request p addr) = None" "env_read E c = (data, er)"
    and "13 \<le> length data" "take 12 data \<noteq> ''HTTP/1.1 200''"
  shows "http_handshake E p addr c w =
           ((None, Some (ErrResponse (doPrintf (read_buffer data)))),
            log_events [ConnWrite c (connect_request p addr), ConnRead c] w) \<and>
         (CHR ''%'' \<notin> set data \<longrightarrow> doPrintf (read_buffer data) = read_buffer data)"
proof
  show "http_handshake E p addr c w =
          ((None, Some (ErrResponse (doPrintf (read_buffer data)))),
           log_events [ConnWrite c (connect_request p addr), ConnRead c] w)"
    using assms by (simp add: http_handshake_def Let_def read_buffer_prefix min_def)
  show "CHR ''%'' \<notin> set data \<longrightarrow> doPrintf (read_buffer data) = read_buffer data"
    by (intro impI doPrintf_no_percent) (auto simp: read_buffer_def dest: in_set_takeD)
qed

theorem http_handshake_rejects_witness:
  "env_write (reply_env ''HTTP/1.1 403 100%d quota'' None) ex_proxy_conn
      (connect_request None ''example.com:443'') = None \<and>
   env_read (reply_env ''HTTP/1.1 403 100%d quota'' None) ex_proxy_conn =
      (''HTTP/1.1 403 100%d quota'', None) \<and>
   13 \<le> length ''HTTP/1.1 403 100%d quota'' \<and>
   take 12 ''HTTP/1.1 403 100%d quota'' \<noteq> ''HTTP/1.1 200'' \<and>
   http_handshake (reply_env ''HTTP/1.1 403 100%d quota'' None) None ''example.com:443''
      ex_proxy_conn empty_world =
     ((None, Some (ErrResponse (''HTTP/1.1 403 100%!d(MISSING) quota'' @ replicate 104 (CHR 0x00)))),
      log_events [ConnWrite ex_proxy_conn (connect_request None ''example.com:443''), ConnRead ex_proxy_conn]
        empty_world)"
proof -
  have h1: "env_write (reply_env ''HTTP/1.1 403 100%d quota'' None) ex_proxy_conn
      (connect_request None ''example.com:443'') = None"
    by (simp add: reply_env_def)
  have h2: "env_read (reply_env ''HTTP/1.1 403 100%d quota'' None) ex_proxy_conn =
      (''HTTP/1.1 403 100%d quota'', None)"
    by (simp add: reply_env_def)
  have h3: "13 \<le> length ''HTTP/1.1 403 100%d quota''" by simp
  have h4: "take 12 ''HTTP/1.1 403 100%d quota'' \<noteq> ''HTTP/1.1 200''" by simp
  have fmt: "doPrintf (read_buffer ''HTTP/1.1 403 100%d quota'') =
      ''HTTP/1.1 403 100%!d(MISSING) quota'' @ replicate 104 (CHR 0x00)"
    by (simp add: read_buffer_def printf_defs is_flag_def is_digit_def doPrintf_no_percent)
  show ?thesis
    using h1 h2 h3 h4 conjunct1 [OF http_handshake_rejects [OF h1 h2 h3 h4]] by (simp only: fmt) simp
qed

text \<open>
  C11: when the proxy's answer has fewer than 13 bytes, the handshake closes the
  connection and returns no connection together with the read's own error, which is
  \<open>nil\<close> when the read itself succeeded: Dial then returns neither a connection nor
  an error.
\<close>

theorem http_handshake_short:
  assumes "env_write E c (connect_request p addr) = None" "env_read E c = (data, er)"
    and "length data < 13"
  shows "http_handshake E p addr c w =
           ((None, er), log_events [ConnWrite c (connect_request p addr), ConnRead c, ConnClose c] w)"
  using assms by (simp add: http_handshake_def Let_def)

theorem http_handshake_short_witness:
  "env_write (reply_env ''HTTP/1.1'' None) ex_proxy_conn (connect_request None ''example.com:443'') = None \<and>
   env_read (reply_env ''HTTP/1.1'' None) ex_proxy_conn = (''HTTP/1.1'', None) \<and>
   length ''HTTP/1.1'' < 13 \<and>
   http_handshake (reply_env ''HTTP/1.1'' None) None ''example.com:443'' ex_proxy_conn empty_world =
     ((None, None),
      log_events [ConnWrite ex_proxy_conn (connect_request None ''example.com:443''), ConnRead ex_proxy_conn,
                  ConnClose ex_proxy_conn] empty_world)"
proof -
  have h1: "env_write (reply_env ''HTTP/1.1'' None) ex_proxy_conn (connect_request None ''example.com:443'') = None"
    by (simp add: reply_env_def)
  have h2: "env_read (reply_env ''HTTP/1.1'' None) ex_proxy_conn = (''HTTP/1.1'', None)"
    by (simp add: reply_env_def)
  have h3: "length ''HTTP/1.1'' < 13" by simp
  show ?thesis using h1 h2 h3 http_handshake_short [OF h1 h2 h3] by simp
qed

text \<open>
  C12: when the proxy's answer has at least 13 bytes and starts with \<open>HTTP/1.1 200\<close>,
  the handshake returns the connection, together with the read's error if the read
  reported one; nothing else is read, so bytes of the answer beyond the one read stay
  in the stream the caller receives.
\<close>

theorem http_handshake_accepts:
  assumes "env_write E c (connect_request p addr) = None" "env_read E c = (data, er)"
    and "13 \<le> length data" "take 12 data = ''HTTP/1.1 200''"
  shows "http_handshake E p addr c w =
           ((Some c, er), log_events [ConnWrite c (connect_request p addr), ConnRead c] w)"
  using assms by (simp add: http_handshake_def Let_def read_buffer_prefix min_def)

theorem http_handshake_accepts_witness:
  "env_write (reply_env ''HTTP/1.1 200 OK'' None) ex_proxy_conn (connect_request None ''example.com:443'') = None \<and>
   env_read (reply_env ''HTTP/1.1 200 OK'' None) ex_proxy_conn = (''HTTP/1.1 200 OK'', None) \<and>
   13 \<le> length ''HTTP/1.1 200 OK'' \<and> take 12 ''HTTP/1.1 200 OK'' = ''HTTP/1.1 200'' \<and>
   http_handshake (reply_env ''HTTP/1.1 200 OK'' None) None ''example.com:443'' ex_proxy_conn empty_world =
     ((Some ex_proxy_conn, None),
      log_events [ConnWrite ex_proxy_conn (connect_request None ''example.com:443''), ConnRead ex_proxy_conn]
        empty_world)"
proof -
  have h1: "env_write (reply_env ''HTTP/1.1 200 OK'' None) ex_proxy_conn (connect_request None ''example.com:443'') = None"
    by (simp add: reply_env_def)
  have h2: "env_read (reply_env ''HTTP/1.1 200 OK'' None) ex_proxy_conn = (''HTTP/1.1 200 OK'', None)"
    by (simp add: reply_env_def)
  have h3: "13 \<le> length ''HTTP/1.1 200 OK''" by simp
  have h4: "take 12 ''HTTP/1.1 200 OK'' = ''HTTP/1.1 200''" by simp
  show ?thesis using h1 h2 h3 h4 http_handshake_accepts [OF h1 h2 h3 h4] by simp
qed

subsection \<open>The CONNECT request\<close>

text \<open>
  C27: when the descriptor has a user name, the CONNECT request carries exactly one
  credentials line: the request is the CONNECT line, the Host line, an
  \<open>Authorization: Basic\<close> line whose token contains no CR or LF and decodes to
  \<open>user:password\<close>, and the blank line.
\<close>

theorem connect_request_credentials:
  assumes "User p \<noteq> ''''"
  shows "\<exists>tok. connect_request p addr =
            ''CONNECT '' @ addr @ '' HTTP/1.1'' @ CRLF @ ''Host: '' @ addr @ CRLF @
            ''Authorization: Basic '' @ tok @ CRLF @ CRLF \<and>
          CHR 0x0D \<notin> set tok \<and> CHR 0x0A \<notin> set tok \<and>
          map char_of (b64_decode tok) = User p @ '':'' @ Pass p"
proof -
  let ?tok = "EncodeToString (User p @ '':'' @ Pass p)"
  have "set ?tok \<subseteq> insert CHR ''='' (set b64_alphabet)"
    unfolding EncodeToString_def by (rule b64_encode_chars)
  moreover have "CHR 0x0D \<notin> insert CHR ''='' (set b64_alphabet)"
    "CHR 0x0A \<notin> insert CHR ''='' (set b64_alphabet)"
    unfolding b64_alphabet_def by code_simp+
  ultimately have "CHR 0x0D \<notin> set ?tok" "CHR 0x0A \<notin> set ?tok" by blast+
  moreover have "map char_of (b64_decode ?tok) = User p @ '':'' @ Pass p"
    by (rule EncodeToString_decode)
  ultimately show ?thesis
    using assms by (intro exI [of _ ?tok]) (simp add: connect_request_def)
qed

theorem connect_request_credentials_witness:
  "User (Some ex_parsed) \<noteq> '''' \<and>
   (\<exists>tok. connect_request (Some ex_parsed) ''example.com:443'' =
            ''CONNECT example.com:443 HTTP/1.1'' @ CRLF @ ''Host: example.com:443'' @ CRLF @
            ''Authorization: Basic '' @ tok @ CRLF @ CRLF \<and>
          CHR 0x0D \<notin> set tok \<and> CHR 0x0A \<notin> set tok \<and>
          map char_of (b64_decode tok) = ''u:p'')"
proof -
  have h: "User (Some ex_parsed) \<noteq> ''''"
    by (simp add: User_def ex_parsed_def ex_url_def ex_cred_def)
  have u: "User (Some ex_parsed) @ '':'' @ Pass (Some ex_parsed) = ''u:p''"
    by (simp add: User_def Pass_def ex_parsed_def ex_url_def ex_cred_def)
  show ?thesis
    using h connect_request_credentials [OF h, of "''example.com:443''"] by (simp only: u) simp
qed

end
