(* ===== verification/Fallback.thy ===== *)
theory Fallback
  imports Prelude
begin

text \<open>
  The abstract specification of how \<open>Dial\<close> reaches a proxy (spec \<section>4.2, "tie-break and
  ordering rule"): a plan of attempts is tried strictly one after the other, in order; the
  first attempt that connects wins and nothing after it is tried; if every planned attempt
  fails, a terminal attempt is made and its outcome, success or error, is the result. Each
  planned attempt may carry a key that is to be remembered when it wins (the resolver's
  "remembered best IP"). \<open>fallback d plan z\<close> returns the outcome, the attempted
  addresses in order, and the key of the winning attempt. Both branches of \<open>Dial\<close> are
  proved to implement this function (theory \<open>Dialer\<close>).
\<close>

fun fallback :: "('a \<Rightarrow> 'e + 'c) \<Rightarrow> ('a \<times> 'k option) list \<Rightarrow> 'a \<Rightarrow> ('e + 'c) \<times> 'a list \<times> 'k option" where
  "fallback d [] z = (d z, [z], None)"
| "fallback d ((a, k) # plan) z =
     (case d a of
        Inr c \<Rightarrow> (Inr c, [a], k)
      | Inl _ \<Rightarrow> (case fallback d plan z of (r, tried, win) \<Rightarrow> (r, a # tried, win)))"

lemma fallback_tried_nonempty: "fallback d plan z = (r, tried, win) \<Longrightarrow> tried \<noteq> []"
  by (induction d plan z arbitrary: r tried win rule: fallback.induct)
    (auto split: sum.splits prod.splits)

text \<open>A failed planned attempt hands the rest of the search to the rest of the plan.\<close>

lemma fallback_failed_step:
  assumes "d a = Inl e" "fallback d ((a, k) # plan) z = (r, tried, win)"
  obtains tried' where "fallback d plan z = (r, tried', win)" "tried = a # tried'" "tried' \<noteq> []"
proof -
  obtain r' tried' win' where rec: "fallback d plan z = (r', tried', win')"
    by (cases "fallback d plan z") auto
  with assms have "r = r'" "win = win'" "tried = a # tried'" by auto
  moreover from rec have "tried' \<noteq> []" by (rule fallback_tried_nonempty)
  ultimately show ?thesis using rec that by simp
qed

lemma fallback_failed_cases:
  assumes "d a = Inl e"
  obtains r tried win where "fallback d plan z = (r, tried, win)"
    "fallback d ((a, k) # plan) z = (r, a # tried, win)" "tried \<noteq> []"
proof -
  obtain r tried win where rec: "fallback d plan z = (r, tried, win)"
    by (cases "fallback d plan z") auto
  moreover from rec have "tried \<noteq> []" by (rule fallback_tried_nonempty)
  ultimately show ?thesis using assms that by simp
qed

text \<open>The outcome is that of the last attempt.\<close>

lemma fallback_result: "fallback d plan z = (r, tried, win) \<Longrightarrow> r = d (last tried)"
proof (induction d plan z arbitrary: r tried win rule: fallback.induct)
  case (1 d z)
  then show ?case by auto
next
  case (2 d a k plan z)
  show ?case
  proof (cases "d a")
    case (Inl e)
    from Inl "2.prems" obtain tried' where rec: "fallback d plan z = (r, tried', win)"
      and "tried = a # tried'" "tried' \<noteq> []"
      by (rule fallback_failed_step)
    then show ?thesis using "2.IH" [OF Inl rec] by simp
  next
    case (Inr c)
    with "2.prems" show ?thesis by auto
  qed
qed

text \<open>The attempts follow the plan's order, the terminal attempt last.\<close>

lemma fallback_order:
  "fallback d plan z = (r, tried, win) \<Longrightarrow> take (length tried) (map fst plan @ [z]) = tried"
  by (induction d plan z arbitrary: r tried win rule: fallback.induct)
    (auto split: sum.splits prod.splits)

text \<open>Every attempt before the last one failed.\<close>

lemma fallback_earlier_failed:
  "fallback d plan z = (r, tried, win) \<Longrightarrow> a \<in> set (butlast tried) \<Longrightarrow> isl (d a)"
proof (induction d plan z arbitrary: r tried win rule: fallback.induct)
  case (1 d z)
  then show ?case by auto
next
  case (2 d b k plan z)
  show ?case
  proof (cases "d b")
    case (Inl e)
    from Inl "2.prems"(1) obtain tried' where rec: "fallback d plan z = (r, tried', win)"
      and t: "tried = b # tried'" "tried' \<noteq> []"
      by (rule fallback_failed_step)
    with "2.prems"(2) have "a = b \<or> a \<in> set (butlast tried')" by auto
    then show ?thesis
      using Inl "2.IH" [OF Inl rec] by auto
  next
    case (Inr c)
    with "2.prems" show ?thesis by auto
  qed
qed

text \<open>The search stops early only at a success.\<close>

lemma fallback_exhausted:
  "fallback d plan z = (Inl e, tried, win) \<Longrightarrow> tried = map fst plan @ [z] \<and> win = None"
  by (induction d plan z arbitrary: tried win rule: fallback.induct)
    (auto split: sum.splits prod.splits)

text \<open>A key is reported only for a planned attempt that connected.\<close>

lemma fallback_win:
  "fallback d plan z = (r, tried, Some k) \<Longrightarrow> (last tried, Some k) \<in> set plan \<and> \<not> isl r"
proof (induction d plan z arbitrary: r tried rule: fallback.induct)
  case (1 d z)
  then show ?case by simp
next
  case (2 d a k' plan z)
  show ?case
  proof (cases "d a")
    case (Inl e)
    from Inl "2.prems" obtain tried' where rec: "fallback d plan z = (r, tried', Some k)"
      and "tried = a # tried'" "tried' \<noteq> []"
      by (rule fallback_failed_step)
    then show ?thesis
      using "2.IH" [OF Inl rec] by auto
  next
    case (Inr c)
    with "2.prems" have "r = Inr c" "tried = [a]" "k' = Some k" by auto
    then show ?thesis by simp
  qed
qed

text \<open>A planned attempt that connects makes the search succeed.\<close>

lemma fallback_progress:
  "(a, k) \<in> set plan \<Longrightarrow> \<not> isl (d a) \<Longrightarrow> \<not> isl (fst (fallback d plan z))"
proof (induction d plan z rule: fallback.induct)
  case (1 d z)
  then show ?case by simp
next
  case (2 d b k' plan z)
  show ?case
  proof (cases "d b")
    case (Inl e)
    with "2.prems" have "(a, k) \<in> set plan" by auto
    with "2.IH" [OF Inl] "2.prems"(2) have nr: "\<not> isl (fst (fallback d plan z))" by simp
    obtain r tried win where "fallback d plan z = (r, tried, win)"
      by (cases "fallback d plan z") auto
    with Inl nr show ?thesis by simp
  qed simp
qed

text \<open>At most one attempt per planned entry and the terminal one.\<close>

lemma fallback_tried_length:
  assumes "fallback d plan z = (r, tried, win)"
  shows "length tried \<le> Suc (length plan)"
proof -
  have "length (take (length tried) (map fst plan @ [z])) = length tried"
    using fallback_order [OF assms] by simp
  then show ?thesis by (simp add: min_def split: if_splits)
qed

end
