(* ===== verification/Dialer.thy ===== *)
theory Dialer
  imports Connect Fallback
begin

text \<open>
  \<open>Proxy.Dial\<close> and \<open>Proxy.DialWithTimeout\<close> (Proxy.go, lines 139--254), block by
  block. A dial takes the network environment, the descriptor (\<open>None\<close> for a \<open>nil\<close>
  pointer), the network name, the destination \<open>host:port\<close> and the world, and returns
  Go's pair (connection, error), the descriptor with its updated \<open>DialAddr\<close>, and the
  world with the resolver's remembered IPs and the trace of effects.
  \<^item> \<open>dial_direct_remote\<close>: lines 156--160 and 164--168, the direct dial used when the
    descriptor has no URL or the bypass predicate fires.
  \<^item> \<open>socks_candidates\<close>, \<open>socks_rest\<close>, \<open>socks_branch\<close>: lines 184--211.
  \<^item> \<open>http_candidates\<close>, \<open>http_fallback\<close>, \<open>http_connect\<close>: lines 213--235; then the
    handshake of theory \<open>Connect\<close> (\<open>http_branch\<close>).
  \<^item> \<open>dial_via_proxy\<close>: lines 172--183, the resolution of the proxy's own host.
  \<^item> \<open>Dial\<close>: lines 147--170 around them; \<open>DialWithTimeout\<close>: lines 139--146.
\<close>

type_synonym 'r dial_res = "'r \<times> Proxy \<times> world"

definition dial_direct_remote :: "net_env \<Rightarrow> duration \<Rightarrow> string \<Rightarrow> string \<Rightarrow> Proxy \<Rightarrow> world \<Rightarrow> conn go_ret dial_res" where
  "dial_direct_remote E t network addr q w =
     (case dialer_Dial E (direct t) network addr w of
        (r, w1) \<Rightarrow> (go_ret r, (case r of Inr c \<Rightarrow> q\<lparr>DialAddr := RemoteAddr c\<rparr> | Inl _ \<Rightarrow> q), w1))"

subsection \<open>The SOCKS5 branch\<close>

fun socks_candidates :: "net_env \<Rightarrow> dialer \<Rightarrow> string \<Rightarrow> string \<Rightarrow> string \<Rightarrow> ip list \<Rightarrow> Proxy \<Rightarrow> world \<Rightarrow> conn option dial_res" where
  "socks_candidates E d network host port [] q w = (None, q, w)"
| "socks_candidates E d network host port (ip # ips) q w =
     (if ip = [] then socks_candidates E d network host port ips q w
      else
        (case dialer_Dial E d network (FormatIP ip port) w of
           (Inr c, w1) \<Rightarrow> (Some c, q\<lparr>DialAddr := FormatIP ip port\<rparr>, SetFirstIP host '''' ip w1)
         | (Inl _, w1) \<Rightarrow> socks_candidates E d network host port ips q w1))"

definition socks_rest :: "net_env \<Rightarrow> dialer \<Rightarrow> string \<Rightarrow> string \<Rightarrow> string \<Rightarrow> string \<Rightarrow> ip list \<Rightarrow> Proxy \<Rightarrow> world \<Rightarrow> conn go_ret dial_res" where
  "socks_rest E d network addr host port ips q w =
     (case socks_candidates E d network host port ips q w of
        (Some c, q1, w1) \<Rightarrow> ((Some c, None), q1, w1)
      | (None, q1, w1) \<Rightarrow>
          (case dialer_Dial E d network addr w1 of
             (r, w2) \<Rightarrow> (go_ret r, (case r of Inr _ \<Rightarrow> q1\<lparr>DialAddr := addr\<rparr> | Inl _ \<Rightarrow> q1), w2)))"

definition socks_branch :: "net_env \<Rightarrow> duration \<Rightarrow> string \<Rightarrow> string \<Rightarrow> string \<Rightarrow> string \<Rightarrow> string \<Rightarrow> ip list \<Rightarrow> ip \<Rightarrow> Proxy \<Rightarrow> world \<Rightarrow> conn go_ret dial_res" where
  "socks_branch E t network addr proxyAddr host port ips first q w =
     (let auth = getSocksAuth (Some q) in
      case env_socks_new E ''tcp'' proxyAddr auth of
        Some err \<Rightarrow> ((None, Some err), q, w)
      | None \<Rightarrow>
          (let d = SOCKS5 proxyAddr auth t in
           if first \<noteq> [] then
             (case dialer_Dial E d network (FormatIP first port) w of
                (Inr c, w1) \<Rightarrow> ((Some c, None), q\<lparr>DialAddr := FormatIP first port\<rparr>, w1)
              | (Inl _, w1) \<Rightarrow> socks_rest E d network addr host port ips q w1)
           else socks_rest E d network addr host port ips q w))"

subsection \<open>The HTTP CONNECT branch\<close>

fun http_candidates :: "net_env \<Rightarrow> dialer \<Rightarrow> string \<Rightarrow> string \<Rightarrow> string \<Rightarrow> ip list \<Rightarrow> Proxy \<Rightarrow> world \<Rightarrow> conn option dial_res" where
  "http_candidates E d network host port [] q w = (None, q, w)"
| "http_candidates E d network host port (ip # ips) q w =
     (if ip = [] then http_candidates E d network host port ips q w
      else
        (let q1 = q\<lparr>DialAddr := FormatIP ip port\<rparr> in
         case dialer_Dial E d network (DialAddr q1) w of
           (Inr c, w1) \<Rightarrow> (Some c, q1, SetFirstIP host '''' ip w1)
         | (Inl _, w1) \<Rightarrow> http_candidates E d network host port ips q1 w1))"

definition http_fallback :: "net_env \<Rightarrow> dialer \<Rightarrow> string \<Rightarrow> string \<Rightarrow> string \<Rightarrow> string \<Rightarrow> ip list \<Rightarrow> Proxy \<Rightarrow> world \<Rightarrow> (error + conn) dial_res" where
  "http_fallback E d network proxyAddr host port ips q w =
     (case http_candidates E d network host port ips q w of
        (Some c, q1, w1) \<Rightarrow> (Inr c, q1, w1)
      | (None, q1, w1) \<Rightarrow>
          (let q2 = q1\<lparr>DialAddr := proxyAddr\<rparr> in
           case dialer_Dial E d network (DialAddr q2) w1 of (r, w2) \<Rightarrow> (r, q2, w2)))"

definition http_connect :: "net_env \<Rightarrow> duration \<Rightarrow> string \<Rightarrow> string \<Rightarrow> string \<Rightarrow> string \<Rightarrow> ip list \<Rightarrow> ip \<Rightarrow> Proxy \<Rightarrow> world \<Rightarrow> (error + conn) dial_res" where
  "http_connect E t network proxyAddr host port ips first q w =
     (let d = direct t in
      if first \<noteq> [] then
        (let q0 = q\<lparr>DialAddr := FormatIP first port\<rparr> in
         case dialer_Dial E d network (DialAddr q0) w of
           (Inr c, w0) \<Rightarrow> (Inr c, q0, w0)
         | (Inl _, w0) \<Rightarrow> http_fallback E d network proxyAddr host port ips q0 w0)
      else http_fallback E d network proxyAddr host port ips q w)"

definition http_branch :: "net_env \<Rightarrow> duration \<Rightarrow> string \<Rightarrow> string \<Rightarrow> string \<Rightarrow> string \<Rightarrow> string \<Rightarrow> ip list \<Rightarrow> ip \<Rightarrow> Proxy \<Rightarrow> world \<Rightarrow> conn go_ret dial_res" where
  "http_branch E t network addr proxyAddr host port ips first q w =
     (case http_connect E t network proxyAddr host port ips first q w of
        (Inl e, q1, w1) \<Rightarrow> ((None, Some e), q1, w1)
      | (Inr c, q1, w1) \<Rightarrow> (case http_handshake E (Some q1) addr c w1 of (r, w2) \<Rightarrow> (r, q1, w2)))"

subsection \<open>Resolving the proxy and dispatching\<close>

definition dial_via_proxy :: "net_env \<Rightarrow> duration \<Rightarrow> string \<Rightarrow> string \<Rightarrow> url \<Rightarrow> Proxy \<Rightarrow> world \<Rightarrow> conn go_ret dial_res" where
  "dial_via_proxy E t network addr U q w =
     (let proxyAddr = url_Host U;
          sp = SplitHostPort proxyAddr;
          (host, port) = (case sp of Inl _ \<Rightarrow> ('''', '''') | Inr hp \<Rightarrow> hp);
          resolve = (\<not> isl sp \<and> env_parse_ip E host = None);
          ips = (if resolve then LookupIP E host else []);
          first = (if resolve then GetFirstIP w host '''' else [])
      in if IsSocksType (Some q) then socks_branch E t network addr proxyAddr host port ips first q w
         else http_branch E t network addr proxyAddr host port ips first q w)"

definition bypass :: "Proxy \<Rightarrow> string \<Rightarrow> bool" where
  "bypass q host = (case Regexp q of None \<Rightarrow> False | Some f \<Rightarrow> host \<noteq> '''' \<and> f host)"

definition Dial :: "net_env \<Rightarrow> Proxy option \<Rightarrow> string \<Rightarrow> string \<Rightarrow> world \<Rightarrow> conn go_ret \<times> Proxy option \<times> world" where
  "Dial E p network addr w =
     (let t = getTimeout p; host = split_host addr in
      case p of
        None \<Rightarrow> (case dialer_Dial E (direct t) network addr w of (r, w1) \<Rightarrow> (go_ret r, None, w1))
      | Some q0 \<Rightarrow>
          (let q = q0\<lparr>DialAddr := host\<rparr> in
           case (case URL q of
                   None \<Rightarrow> dial_direct_remote E t network addr q w
                 | Some U \<Rightarrow>
                     if bypass q host then dial_direct_remote E t network addr q w
                     else dial_via_proxy E t network addr U q w) of
             (r, q', w') \<Rightarrow> (r, Some q', w')))"

definition DialWithTimeout :: "url_lib \<Rightarrow> net_env \<Rightarrow> Proxy option \<Rightarrow> string \<Rightarrow> string \<Rightarrow> duration \<Rightarrow> world \<Rightarrow> conn go_ret \<times> world" where
  "DialWithTimeout L E p network addr T w =
     (let pp = (case Clone L p of None \<Rightarrow> zero_Proxy | Some n \<Rightarrow> n) in
      case Dial E (Some (pp\<lparr>timeout := T\<rparr>)) network addr w of (r, _, w') \<Rightarrow> (r, w'))"

subsection \<open>The plan of attempts\<close>

text \<open>
  What the two branches try, in the terms of the abstract \<open>fallback\<close>: the remembered
  IP if there is one (not re-remembered when it wins), then every non-\<open>nil\<close>
  candidate in the resolver's order (remembered when it wins), with the proxy's port.
  \<open>record_win\<close> is the \<open>dns.SetFirstIP\<close> call made for a winning candidate.
\<close>

definition resolve_plan :: "ip \<Rightarrow> string \<Rightarrow> ip list \<Rightarrow> (string \<times> ip option) list" where
  "resolve_plan first port ips =
     (if first \<noteq> [] then [(FormatIP first port, None)] else []) @
     map (\<lambda>ip. (FormatIP ip port, Some ip)) (filter (\<lambda>ip. ip \<noteq> []) ips)"

definition record_win :: "string \<Rightarrow> ip option \<Rightarrow> world \<Rightarrow> world" where
  "record_win host win w = (case win of None \<Rightarrow> w | Some ip \<Rightarrow> SetFirstIP host '''' ip w)"

abbreviation candidate_plan :: "string \<Rightarrow> ip list \<Rightarrow> (string \<times> ip option) list" where
  "candidate_plan port ips \<equiv> map (\<lambda>ip. (FormatIP ip port, Some ip)) (filter (\<lambda>ip. ip \<noteq> []) ips)"

subsection \<open>An example configuration\<close>

text \<open>
  A proxy \<open>proxy.local:8080\<close> whose host name resolves to 10.0.0.2 and 10.0.0.3, of which
  only 10.0.0.3 accepts TCP connections; a SOCKS5 proxy that opens tunnels only to
  10.0.0.1:1080; an HTTP proxy that answers \<open>HTTP/1.1 200\<close>. The witnesses run on it.
\<close>

definition ex_conn :: conn where
  "ex_conn = \<lparr>conn_id = 1, RemoteAddr = ''10.0.0.3:8080''\<rparr>"

definition ex_env :: net_env where
  "ex_env =
     \<lparr>env_dial = (\<lambda>t n a. if a = ''10.0.0.3:8080'' then Inr ex_conn else Inl (ErrNet ''connection refused'')),
      env_socks_new = (\<lambda>n a auth. None),
      env_socks = (\<lambda>pa auth t n a. if a = ''10.0.0.1:1080'' then Inr ex_conn else Inl (ErrNet ''connection refused'')),
      env_lookup = (\<lambda>h. if h = ''proxy.local'' then [[10, 0, 0, 2], [10, 0, 0, 3]] else []),
      env_parse_ip = (\<lambda>h. None),
      env_write = (\<lambda>c s. None),
      env_read = (\<lambda>c. (''HTTP/1.1 200 Connection established'' @ CRLF @ CRLF, None))\<rparr>"

definition ex_world :: world where
  "ex_world = \<lparr>first_ips = Map.empty, events = []\<rparr>"

definition ex_proxy :: Proxy where
  "ex_proxy =
     \<lparr>URL = Some \<lparr>url_Scheme = ''http'', url_User = None, url_Host = ''proxy.local:8080'', url_Rest = ''''\<rparr>,
      timeout = 30 * Second, Regexp = None, DialAddr = ''''\<rparr>"

text \<open>A descriptor that differs from another at most in its \<open>DialAddr\<close>.\<close>

definition same_descriptor :: "Proxy \<Rightarrow> Proxy \<Rightarrow> bool" where
  "same_descriptor q q' \<longleftrightarrow> q' = q\<lparr>DialAddr := DialAddr q'\<rparr>"

declare dial_direct_remote_def [model_simps] socks_rest_def [model_simps]
  socks_branch_def [model_simps] http_fallback_def [model_simps] http_connect_def [model_simps]
  http_branch_def [model_simps] dial_via_proxy_def [model_simps] bypass_def [model_simps]
  Dial_def [model_simps] DialWithTimeout_def [model_simps]
  resolve_plan_def [model_simps] record_win_def [model_simps]

subsection \<open>Refinement of the abstract fallback\<close>

lemma record_win_None [simp]: "record_win host None w = w"
  by (simp add: record_win_def)

lemma http_fallback_refines:
  "http_fallback E (direct t) network proxyAddr host port ips q w =
     (case fallback (env_dial E t network) (candidate_plan port ips) proxyAddr of
        (r, tried, win) \<Rightarrow>
          (r, q\<lparr>DialAddr := last tried\<rparr>, record_win host win (log_events (map (DialTCP t network) tried) w)))"
proof (induction ips arbitrary: q w)
  case Nil
  then show ?case by (simp add: http_fallback_def)
next
  case (Cons ip ips)
  show ?case
  proof (cases "ip = []")
    case True
    with Cons.IH show ?thesis by (simp add: http_fallback_def)
  next
    case False
    show ?thesis
    proof (cases "env_dial E t network (FormatIP ip port)")
      case (Inl e)
      obtain r tried win where fb: "fallback (env_dial E t network) (candidate_plan port ips) proxyAddr = (r, tried, win)"
        and "tried \<noteq> []"
        using Inl by (rule fallback_failed_cases)
      moreover have "http_fallback E (direct t) network proxyAddr host port (ip # ips) q w =
                     http_fallback E (direct t) network proxyAddr host port ips
                       (q\<lparr>DialAddr := FormatIP ip port\<rparr>) (log_events [DialTCP t network (FormatIP ip port)] w)"
        using False Inl by (simp add: http_fallback_def)
      ultimately show ?thesis
        using False Inl fb Cons.IH by simp
    next
      case (Inr c)
      with False show ?thesis by (simp add: http_fallback_def record_win_def)
    qed
  qed
qed

lemma http_connect_eq_fallback:
  "http_connect E t network proxyAddr host port ips first q w =
     (case fallback (env_dial E t network) (resolve_plan first port ips) proxyAddr of
        (r, tried, win) \<Rightarrow>
          (r, q\<lparr>DialAddr := last tried\<rparr>, record_win host win (log_events (map (DialTCP t network) tried) w)))"
proof (cases "first = []")
  case True
  then show ?thesis
    by (simp add: http_connect_def resolve_plan_def http_fallback_refines)
next
  case False
  let ?a = "FormatIP first port"
  show ?thesis
  proof (cases "env_dial E t network ?a")
    case (Inl e)
    obtain r tried win where fb: "fallback (env_dial E t network) (candidate_plan port ips) proxyAddr = (r, tried, win)"
      and "tried \<noteq> []"
      using Inl by (rule fallback_failed_cases)
    then show ?thesis
      using False Inl fb
      by (simp add: http_connect_def resolve_plan_def http_fallback_refines)
  next
    case (Inr c)
    with False show ?thesis
      by (simp add: http_connect_def resolve_plan_def)
  qed
qed

lemma socks_rest_refines:
  "socks_rest E (SOCKS5 pa auth t) network addr host port ips q w =
     (case fallback (env_socks E pa auth t network) (candidate_plan port ips) addr of
        (r, tried, win) \<Rightarrow>
          (go_ret r, (if isl r then q else q\<lparr>DialAddr := last tried\<rparr>),
           record_win host win (log_events (map (DialSOCKS pa auth t network) tried) w)))"
proof (induction ips arbitrary: w)
  case Nil
  then show ?case by (simp add: socks_rest_def split: sum.splits)
next
  case (Cons ip ips)
  show ?case
  proof (cases "ip = []")
    case True
    with Cons.IH show ?thesis by (simp add: socks_rest_def)
  next
    case False
    show ?thesis
    proof (cases "env_socks E pa auth t network (FormatIP ip port)")
      case (Inl e)
      obtain r tried win where fb: "fallback (env_socks E pa auth t network) (candidate_plan port ips) addr = (r, tried, win)"
        and "tried \<noteq> []"
        using Inl by (rule fallback_failed_cases)
      moreover have "socks_rest E (SOCKS5 pa auth t) network addr host port (ip # ips) q w =
                     socks_rest E (SOCKS5 pa auth t) network addr host port ips q
                       (log_events [DialSOCKS pa auth t network (FormatIP ip port)] w)"
        using False Inl by (simp add: socks_rest_def)
      ultimately show ?thesis
        using False Inl fb Cons.IH by simp
    next
      case (Inr c)
      with False show ?thesis by (simp add: socks_rest_def record_win_def)
    qed
  qed
qed

lemma socks_branch_eq_fallback:
  assumes "env_socks_new E ''tcp'' proxyAddr (getSocksAuth (Some q)) = None"
  shows "socks_branch E t network addr proxyAddr host port ips first q w =
     (let auth = getSocksAuth (Some q) in
      case fallback (env_socks E proxyAddr auth t network) (resolve_plan first port ips) addr of
        (r, tried, win) \<Rightarrow>
          (go_ret r, (if isl r then q else q\<lparr>DialAddr := last tried\<rparr>),
           record_win host win (log_events (map (DialSOCKS proxyAddr auth t network) tried) w)))"
proof (cases "first = []")
  case True
  with assms show ?thesis
    by (simp add: socks_branch_def resolve_plan_def socks_rest_refines)
next
  case False
  let ?auth = "getSocksAuth (Some q)"
  let ?a = "FormatIP first port"
  show ?thesis
  proof (cases "env_socks E proxyAddr ?auth t network ?a")
    case (Inl e)
    obtain r tried win where fb: "fallback (env_socks E proxyAddr ?auth t network) (candidate_plan port ips) addr = (r, tried, win)"
      and "tried \<noteq> []"
      using Inl by (rule fallback_failed_cases)
    then show ?thesis
      using assms False Inl fb
      by (simp add: socks_branch_def resolve_plan_def socks_rest_refines)
  next
    case (Inr c)
    with assms False show ?thesis
      by (simp add: socks_branch_def resolve_plan_def)
  qed
qed


subsection \<open>Invariants and frame of the dial\<close>

lemma resolve_plan_win:
  "(a, Some ip) \<in> set (resolve_plan first port ips) \<Longrightarrow> a = FormatIP ip port \<and> ip \<in> set ips \<and> ip \<noteq> []"
  by (auto simp: resolve_plan_def)

lemma record_win_simps [simp]:
  "first_ips (record_win host win w) =
     (case win of None \<Rightarrow> first_ips w | Some ip \<Rightarrow> (first_ips w)((host, '''') \<mapsto> ip))"
  "events (record_win host win w) =
     events w @ (case win of None \<Rightarrow> [] | Some ip \<Rightarrow> [SetFirst host '''' ip])"
  by (simp_all add: record_win_def split: option.splits)

lemma resolver_wf_cong: "first_ips w' = first_ips w \<Longrightarrow> resolver_wf w' = resolver_wf w"
  by (simp add: resolver_wf_def)

lemma resolver_wf_record_win:
  assumes "fallback d (resolve_plan first port ips) z = (r, tried, win)" "resolver_wf w"
  shows "resolver_wf (record_win host win w)"
proof (cases win)
  case (Some ip)
  with assms(1) have "fallback d (resolve_plan first port ips) z = (r, tried, Some ip)"
    by simp
  then have "(last tried, Some ip) \<in> set (resolve_plan first port ips)"
    by (rule fallback_win [THEN conjunct1])
  then have "ip \<noteq> []" by (simp add: resolve_plan_win)
  with assms(2) Some show ?thesis
    by (simp add: record_win_def resolver_wf_SetFirstIP)
qed (use assms in simp)

lemma proxy_wf_DialAddr [simp]: "proxy_wf (q\<lparr>DialAddr := s\<rparr>) = proxy_wf q"
  by (simp add: proxy_wf_def)

lemma http_connect_resolver_wf:
  assumes "resolver_wf w"
  shows "resolver_wf (snd (snd (http_connect E t network proxyAddr host port ips first q w)))"
proof -
  obtain r tried win where fb: "fallback (env_dial E t network) (resolve_plan first port ips) proxyAddr = (r, tried, win)"
    by (cases "fallback (env_dial E t network) (resolve_plan first port ips) proxyAddr") auto
  have "resolver_wf (record_win host win (log_events (map (DialTCP t network) tried) w))"
    using fb assms by (intro resolver_wf_record_win [OF fb]) simp
  then show ?thesis using fb by (simp add: http_connect_eq_fallback)
qed

lemma socks_branch_resolver_wf:
  assumes "resolver_wf w"
  shows "resolver_wf (snd (snd (socks_branch E t network addr proxyAddr host port ips first q w)))"
proof (cases "env_socks_new E ''tcp'' proxyAddr (getSocksAuth (Some q))")
  case None
  let ?d = "env_socks E proxyAddr (getSocksAuth (Some q)) t network"
  obtain r tried win where fb: "fallback ?d (resolve_plan first port ips) addr = (r, tried, win)"
    by (cases "fallback ?d (resolve_plan first port ips) addr") auto
  have "resolver_wf (record_win host win (log_events (map (DialSOCKS proxyAddr (getSocksAuth (Some q)) t network) tried) w))"
    using assms by (intro resolver_wf_record_win [OF fb]) simp
  then show ?thesis using fb by (simp add: socks_branch_eq_fallback [OF None])
qed (use assms in \<open>simp add: socks_branch_def\<close>)

lemma http_branch_resolver_wf:
  assumes "resolver_wf w"
  shows "resolver_wf (snd (snd (http_branch E t network addr proxyAddr host port ips first q w)))"
proof -
  obtain r q1 w1 where hc: "http_connect E t network proxyAddr host port ips first q w = (r, q1, w1)"
    by (cases "http_connect E t network proxyAddr host port ips first q w") auto
  with assms have wf1: "resolver_wf w1"
    using http_connect_resolver_wf [OF assms, of E t network proxyAddr host port ips first q] by simp
  show ?thesis
  proof (cases r)
    case (Inr c)
    obtain r2 w2 where hs: "http_handshake E (Some q1) addr c w1 = (r2, w2)"
      by (cases "http_handshake E (Some q1) addr c w1") auto
    then have "resolver_wf w2"
      using wf1 resolver_wf_cong [OF http_handshake_first_world [OF hs]] by simp
    then show ?thesis using hc hs Inr by (simp add: http_branch_def)
  qed (use hc wf1 in \<open>simp add: http_branch_def\<close>)
qed

lemma dial_direct_remote_resolver_wf:
  "resolver_wf w \<Longrightarrow> resolver_wf (snd (snd (dial_direct_remote E t network addr q w)))"
  by (simp add: dial_direct_remote_def split: sum.splits)

lemma dial_via_proxy_resolver_wf:
  "resolver_wf w \<Longrightarrow> resolver_wf (snd (snd (dial_via_proxy E t network addr U q w)))"
  unfolding dial_via_proxy_def Let_def
  by (simp add: socks_branch_resolver_wf http_branch_resolver_wf split: prod.split)

lemma bypass_DialAddr [simp]: "bypass (q\<lparr>DialAddr := s\<rparr>) h = bypass q h"
  by (simp add: bypass_def)

lemma socks_DialAddr [simp]:
  "getSocksAuth (Some (q\<lparr>DialAddr := s\<rparr>)) = getSocksAuth (Some q)"
  "IsSocksType (Some (q\<lparr>DialAddr := s\<rparr>)) = IsSocksType (Some q)"
  by (simp_all add: getSocksAuth_def User_def Pass_def IsSocksType_def)

lemma Dial_Some:
  "Dial E (Some q0) network addr w =
     (let q = q0\<lparr>DialAddr := split_host addr\<rparr>; t = getTimeout (Some q0);
          R = (case URL q0 of
                 None \<Rightarrow> dial_direct_remote E t network addr q w
               | Some U \<Rightarrow> if bypass q0 (split_host addr) then dial_direct_remote E t network addr q w
                           else dial_via_proxy E t network addr U q w)
      in (fst R, Some (fst (snd R)), snd (snd R)))"
  by (simp add: Dial_def Let_def split: option.split prod.split)

text \<open>
  C13: Dial preserves the resolver invariant: if every IP remembered by the resolver is
  non-nil before a dial, the same holds after it, whatever the descriptor, the
  destination and the outcomes of the network calls.
\<close>

theorem Dial_resolver_wf:
  assumes "resolver_wf w"
  shows "resolver_wf (snd (snd (Dial E p network addr w)))"
proof (cases p)
  case None
  with assms show ?thesis by (simp add: Dial_def Let_def)
next
  case (Some q0)
  with assms show ?thesis
    by (simp add: Dial_Some Let_def dial_direct_remote_resolver_wf dial_via_proxy_resolver_wf
             split: option.split)
qed

theorem Dial_resolver_wf_witness:
  "resolver_wf ex_world \<and>
   resolver_wf (snd (snd (Dial ex_env (Some ex_proxy) ''tcp'' ''example.com:443'' ex_world)))"
proof -
  have h: "resolver_wf ex_world" by (simp add: resolver_wf_def ex_world_def)
  show ?thesis using h Dial_resolver_wf [OF h, of ex_env "Some ex_proxy" "''tcp''" "''example.com:443''"]
    by simp
qed

lemma same_descriptor_DialAddr [simp]: "same_descriptor q (q\<lparr>DialAddr := s\<rparr>)"
  by (simp add: same_descriptor_def)

lemma same_descriptor_refl [simp]: "same_descriptor q q"
  by (simp add: same_descriptor_def)

lemma same_descriptor_update [simp]: "same_descriptor (q\<lparr>DialAddr := s\<rparr>) q' = same_descriptor q q'"
  by (simp add: same_descriptor_def)

lemma same_descriptor_wf: "same_descriptor q q' \<Longrightarrow> proxy_wf q' = proxy_wf q"
  by (simp add: same_descriptor_def) (metis proxy_wf_DialAddr)

lemma http_connect_frame:
  "same_descriptor q (fst (snd (http_connect E t network proxyAddr host port ips first q w)))"
  by (simp add: http_connect_eq_fallback split: prod.split)

lemma socks_branch_frame:
  "same_descriptor q (fst (snd (socks_branch E t network addr proxyAddr host port ips first q w)))"
proof (cases "env_socks_new E ''tcp'' proxyAddr (getSocksAuth (Some q))")
  case None
  then show ?thesis
    by (simp add: socks_branch_eq_fallback Let_def split: prod.split)
qed (simp add: socks_branch_def)

lemma http_branch_frame:
  "same_descriptor q (fst (snd (http_branch E t network addr proxyAddr host port ips first q w)))"
proof -
  obtain r q1 w1 where hc: "http_connect E t network proxyAddr host port ips first q w = (r, q1, w1)"
    by (cases "http_connect E t network proxyAddr host port ips first q w") auto
  then have "same_descriptor q q1"
    using http_connect_frame [of q E t network proxyAddr host port ips first w] by simp
  with hc show ?thesis
    by (auto simp: http_branch_def split: sum.split prod.split)
qed

lemma dial_via_proxy_frame:
  "same_descriptor q (fst (snd (dial_via_proxy E t network addr U q w)))"
  unfolding dial_via_proxy_def Let_def
  by (simp add: socks_branch_frame http_branch_frame split: prod.split)

lemma dial_direct_remote_frame:
  "same_descriptor q (fst (snd (dial_direct_remote E t network addr q w)))"
  by (simp add: dial_direct_remote_def split: sum.split)

text \<open>
  C14: Dial on a non-nil descriptor returns a non-nil descriptor that differs from the
  one it was given at most in DialAddr: the URL, the timeout and the bypass predicate
  are never changed by a dial.
\<close>

theorem Dial_frame:
  "\<exists>q'. fst (snd (Dial E (Some q) network addr w)) = Some q' \<and> same_descriptor q q'"
  using dial_direct_remote_frame [of "q\<lparr>DialAddr := split_host addr\<rparr>"]
    dial_via_proxy_frame [of "q\<lparr>DialAddr := split_host addr\<rparr>"]
  by (simp add: Dial_Some Let_def split: option.split)

text \<open>
  C15: Dial on a nil descriptor makes exactly one direct TCP dial to the destination with
  the default timeout of 15 seconds and returns its outcome; it leaves the descriptor nil
  and records nothing with the resolver.
\<close>

theorem Dial_nil:
  "Dial E None network addr w =
     (go_ret (env_dial E (15 * Second) network addr), None,
      log_events [DialTCP (15 * Second) network addr] w)"
  by (simp add: Dial_def getTimeout_def Let_def)


subsection \<open>Properties of the dial\<close>

text \<open>
  C1: when the descriptor's bypass predicate accepts the destination host, Dial makes a
  single direct TCP dial to the destination with the descriptor's timeout: the proxy is
  never contacted, the resolver is untouched, and DialAddr becomes the remote address of
  the connection (or stays the destination host on failure).
\<close>

theorem Dial_bypass:
  assumes "Regexp q = Some f" "split_host addr \<noteq> ''''" "f (split_host addr)"
  shows "Dial E (Some q) network addr w =
     (go_ret (env_dial E (getTimeout (Some q)) network addr),
      Some (q\<lparr>DialAddr := (case env_dial E (getTimeout (Some q)) network addr of
                             Inr c \<Rightarrow> RemoteAddr c | Inl _ \<Rightarrow> split_host addr)\<rparr>),
      log_events [DialTCP (getTimeout (Some q)) network addr] w)"
  using assms
  by (simp add: Dial_Some Let_def bypass_def dial_direct_remote_def split: option.split sum.split)

theorem Dial_bypass_witness:
  "split_host ''skip.me:443'' \<noteq> '''' \<and> split_host ''skip.me:443'' = ''skip.me'' \<and>
   Dial ex_env (Some (ex_proxy\<lparr>Regexp := Some (\<lambda>h. h = ''skip.me'')\<rparr>)) ''tcp'' ''skip.me:443'' ex_world =
     (go_ret (env_dial ex_env (getTimeout (Some ex_proxy)) ''tcp'' ''skip.me:443''),
      Some (ex_proxy\<lparr>Regexp := Some (\<lambda>h. h = ''skip.me''),
        DialAddr := (case env_dial ex_env (getTimeout (Some ex_proxy)) ''tcp'' ''skip.me:443'' of
                       Inr c \<Rightarrow> RemoteAddr c | Inl _ \<Rightarrow> split_host ''skip.me:443'')\<rparr>),
      log_events [DialTCP (getTimeout (Some ex_proxy)) ''tcp'' ''skip.me:443''] ex_world)"
proof -
  have h: "split_host ''skip.me:443'' = ''skip.me''" by code_simp
  have "Dial ex_env (Some (ex_proxy\<lparr>Regexp := Some (\<lambda>h. h = ''skip.me'')\<rparr>)) ''tcp'' ''skip.me:443'' ex_world =
     (go_ret (env_dial ex_env (getTimeout (Some (ex_proxy\<lparr>Regexp := Some (\<lambda>h. h = ''skip.me'')\<rparr>))) ''tcp'' ''skip.me:443''),
      Some (ex_proxy\<lparr>Regexp := Some (\<lambda>h. h = ''skip.me''),
        DialAddr := (case env_dial ex_env (getTimeout (Some (ex_proxy\<lparr>Regexp := Some (\<lambda>h. h = ''skip.me'')\<rparr>))) ''tcp'' ''skip.me:443'' of
                       Inr c \<Rightarrow> RemoteAddr c | Inl _ \<Rightarrow> split_host ''skip.me:443'')\<rparr>),
      log_events [DialTCP (getTimeout (Some (ex_proxy\<lparr>Regexp := Some (\<lambda>h. h = ''skip.me'')\<rparr>))) ''tcp'' ''skip.me:443''] ex_world)"
    by (rule Dial_bypass [where f = "\<lambda>h. h = ''skip.me''"]) (simp_all add: h)
  then show ?thesis by (simp add: h getTimeout_def)
qed

text \<open>
  C2: the connection phase of the HTTP CONNECT branch (Proxy.go lines 213--235) implements
  the abstract fallback over the plan "remembered IP, then the non-nil candidates in
  resolver order, then the proxy's literal address": its outcome is the fallback's,
  DialAddr is the last address attempted, the trace holds one direct dial per attempt in
  order, and the resolver remembers exactly the winning candidate.
\<close>

theorem http_connect_refines:
  "http_connect E t network proxyAddr host port ips first q w =
     (case fallback (env_dial E t network) (resolve_plan first port ips) proxyAddr of
        (r, tried, win) \<Rightarrow>
          (r, q\<lparr>DialAddr := last tried\<rparr>, record_win host win (log_events (map (DialTCP t network) tried) w)))"
  by (rule http_connect_eq_fallback)

text \<open>
  C3: once the SOCKS5 dialer is built, the SOCKS5 branch (Proxy.go lines 184--211)
  implements the same abstract fallback, through the SOCKS5 dialer, with the destination
  itself as the terminal attempt; DialAddr changes only when a dial succeeds.
\<close>

theorem socks_branch_refines:
  assumes "env_socks_new E ''tcp'' proxyAddr (getSocksAuth (Some q)) = None"
  shows "socks_branch E t network addr proxyAddr host port ips first q w =
     (let auth = getSocksAuth (Some q) in
      case fallback (env_socks E proxyAddr auth t network) (resolve_plan first port ips) addr of
        (r, tried, win) \<Rightarrow>
          (go_ret r, (if isl r then q else q\<lparr>DialAddr := last tried\<rparr>),
           record_win host win (log_events (map (DialSOCKS proxyAddr auth t network) tried) w)))"
  using assms by (rule socks_branch_eq_fallback)

theorem socks_branch_refines_witness:
  "env_socks_new ex_env ''tcp'' ''proxy.local:1080'' (getSocksAuth (Some ex_proxy)) = None \<and>
   socks_branch ex_env (30 * Second) ''tcp'' ''example.com:443'' ''proxy.local:1080'' ''proxy.local'' ''1080''
       [[10, 0, 0, 1]] [] ex_proxy ex_world =
     (let auth = getSocksAuth (Some ex_proxy) in
      case fallback (env_socks ex_env ''proxy.local:1080'' auth (30 * Second) ''tcp'')
             (resolve_plan [] ''1080'' [[10, 0, 0, 1]]) ''example.com:443'' of
        (r, tried, win) \<Rightarrow>
          (go_ret r, (if isl r then ex_proxy else ex_proxy\<lparr>DialAddr := last tried\<rparr>),
           record_win ''proxy.local'' win
             (log_events (map (DialSOCKS ''proxy.local:1080'' auth (30 * Second) ''tcp'') tried) ex_world)))"
proof -
  have h: "env_socks_new ex_env ''tcp'' ''proxy.local:1080'' (getSocksAuth (Some ex_proxy)) = None"
    by (simp add: ex_env_def)
  show ?thesis using h socks_branch_refines [OF h] by simp
qed

text \<open>
  C4: the connection phase of the HTTP branch tries addresses strictly one after the other
  in the plan's order, the proxy's literal address last; every attempt but the last
  failed, the outcome is the last attempt's, DialAddr names it, and the trace holds
  exactly these dials in this order, followed by at most one resolver update.
\<close>

theorem http_connect_order:
  "case http_connect E t network proxyAddr host port ips first q w of (r, q', w') \<Rightarrow>
     (\<exists>tried evs.
        take (length tried) (map fst (resolve_plan first port ips) @ [proxyAddr]) = tried \<and>
        (\<forall>a \<in> set (butlast tried). isl (env_dial E t network a)) \<and>
        r = env_dial E t network (last tried) \<and> DialAddr q' = last tried \<and>
        events w' = events w @ map (DialTCP t network) tried @ evs \<and> length evs \<le> 1)"
proof -
  obtain r tried win where fb: "fallback (env_dial E t network) (resolve_plan first port ips) proxyAddr = (r, tried, win)"
    by (cases "fallback (env_dial E t network) (resolve_plan first port ips) proxyAddr") auto
  have "length (case win of None \<Rightarrow> [] | Some ip \<Rightarrow> [SetFirst host '''' ip]) \<le> 1"
    by (simp split: option.split)
  then show ?thesis
    using fallback_order [OF fb] fallback_earlier_failed [OF fb] fallback_result [OF fb]
    by (auto simp: http_connect_eq_fallback fb)
qed

theorem http_connect_order_witness:
  "case http_connect ex_env (30 * Second) ''tcp'' ''proxy.local:8080'' ''proxy.local'' ''8080''
          [[10, 0, 0, 2], [10, 0, 0, 3]] [] ex_proxy ex_world of (r, q', w') \<Rightarrow>
     (\<exists>tried evs.
        take (length tried) (map fst (resolve_plan [] ''8080'' [[10, 0, 0, 2], [10, 0, 0, 3]]) @ [''proxy.local:8080'']) = tried \<and>
        (\<forall>a \<in> set (butlast tried). isl (env_dial ex_env (30 * Second) ''tcp'' a)) \<and>
        r = env_dial ex_env (30 * Second) ''tcp'' (last tried) \<and> DialAddr q' = last tried \<and>
        events w' = events ex_world @ map (DialTCP (30 * Second) ''tcp'') tried @ evs \<and> length evs \<le> 1)"
  by (rule http_connect_order)

text \<open>
  C5: when the resolver remembers an IP for the proxy host and the proxy accepts a
  connection there, the HTTP branch connects to it first and returns at once: one dial,
  the candidate list is not consulted, the resolver is not written.
\<close>

theorem http_connect_remembered_first:
  assumes "first \<noteq> []" "env_dial E t network (FormatIP first port) = Inr c"
  shows "http_connect E t network proxyAddr host port ips first q w =
           (Inr c, q\<lparr>DialAddr := FormatIP first port\<rparr>,
            log_events [DialTCP t network (FormatIP first port)] w)"
  using assms by (simp add: http_connect_def)

theorem http_connect_remembered_first_witness:
  "[10, 0, 0, 3] \<noteq> ([] :: ip) \<and>
   env_dial ex_env (30 * Second) ''tcp'' (FormatIP [10, 0, 0, 3] ''8080'') = Inr ex_conn \<and>
   http_connect ex_env (30 * Second) ''tcp'' ''proxy.local:8080'' ''proxy.local'' ''8080''
       [[10, 0, 0, 2]] [10, 0, 0, 3] ex_proxy ex_world =
     (Inr ex_conn, ex_proxy\<lparr>DialAddr := FormatIP [10, 0, 0, 3] ''8080''\<rparr>,
      log_events [DialTCP (30 * Second) ''tcp'' (FormatIP [10, 0, 0, 3] ''8080'')] ex_world)"
proof -
  have h: "env_dial ex_env (30 * Second) ''tcp'' (FormatIP [10, 0, 0, 3] ''8080'') = Inr ex_conn"
    unfolding ex_env_def by code_simp
  show ?thesis using h http_connect_remembered_first [OF _ h] by simp
qed

text \<open>
  C6: after the HTTP branch's connection phase the resolver's remembered IPs are either
  unchanged, or the proxy host now remembers a non-nil candidate of the lookup, the one
  whose address the branch connected to and that DialAddr names.
\<close>

theorem http_connect_resolver_update:
  "case http_connect E t network proxyAddr host port ips first q w of (r, q', w') \<Rightarrow>
     first_ips w' = first_ips w \<or>
     (\<exists>ip c. ip \<in> set ips \<and> ip \<noteq> [] \<and> r = Inr c \<and> DialAddr q' = FormatIP ip port \<and>
             env_dial E t network (FormatIP ip port) = Inr c \<and>
             first_ips w' = (first_ips w)((host, '''') \<mapsto> ip))"
proof -
  obtain r tried win where fb: "fallback (env_dial E t network) (resolve_plan first port ips) proxyAddr = (r, tried, win)"
    by (cases "fallback (env_dial E t network) (resolve_plan first port ips) proxyAddr") auto
  show ?thesis
  proof (cases win)
    case (Some ip)
    from fb Some have "fallback (env_dial E t network) (resolve_plan first port ips) proxyAddr = (r, tried, Some ip)"
      by simp
    then have "(last tried, Some ip) \<in> set (resolve_plan first port ips) \<and> \<not> isl r"
      by (rule fallback_win)
    moreover have "r = env_dial E t network (last tried)"
      using fb by (rule fallback_result)
    moreover obtain c where "r = Inr c"
      using calculation(1) by (cases r) auto
    ultimately have facts: "ip \<in> set ips" "ip \<noteq> []" "last tried = FormatIP ip port" "r = Inr c"
      "env_dial E t network (FormatIP ip port) = Inr c"
      by (auto dest!: resolve_plan_win)
    have eq: "http_connect E t network proxyAddr host port ips first q w =
       (r, q\<lparr>DialAddr := last tried\<rparr>, record_win host (Some ip) (log_events (map (DialTCP t network) tried) w))"
      using fb Some by (simp add: http_connect_eq_fallback)
    show ?thesis
      unfolding eq prod.case by (intro disjI2 exI [of _ ip] exI [of _ c]) (simp add: facts)
  qed (simp add: http_connect_eq_fallback fb)
qed

text \<open>
  C7: when the HTTP branch's connection phase fails, every planned address and then the
  proxy's literal address were dialled, in order; the error is that of the literal
  address, DialAddr names that address (the attempted one, as the spec requires), and the
  resolver is unchanged.
\<close>

theorem http_connect_exhausted:
  assumes "fst (http_connect E t network proxyAddr host port ips first q w) = Inl e"
  shows "env_dial E t network proxyAddr = Inl e \<and>
         DialAddr (fst (snd (http_connect E t network proxyAddr host port ips first q w))) = proxyAddr \<and>
         events (snd (snd (http_connect E t network proxyAddr host port ips first q w))) =
           events w @ map (DialTCP t network) (map fst (resolve_plan first port ips) @ [proxyAddr]) \<and>
         first_ips (snd (snd (http_connect E t network proxyAddr host port ips first q w))) = first_ips w"
proof -
  obtain r tried win where fb: "fallback (env_dial E t network) (resolve_plan first port ips) proxyAddr = (r, tried, win)"
    by (cases "fallback (env_dial E t network) (resolve_plan first port ips) proxyAddr") auto
  have hc: "http_connect E t network proxyAddr host port ips first q w =
     (r, q\<lparr>DialAddr := last tried\<rparr>, record_win host win (log_events (map (DialTCP t network) tried) w))"
    using fb by (simp only: http_connect_eq_fallback prod.case)
  from assms hc have re: "r = Inl e" by simp
  from fb re have "fallback (env_dial E t network) (resolve_plan first port ips) proxyAddr = (Inl e, tried, win)"
    by simp
  then have ex: "tried = map fst (resolve_plan first port ips) @ [proxyAddr] \<and> win = None"
    by (rule fallback_exhausted)
  have "r = env_dial E t network (last tried)"
    using fb by (rule fallback_result)
  with re ex hc show ?thesis by simp
qed

theorem http_connect_exhausted_witness:
  "fst (http_connect ex_env (30 * Second) ''tcp'' ''proxy.local:8080'' ''proxy.local'' ''8080''
          [[10, 0, 0, 2]] [] ex_proxy ex_world) = Inl (ErrNet ''connection refused'') \<and>
   env_dial ex_env (30 * Second) ''tcp'' ''proxy.local:8080'' = Inl (ErrNet ''connection refused'') \<and>
   DialAddr (fst (snd (http_connect ex_env (30 * Second) ''tcp'' ''proxy.local:8080'' ''proxy.local'' ''8080''
          [[10, 0, 0, 2]] [] ex_proxy ex_world))) = ''proxy.local:8080''"
proof -
  have h: "fst (http_connect ex_env (30 * Second) ''tcp'' ''proxy.local:8080'' ''proxy.local'' ''8080''
          [[10, 0, 0, 2]] [] ex_proxy ex_world) = Inl (ErrNet ''connection refused'')"
    unfolding ex_env_def ex_proxy_def ex_world_def by code_simp
  show ?thesis using h http_connect_exhausted [OF h] by simp
qed

text \<open>
  C8: in the SOCKS5 branch, a remembered IP of the proxy is used as the target of the
  tunnel, not as the address of the proxy: the dialer, fixed to the proxy's host name,
  is asked for a tunnel to the proxy's own IP and port, and when that succeeds the
  returned connection leads there. The destination is never requested.
\<close>

theorem socks_remembered_tunnels_to_proxy:
  assumes "env_socks_new E ''tcp'' proxyAddr (getSocksAuth (Some q)) = None" "first \<noteq> []"
    and "env_socks E proxyAddr (getSocksAuth (Some q)) t network (FormatIP first port) = Inr c"
  shows "socks_branch E t network addr proxyAddr host port ips first q w =
           ((Some c, None), q\<lparr>DialAddr := FormatIP first port\<rparr>,
            log_events [DialSOCKS proxyAddr (getSocksAuth (Some q)) t network (FormatIP first port)] w)"
  using assms by (simp add: socks_branch_def)

theorem socks_remembered_tunnels_to_proxy_witness:
  "env_socks_new ex_env ''tcp'' ''proxy.local:1080'' (getSocksAuth (Some ex_proxy)) = None \<and>
   [10, 0, 0, 1] \<noteq> ([] :: ip) \<and>
   env_socks ex_env ''proxy.local:1080'' (getSocksAuth (Some ex_proxy)) (30 * Second) ''tcp''
     (FormatIP [10, 0, 0, 1] ''1080'') = Inr ex_conn \<and>
   socks_branch ex_env (30 * Second) ''tcp'' ''example.com:443'' ''proxy.local:1080'' ''proxy.local'' ''1080''
       [] [10, 0, 0, 1] ex_proxy ex_world =
     ((Some ex_conn, None), ex_proxy\<lparr>DialAddr := FormatIP [10, 0, 0, 1] ''1080''\<rparr>,
      log_events [DialSOCKS ''proxy.local:1080'' (getSocksAuth (Some ex_proxy)) (30 * Second) ''tcp''
        (FormatIP [10, 0, 0, 1] ''1080'')] ex_world)"
proof -
  have h1: "env_socks_new ex_env ''tcp'' ''proxy.local:1080'' (getSocksAuth (Some ex_proxy)) = None"
    by (simp add: ex_env_def)
  have h2: "env_socks ex_env ''proxy.local:1080'' (getSocksAuth (Some ex_proxy)) (30 * Second) ''tcp''
     (FormatIP [10, 0, 0, 1] ''1080'') = Inr ex_conn"
    unfolding ex_env_def by code_simp
  show ?thesis using h1 h2 socks_remembered_tunnels_to_proxy [OF h1 _ h2] by simp
qed

text \<open>
  C9: when the SOCKS5 dialer cannot be built for a SOCKS5 descriptor that is not
  bypassed, Dial returns that error with no connection, makes no connection attempt and
  leaves the world (the resolver and the trace) unchanged; the returned descriptor's
  DialAddr is the destination host set on entry (line 153), not an address of the proxy.
\<close>

theorem Dial_socks_new_error:
  assumes "URL q0 = Some U" "\<not> bypass q0 (split_host addr)" "IsSocksType (Some q0)"
    and "env_socks_new E ''tcp'' (url_Host U) (getSocksAuth (Some q0)) = Some err"
  shows "Dial E (Some q0) network addr w = ((None, Some err), Some (q0\<lparr>DialAddr := split_host addr\<rparr>), w)"
  using assms by (simp add: Dial_Some Let_def dial_via_proxy_def socks_branch_def split: prod.split)

theorem Dial_socks_new_error_witness:
  "URL ex_parsed = Some (ex_url ''socks5'' ex_cred ''1.2.3.4:1080'') \<and>
   \<not> bypass ex_parsed (split_host ''example.com:443'') \<and> IsSocksType (Some ex_parsed) \<and>
   env_socks_new (ex_env\<lparr>env_socks_new := (\<lambda>n a auth. Some (ErrNet ''unsupported auth''))\<rparr>) ''tcp''
     (url_Host (ex_url ''socks5'' ex_cred ''1.2.3.4:1080'')) (getSocksAuth (Some ex_parsed)) =
     Some (ErrNet ''unsupported auth'') \<and>
   Dial (ex_env\<lparr>env_socks_new := (\<lambda>n a auth. Some (ErrNet ''unsupported auth''))\<rparr>) (Some ex_parsed)
     ''tcp'' ''example.com:443'' ex_world =
     ((None, Some (ErrNet ''unsupported auth'')), Some (ex_parsed\<lparr>DialAddr := ''example.com''\<rparr>), ex_world)"
proof -
  let ?E = "ex_env\<lparr>env_socks_new := (\<lambda>n a auth. Some (ErrNet ''unsupported auth''))\<rparr>"
  have h1: "URL ex_parsed = Some (ex_url ''socks5'' ex_cred ''1.2.3.4:1080'')" by (simp add: ex_parsed_def)
  have h2: "\<not> bypass ex_parsed (split_host ''example.com:443'')" by (simp add: bypass_def ex_parsed_def)
  have h3: "IsSocksType (Some ex_parsed)"
    by (simp add: IsSocksType_def ex_parsed_def ex_url_def ToLower_eval socks_schemes_def)
  have h4: "env_socks_new ?E ''tcp'' (url_Host (ex_url ''socks5'' ex_cred ''1.2.3.4:1080''))
      (getSocksAuth (Some ex_parsed)) = Some (ErrNet ''unsupported auth'')" by simp
  have s: "split_host ''example.com:443'' = ''example.com''" by code_simp
  show ?thesis using Dial_socks_new_error [OF h1 h2 h3 h4, of "''tcp''" ex_world] h1 h2 h3 h4 s by simp
qed

end
