(* ===== verification/Attempts.thy ===== *)
theory Attempts
  imports Dialer
begin

text \<open>
  The connection attempts of a dial (Proxy.go, lines 147--235): how many there are,
  that an attempt that can connect is reached, and the SOCKS5 counterparts of the
  ordering and exhaustion properties of the HTTP branch. An attempt is a \<open>DialTCP\<close>
  or \<open>DialSOCKS\<close> event of the trace; \<open>proxy_host\<close> is the host part of the
  descriptor's \<open>host:port\<close> field that \<open>Dial\<close> hands to the resolver (lines 172--179).
\<close>

definition is_attempt :: "event \<Rightarrow> bool" where
  "is_attempt e = (case e of DialTCP _ _ _ \<Rightarrow> True | DialSOCKS _ _ _ _ _ \<Rightarrow> True | _ \<Rightarrow> False)"

definition attempts :: "event list \<Rightarrow> nat" where
  "attempts evs = length (filter is_attempt evs)"

definition proxy_host :: "Proxy option \<Rightarrow> string" where
  "proxy_host p =
     (case p of None \<Rightarrow> '''' | Some q \<Rightarrow> (case URL q of None \<Rightarrow> '''' | Some U \<Rightarrow> split_host (url_Host U)))"

text \<open>The world \<open>w'\<close> extends the trace of \<open>w\<close> by events holding at most \<open>n\<close> attempts.\<close>

definition grows_by :: "nat \<Rightarrow> world \<Rightarrow> world \<Rightarrow> bool" where
  "grows_by n w w' \<longleftrightarrow> (\<exists>new. events w' = events w @ new \<and> attempts new \<le> n)"

subsection \<open>Counting attempts\<close>

lemma attempts_simps [simp]:
  "attempts [] = 0"
  "attempts (xs @ ys) = attempts xs + attempts ys"
  "attempts (map (DialTCP t n) as) = length as"
  "attempts (map (DialSOCKS pa auth t n) as) = length as"
  "attempts [SetFirst h tag ip] = 0" "attempts [ConnWrite c s] = 0"
  "attempts [ConnRead c] = 0" "attempts [ConnClose c] = 0"
  "attempts [DialTCP t n a] = 1"
  by (simp_all add: attempts_def is_attempt_def comp_def)

lemma grows_by_trans: "grows_by n w1 w2 \<Longrightarrow> grows_by m w2 w3 \<Longrightarrow> grows_by (n + m) w1 w3"
  by (auto simp: grows_by_def)

lemma grows_by_mono: "grows_by n w w' \<Longrightarrow> n \<le> m \<Longrightarrow> grows_by m w w'"
  by (auto simp: grows_by_def)

lemma grows_by_log: "attempts evs \<le> n \<Longrightarrow> grows_by n w (log_events evs w)"
  by (auto simp: grows_by_def)

lemma grows_by_record_win: "grows_by n w w' \<Longrightarrow> grows_by n w (record_win host win w')"
  by (auto simp: grows_by_def split: option.split)

lemma resolve_plan_length: "length (resolve_plan first port ips) \<le> Suc (length ips)"
proof -
  have "length (filter (\<lambda>ip. ip \<noteq> []) ips) \<le> length ips" by (rule length_filter_le)
  then show ?thesis by (auto simp: resolve_plan_def intro: le_SucI)
qed

lemma fallback_plan_attempts:
  assumes "fallback d (resolve_plan first port ips) z = (r, tried, win)"
  shows "length tried \<le> length ips + 2"
  using fallback_tried_length [OF assms] resolve_plan_length [of first port ips] by simp

subsection \<open>The number of attempts of each block\<close>

lemma http_connect_grows:
  "grows_by (length ips + 2) w (snd (snd (http_connect E t network proxyAddr host port ips first q w)))"
proof -
  obtain r tried win where fb: "fallback (env_dial E t network) (resolve_plan first port ips) proxyAddr = (r, tried, win)"
    by (cases "fallback (env_dial E t network) (resolve_plan first port ips) proxyAddr") auto
  have "grows_by (length ips + 2) w (log_events (map (DialTCP t network) tried) w)"
    using fallback_plan_attempts [OF fb] by (intro grows_by_log) simp
  then show ?thesis
    using fb by (simp add: http_connect_eq_fallback grows_by_record_win)
qed

lemma http_handshake_grows: "http_handshake E p addr c w = (r, w') \<Longrightarrow> grows_by 0 w w'"
  by (auto simp: http_handshake_def Let_def grows_by_def attempts_def is_attempt_def
      split: option.splits prod.splits if_splits)

lemma http_branch_grows:
  "grows_by (length ips + 2) w (snd (snd (http_branch E t network addr proxyAddr host port ips first q w)))"
proof -
  obtain r q1 w1 where hc: "http_connect E t network proxyAddr host port ips first q w = (r, q1, w1)"
    by (cases "http_connect E t network proxyAddr host port ips first q w") auto
  have g1: "grows_by (length ips + 2) w w1"
    using http_connect_grows [of ips w E t network proxyAddr host port first q] hc by simp
  show ?thesis
  proof (cases r)
    case (Inr c)
    obtain r2 w2 where hs: "http_handshake E (Some q1) addr c w1 = (r2, w2)"
      by (cases "http_handshake E (Some q1) addr c w1") auto
    have "grows_by (length ips + 2 + 0) w w2"
      using g1 http_handshake_grows [OF hs] by (rule grows_by_trans)
    then show ?thesis using hc hs Inr by (simp add: http_branch_def)
  qed (use hc g1 in \<open>simp add: http_branch_def\<close>)
qed

lemma socks_branch_grows:
  "grows_by (length ips + 2) w (snd (snd (socks_branch E t network addr proxyAddr host port ips first q w)))"
proof (cases "env_socks_new E ''tcp'' proxyAddr (getSocksAuth (Some q))")
  case None
  let ?d = "env_socks E proxyAddr (getSocksAuth (Some q)) t network"
  obtain r tried win where fb: "fallback ?d (resolve_plan first port ips) addr = (r, tried, win)"
    by (cases "fallback ?d (resolve_plan first port ips) addr") auto
  have "grows_by (length ips + 2) w (log_events (map (DialSOCKS proxyAddr (getSocksAuth (Some q)) t network) tried) w)"
    using fallback_plan_attempts [OF fb] by (intro grows_by_log) simp
  then show ?thesis
    using fb by (simp add: socks_branch_eq_fallback [OF None] Let_def grows_by_record_win)
qed (simp add: socks_branch_def grows_by_def)

lemma dial_direct_remote_grows:
  "grows_by 1 w (snd (snd (dial_direct_remote E t network addr q w)))"
  by (auto simp: dial_direct_remote_def grows_by_def split: sum.split)

lemma dial_via_proxy_grows:
  "grows_by (length (env_lookup E (split_host (url_Host U))) + 2) w (snd (snd (dial_via_proxy E t network addr U q w)))"
proof (cases "SplitHostPort (url_Host U)")
  case (Inl e)
  have "grows_by (0 + 2) w (snd (snd (dial_via_proxy E t network addr U q w)))"
    using Inl socks_branch_grows [of "[]"] http_branch_grows [of "[]"]
    by (simp add: dial_via_proxy_def Let_def)
  then show ?thesis by (rule grows_by_mono) simp
next
  case (Inr hp)
  obtain h port where hp: "hp = (h, port)" by (cases hp)
  let ?ips = "if env_parse_ip E h = None then LookupIP E h else []"
  have le: "length ?ips + 2 \<le> length (env_lookup E (split_host (url_Host U))) + 2"
    using Inr hp by (simp add: LookupIP_def split_host_def)
  have "grows_by (length ?ips + 2) w (snd (snd (dial_via_proxy E t network addr U q w)))"
    using Inr hp socks_branch_grows http_branch_grows
    by (simp add: dial_via_proxy_def Let_def)
  from grows_by_mono [OF this le] show ?thesis .
qed

lemma dial_direct_remote_grows_bound:
  "grows_by (n + 2) w (snd (snd (dial_direct_remote E t network addr q w)))"
  using dial_direct_remote_grows by (rule grows_by_mono) simp

lemma resolve_plan_member:
  "ip \<in> set ips \<Longrightarrow> ip \<noteq> [] \<Longrightarrow> (FormatIP ip port, Some ip) \<in> set (resolve_plan first port ips)"
  by (auto simp: resolve_plan_def)

subsection \<open>Properties of the attempts\<close>

text \<open>
  C28: a dial makes at most two connection attempts more than the resolver returns
  candidates for the proxy's host (the remembered IP, the candidates, the terminal
  attempt), and only appends to the trace: the fallback loops of both branches stop.
\<close>

theorem Dial_attempts_bound:
  "\<exists>new. events (snd (snd (Dial E p network addr w))) = events w @ new \<and>
         attempts new \<le> length (env_lookup E (proxy_host p)) + 2"
proof (cases p)
  case None
  then show ?thesis by (simp add: Dial_def Let_def)
next
  case (Some q)
  have "grows_by (length (env_lookup E (proxy_host p)) + 2) w (snd (snd (Dial E p network addr w)))"
  proof (cases "URL q")
    case None
    with Some show ?thesis
      using dial_direct_remote_grows_bound [of "length (env_lookup E (proxy_host p))"]
      by (simp add: Dial_Some Let_def)
  next
    case U: (Some U)
    with Some show ?thesis
      using dial_direct_remote_grows_bound [of "length (env_lookup E (split_host (url_Host U)))"]
        dial_via_proxy_grows [of E U]
      by (cases "bypass q (split_host addr)") (simp_all add: Dial_Some Let_def proxy_host_def)
  qed
  then show ?thesis by (simp add: grows_by_def)
qed

text \<open>
  C29: progress of the HTTP branch: if one non-nil candidate of the lookup accepts a TCP
  connection at the proxy's port, the connection phase returns a connection (it may be
  an earlier one); it never reaches the terminal attempt with an error.
\<close>

theorem http_connect_progress:
  assumes "ip \<in> set ips" "ip \<noteq> []" "env_dial E t network (FormatIP ip port) = Inr c"
  shows "\<exists>c'. fst (http_connect E t network proxyAddr host port ips first q w) = Inr c'"
proof -
  obtain r tried win where fb: "fallback (env_dial E t network) (resolve_plan first port ips) proxyAddr = (r, tried, win)"
    by (cases "fallback (env_dial E t network) (resolve_plan first port ips) proxyAddr") auto
  have "\<not> isl (fst (fallback (env_dial E t network) (resolve_plan first port ips) proxyAddr))"
    by (rule fallback_progress [OF resolve_plan_member [OF assms(1,2), of port first]]) (simp add: assms(3))
  with fb show ?thesis by (cases r) (simp_all add: http_connect_eq_fallback)
qed

theorem http_connect_progress_witness:
  "[10, 0, 0, 3] \<in> set [[10, 0, 0, 2], [10, 0, 0, 3 :: byte]] \<and> [10, 0, 0, 3] \<noteq> ([] :: ip) \<and>
   env_dial ex_env (30 * Second) ''tcp'' (FormatIP [10, 0, 0, 3] ''8080'') = Inr ex_conn \<and>
   (\<exists>c'. fst (http_connect ex_env (30 * Second) ''tcp'' ''proxy.local:8080'' ''proxy.local'' ''8080''
             [[10, 0, 0, 2], [10, 0, 0, 3]] [] ex_proxy ex_world) = Inr c')"
proof -
  have h1: "[10, 0, 0, 3] \<in> set [[10, 0, 0, 2], [10, 0, 0, 3 :: byte]]" by simp
  have h2: "[10, 0, 0, 3] \<noteq> ([] :: ip)" by simp
  have h3: "env_dial ex_env (30 * Second) ''tcp'' (FormatIP [10, 0, 0, 3] ''8080'') = Inr ex_conn"
    unfolding ex_env_def by code_simp
  show ?thesis using h1 h2 h3 http_connect_progress [OF h1 h2 h3] by blast
qed

text \<open>
  C30: progress of the SOCKS5 branch: once the SOCKS5 dialer is built, if the proxy opens
  a tunnel to one non-nil candidate's address, the branch returns a connection and no
  error.
\<close>

theorem socks_branch_progress:
  assumes "env_socks_new E ''tcp'' proxyAddr (getSocksAuth (Some q)) = None"
    and "ip \<in> set ips" "ip \<noteq> []"
    and "env_socks E proxyAddr (getSocksAuth (Some q)) t network (FormatIP ip port) = Inr c"
  shows "\<exists>c'. fst (socks_branch E t network addr proxyAddr host port ips first q w) = (Some c', None)"
proof -
  let ?d = "env_socks E proxyAddr (getSocksAuth (Some q)) t network"
  obtain r tried win where fb: "fallback ?d (resolve_plan first port ips) addr = (r, tried, win)"
    by (cases "fallback ?d (resolve_plan first port ips) addr") auto
  have "\<not> isl (fst (fallback ?d (resolve_plan first port ips) addr))"
    by (rule fallback_progress [OF resolve_plan_member [OF assms(2,3), of port first]]) (simp add: assms(4))
  with fb show ?thesis by (cases r) (simp_all add: socks_branch_eq_fallback [OF assms(1)] Let_def)
qed

theorem socks_branch_progress_witness:
  "env_socks_new ex_env ''tcp'' ''proxy.local:1080'' (getSocksAuth (Some ex_proxy)) = None \<and>
   [10, 0, 0, 1] \<in> set [[10, 0, 0, 2], [10, 0, 0, 1 :: byte]] \<and> [10, 0, 0, 1] \<noteq> ([] :: ip) \<and>
   env_socks ex_env ''proxy.local:1080'' (getSocksAuth (Some ex_proxy)) (30 * Second) ''tcp''
     (FormatIP [10, 0, 0, 1] ''1080'') = Inr ex_conn \<and>
   (\<exists>c'. fst (socks_branch ex_env (30 * Second) ''tcp'' ''example.com:443'' ''proxy.local:1080''
             ''proxy.local'' ''1080'' [[10, 0, 0, 2], [10, 0, 0, 1]] [] ex_proxy ex_world) = (Some c', None))"
proof -
  have h0: "env_socks_new ex_env ''tcp'' ''proxy.local:1080'' (getSocksAuth (Some ex_proxy)) = None"
    by (simp add: ex_env_def)
  have h1: "[10, 0, 0, 1] \<in> set [[10, 0, 0, 2], [10, 0, 0, 1 :: byte]]" by simp
  have h2: "[10, 0, 0, 1] \<noteq> ([] :: ip)" by simp
  have f: "FormatIP [10, 0, 0, 1] ''1080'' = ''10.0.0.1:1080''" by code_simp
  have h3: "env_socks ex_env ''proxy.local:1080'' (getSocksAuth (Some ex_proxy)) (30 * Second) ''tcp''
     (FormatIP [10, 0, 0, 1] ''1080'') = Inr ex_conn"
    by (simp add: ex_env_def f)
  show ?thesis using h0 h1 h2 h3 socks_branch_progress [OF h0 h1 h2 h3] by blast
qed

text \<open>
  C31: once the SOCKS5 dialer is built, the SOCKS5 branch tries addresses strictly one
  after the other in the plan's order, the destination itself last; every attempt but
  the last failed, the outcome is the last attempt's, and the trace holds exactly these
  SOCKS5 dials in this order, followed by at most one resolver update.
\<close>

theorem socks_branch_order:
  assumes "env_socks_new E ''tcp'' proxyAddr (getSocksAuth (Some q)) = None"
  shows "case socks_branch E t network addr proxyAddr host port ips first q w of (r, q', w') \<Rightarrow>
     (\<exists>tried evs.
        take (length tried) (map fst (resolve_plan first port ips) @ [addr]) = tried \<and>
        (\<forall>a \<in> set (butlast tried). isl (env_socks E proxyAddr (getSocksAuth (Some q)) t network a)) \<and>
        r = go_ret (env_socks E proxyAddr (getSocksAuth (Some q)) t network (last tried)) \<and>
        events w' = events w @ map (DialSOCKS proxyAddr (getSocksAuth (Some q)) t network) tried @ evs \<and>
        length evs \<le> 1)"
proof -
  let ?d = "env_socks E proxyAddr (getSocksAuth (Some q)) t network"
  obtain r tried win where fb: "fallback ?d (resolve_plan first port ips) addr = (r, tried, win)"
    by (cases "fallback ?d (resolve_plan first port ips) addr") auto
  have "length (case win of None \<Rightarrow> [] | Some ip \<Rightarrow> [SetFirst host '''' ip]) \<le> 1"
    by (simp split: option.split)
  then show ?thesis
    using fallback_order [OF fb] fallback_earlier_failed [OF fb] fallback_result [OF fb]
    by (auto simp: socks_branch_eq_fallback [OF assms] Let_def fb)
qed

theorem socks_branch_order_witness:
  "env_socks_new ex_env ''tcp'' ''proxy.local:1080'' (getSocksAuth (Some ex_proxy)) = None \<and>
   (case socks_branch ex_env (30 * Second) ''tcp'' ''example.com:443'' ''proxy.local:1080'' ''proxy.local'' ''1080''
          [[10, 0, 0, 2]] [] ex_proxy ex_world of (r, q', w') \<Rightarrow>
     (\<exists>tried evs.
        take (length tried) (map fst (resolve_plan [] ''1080'' [[10, 0, 0, 2]]) @ [''example.com:443'']) = tried \<and>
        (\<forall>a \<in> set (butlast tried). isl (env_socks ex_env ''proxy.local:1080'' (getSocksAuth (Some ex_proxy)) (30 * Second) ''tcp'' a)) \<and>
        r = go_ret (env_socks ex_env ''proxy.local:1080'' (getSocksAuth (Some ex_proxy)) (30 * Second) ''tcp'' (last tried)) \<and>
        events w' = events ex_world @ map (DialSOCKS ''proxy.local:1080'' (getSocksAuth (Some ex_proxy)) (30 * Second) ''tcp'') tried @ evs \<and>
        length evs \<le> 1))"
proof -
  have h: "env_socks_new ex_env ''tcp'' ''proxy.local:1080'' (getSocksAuth (Some ex_proxy)) = None"
    by (simp add: ex_env_def)
  show ?thesis using h socks_branch_order [OF h] by simp
qed

text \<open>
  C32: when every attempt of the SOCKS5 branch fails, the error returned is that of the
  terminal attempt to the destination, every planned address was tried before it, the
  resolver remembers nothing new, and DialAddr is left as it was.
\<close>

theorem socks_branch_exhausted:
  assumes "env_socks_new E ''tcp'' proxyAddr (getSocksAuth (Some q)) = None"
    and "fst (socks_branch E t network addr proxyAddr host port ips first q w) = (None, Some e)"
  shows "env_socks E proxyAddr (getSocksAuth (Some q)) t network addr = Inl e \<and>
         fst (snd (socks_branch E t network addr proxyAddr host port ips first q w)) = q \<and>
         events (snd (snd (socks_branch E t network addr proxyAddr host port ips first q w))) =
           events w @ map (DialSOCKS proxyAddr (getSocksAuth (Some q)) t network)
                         (map fst (resolve_plan first port ips) @ [addr]) \<and>
         first_ips (snd (snd (socks_branch E t network addr proxyAddr host port ips first q w))) = first_ips w"
proof -
  let ?d = "env_socks E proxyAddr (getSocksAuth (Some q)) t network"
  obtain r tried win where fb: "fallback ?d (resolve_plan first port ips) addr = (r, tried, win)"
    by (cases "fallback ?d (resolve_plan first port ips) addr") auto
  have sb: "socks_branch E t network addr proxyAddr host port ips first q w =
     (go_ret r, (if isl r then q else q\<lparr>DialAddr := last tried\<rparr>),
      record_win host win (log_events (map (DialSOCKS proxyAddr (getSocksAuth (Some q)) t network) tried) w))"
    using fb by (simp only: socks_branch_eq_fallback [OF assms(1)] Let_def prod.case)
  from assms(2) sb have re: "r = Inl e" by (cases r) simp_all
  from fb re have "fallback ?d (resolve_plan first port ips) addr = (Inl e, tried, win)"
    by simp
  then have ex: "tried = map fst (resolve_plan first port ips) @ [addr] \<and> win = None"
    by (rule fallback_exhausted)
  have "r = ?d (last tried)"
    using fb by (rule fallback_result)
  with re ex sb show ?thesis by simp
qed

theorem socks_branch_exhausted_witness:
  "env_socks_new ex_env ''tcp'' ''proxy.local:1080'' (getSocksAuth (Some ex_proxy)) = None \<and>
   fst (socks_branch ex_env (30 * Second) ''tcp'' ''example.com:443'' ''proxy.local:1080'' ''proxy.local'' ''1080''
          [[10, 0, 0, 2]] [] ex_proxy ex_world) = (None, Some (ErrNet ''connection refused'')) \<and>
   env_socks ex_env ''proxy.local:1080'' (getSocksAuth (Some ex_proxy)) (30 * Second) ''tcp'' ''example.com:443'' =
     Inl (ErrNet ''connection refused'')"
proof -
  have h: "env_socks_new ex_env ''tcp'' ''proxy.local:1080'' (getSocksAuth (Some ex_proxy)) = None"
    by (simp add: ex_env_def)
  have f: "FormatIP [10, 0, 0, 2] ''1080'' = ''10.0.0.2:1080''" by code_simp
  have r: "fst (socks_branch ex_env (30 * Second) ''tcp'' ''example.com:443'' ''proxy.local:1080'' ''proxy.local'' ''1080''
          [[10, 0, 0, 2]] [] ex_proxy ex_world) = (None, Some (ErrNet ''connection refused''))"
    by (simp add: socks_branch_def socks_rest_def ex_env_def f Let_def)
  show ?thesis using h r socks_branch_exhausted [OF h r] by simp
qed

end
