(* ===== verification/Runs.thy ===== *)
theory Runs
  imports Attempts
begin

text \<open>
  Sequences of dials sharing one resolver. SunnyNet's \<open>dns\<close> cache is process-wide
  (spec \<section>5, \<section>9): every \<open>Dial\<close> and \<open>DialWithTimeout\<close> of any descriptor reads and
  writes the same remembered IPs. \<open>dial_step\<close> is one such call, with any descriptor,
  destination and timeout, as an inductive relation on worlds; \<open>dial_run\<close> is a
  sequence of them (the reflexive-transitive closure). The invariant
  \<open>resolver_sound\<close> says every remembered IP is a non-nil candidate that the resolver
  returned for that host, under the empty tag; it holds along every run by rule
  induction, from the fact that one dial remembers at most one such candidate. What the
  cache is for is proved of the next dial: the IP remembered for the proxy's host is
  the first address it attempts, in either proxy branch.
\<close>

definition resolver_sound :: "net_env \<Rightarrow> world \<Rightarrow> bool" where
  "resolver_sound E w \<longleftrightarrow>
     (\<forall>h tag ip. first_ips w (h, tag) = Some ip \<longrightarrow> tag = '''' \<and> ip \<noteq> [] \<and> ip \<in> set (env_lookup E h))"

definition remembers_within :: "net_env \<Rightarrow> world \<Rightarrow> world \<Rightarrow> bool" where
  "remembers_within E w w' \<longleftrightarrow>
     first_ips w' = first_ips w \<or>
     (\<exists>h ip. ip \<noteq> [] \<and> ip \<in> set (env_lookup E h) \<and> first_ips w' = (first_ips w)((h, '''') \<mapsto> ip))"

inductive dial_step :: "url_lib \<Rightarrow> net_env \<Rightarrow> world \<Rightarrow> world \<Rightarrow> bool" for L E where
  dial: "dial_step L E w (snd (snd (Dial E p network addr w)))"
| dial_timeout: "dial_step L E w (snd (DialWithTimeout L E p network addr T w))"

inductive dial_run :: "url_lib \<Rightarrow> net_env \<Rightarrow> world \<Rightarrow> world \<Rightarrow> bool" for L E where
  run_nil: "dial_run L E w w"
| run_step: "dial_step L E w w' \<Longrightarrow> dial_run L E w' w'' \<Longrightarrow> dial_run L E w w''"

inductive_cases dial_step_cases: "dial_step L E w w'"

subsection \<open>One dial remembers at most one looked-up candidate\<close>

lemma remembers_within_same: "first_ips w' = first_ips w \<Longrightarrow> remembers_within E w w'"
  by (simp add: remembers_within_def)

lemma remembers_within_cong:
  "remembers_within E w w1 \<Longrightarrow> first_ips w2 = first_ips w1 \<Longrightarrow> remembers_within E w w2"
  by (simp add: remembers_within_def)

lemma record_win_within:
  assumes "fallback d (resolve_plan first port ips) z = (r, tried, win)"
    and "set ips \<subseteq> set (env_lookup E host)" "first_ips w1 = first_ips w"
  shows "remembers_within E w (record_win host win w1)"
proof (cases win)
  case (Some ip)
  with assms(1) have "fallback d (resolve_plan first port ips) z = (r, tried, Some ip)" by simp
  then have "(last tried, Some ip) \<in> set (resolve_plan first port ips)"
    by (rule fallback_win [THEN conjunct1])
  then have "ip \<in> set ips" "ip \<noteq> []" by (simp_all add: resolve_plan_win)
  with assms(2,3) Some show ?thesis
    by (auto simp: remembers_within_def)
qed (use assms in \<open>simp add: remembers_within_def\<close>)

lemma http_connect_within:
  assumes "set ips \<subseteq> set (env_lookup E host)"
  shows "remembers_within E w (snd (snd (http_connect E t network proxyAddr host port ips first q w)))"
proof -
  obtain r tried win where fb: "fallback (env_dial E t network) (resolve_plan first port ips) proxyAddr = (r, tried, win)"
    by (cases "fallback (env_dial E t network) (resolve_plan first port ips) proxyAddr") auto
  have "remembers_within E w (record_win host win (log_events (map (DialTCP t network) tried) w))"
    using fb assms by (rule record_win_within) simp
  then show ?thesis using fb by (simp add: http_connect_eq_fallback)
qed

lemma socks_branch_within:
  assumes "set ips \<subseteq> set (env_lookup E host)"
  shows "remembers_within E w (snd (snd (socks_branch E t network addr proxyAddr host port ips first q w)))"
proof (cases "env_socks_new E ''tcp'' proxyAddr (getSocksAuth (Some q))")
  case None
  let ?d = "env_socks E proxyAddr (getSocksAuth (Some q)) t network"
  obtain r tried win where fb: "fallback ?d (resolve_plan first port ips) addr = (r, tried, win)"
    by (cases "fallback ?d (resolve_plan first port ips) addr") auto
  have "remembers_within E w (record_win host win (log_events (map (DialSOCKS proxyAddr (getSocksAuth (Some q)) t network) tried) w))"
    using fb assms by (rule record_win_within) simp
  then show ?thesis using fb by (simp add: socks_branch_eq_fallback [OF None] Let_def)
qed (simp add: socks_branch_def remembers_within_def)

lemma http_branch_within:
  assumes "set ips \<subseteq> set (env_lookup E host)"
  shows "remembers_within E w (snd (snd (http_branch E t network addr proxyAddr host port ips first q w)))"
proof -
  obtain r q1 w1 where hc: "http_connect E t network proxyAddr host port ips first q w = (r, q1, w1)"
    by (cases "http_connect E t network proxyAddr host port ips first q w") auto
  have r1: "remembers_within E w w1"
    using http_connect_within [OF assms, of w t network proxyAddr port first q] hc by simp
  show ?thesis
  proof (cases r)
    case (Inr c)
    obtain r2 w2 where hs: "http_handshake E (Some q1) addr c w1 = (r2, w2)"
      by (cases "http_handshake E (Some q1) addr c w1") auto
    have "remembers_within E w w2"
      using r1 http_handshake_first_world [OF hs] by (rule remembers_within_cong)
    then show ?thesis using hc hs Inr by (simp add: http_branch_def)
  qed (use hc r1 in \<open>simp add: http_branch_def\<close>)
qed

lemma dial_via_proxy_within:
  "remembers_within E w (snd (snd (dial_via_proxy E t network addr U q w)))"
  unfolding dial_via_proxy_def Let_def
  by (simp add: socks_branch_within http_branch_within LookupIP_def split: prod.split)

lemma dial_direct_remote_within:
  "remembers_within E w (snd (snd (dial_direct_remote E t network addr q w)))"
  by (simp add: dial_direct_remote_def remembers_within_def split: sum.split)

lemma Dial_within: "remembers_within E w (snd (snd (Dial E p network addr w)))"
proof (cases p)
  case None
  then show ?thesis by (simp add: Dial_def Let_def remembers_within_def)
next
  case (Some q)
  then show ?thesis
    by (simp add: Dial_Some Let_def dial_direct_remote_within dial_via_proxy_within split: option.split)
qed

lemma DialWithTimeout_within: "remembers_within E w (snd (DialWithTimeout L E p network addr T w))"
proof -
  let ?p = "Some ((case Clone L p of None \<Rightarrow> zero_Proxy | Some n \<Rightarrow> n)\<lparr>timeout := T\<rparr>)"
  obtain r q' w' where d: "Dial E ?p network addr w = (r, q', w')"
    by (cases "Dial E ?p network addr w") auto
  have "remembers_within E w w'"
    using Dial_within [of E w ?p network addr] d by simp
  then show ?thesis by (simp add: DialWithTimeout_def Let_def d)
qed

lemma dial_step_within: "dial_step L E w w' \<Longrightarrow> remembers_within E w w'"
  by (erule dial_step_cases) (simp_all add: Dial_within DialWithTimeout_within)

lemma resolver_sound_within:
  assumes s: "resolver_sound E w" and r: "remembers_within E w w'"
  shows "resolver_sound E w'"
  unfolding resolver_sound_def
proof (intro allI impI)
  fix h tag ip
  assume a: "first_ips w' (h, tag) = Some ip"
  from r consider (same) "first_ips w' = first_ips w"
    | (upd) h' ip' where "ip' \<noteq> []" "ip' \<in> set (env_lookup E h')"
        "first_ips w' = (first_ips w)((h', '''') \<mapsto> ip')"
    by (auto simp: remembers_within_def)
  then show "tag = '''' \<and> ip \<noteq> [] \<and> ip \<in> set (env_lookup E h)"
  proof cases
    case same
    with a s show ?thesis by (simp add: resolver_sound_def)
  next
    case upd
    with a s show ?thesis by (auto simp: resolver_sound_def split: if_splits)
  qed
qed

subsection \<open>The remembered IP is the first attempt\<close>

lemma fallback_first_tried:
  assumes "fallback d ((a, k) # plan) z = (r, tried, win)"
  obtains rest where "tried = a # rest"
proof -
  have "tried \<noteq> []" using assms by (rule fallback_tried_nonempty)
  moreover have "take (length tried) (map fst ((a, k) # plan) @ [z]) = tried"
    using assms by (rule fallback_order)
  ultimately show ?thesis using that by (cases tried) auto
qed

lemma record_win_log_first:
  "tried = a # rest \<Longrightarrow>
   \<exists>evs. events (record_win host win (log_events (map f tried) w)) = events w @ f a # evs"
  by (auto simp: record_win_def SetFirstIP_def log_events_def split: option.split)

lemma grows_by_first:
  "\<exists>evs. events w1 = events w @ e # evs \<Longrightarrow> grows_by n w1 w2 \<Longrightarrow>
   \<exists>evs. events w2 = events w @ e # evs"
  by (auto simp: grows_by_def)

lemma http_branch_first:
  assumes "first \<noteq> []"
  shows "\<exists>evs. events (snd (snd (http_branch E t network addr proxyAddr host port ips first q w))) =
           events w @ DialTCP t network (FormatIP first port) # evs"
proof -
  obtain r tried win where fb:
    "fallback (env_dial E t network) (resolve_plan first port ips) proxyAddr = (r, tried, win)"
    by (cases "fallback (env_dial E t network) (resolve_plan first port ips) proxyAddr") auto
  have rp: "resolve_plan first port ips = (FormatIP first port, None) # candidate_plan port ips"
    using assms by (simp add: resolve_plan_def)
  obtain rest where tr: "tried = FormatIP first port # rest"
    using fb unfolding rp by (rule fallback_first_tried)
  let ?w1 = "record_win host win (log_events (map (DialTCP t network) tried) w)"
  have w1: "\<exists>evs. events ?w1 = events w @ DialTCP t network (FormatIP first port) # evs"
    using tr by (rule record_win_log_first)
  show ?thesis
  proof (cases r)
    case (Inr c)
    obtain r2 w2 where hs: "http_handshake E (Some (q\<lparr>DialAddr := last tried\<rparr>)) addr c ?w1 = (r2, w2)"
      by (cases "http_handshake E (Some (q\<lparr>DialAddr := last tried\<rparr>)) addr c ?w1") auto
    have "\<exists>evs. events w2 = events w @ DialTCP t network (FormatIP first port) # evs"
      using w1 http_handshake_grows [OF hs] by (rule grows_by_first)
    then show ?thesis using fb hs Inr by (simp add: http_branch_def http_connect_eq_fallback)
  qed (use fb w1 in \<open>simp add: http_branch_def http_connect_eq_fallback\<close>)
qed

lemma socks_branch_first:
  assumes "env_socks_new E ''tcp'' proxyAddr (getSocksAuth (Some q)) = None" "first \<noteq> []"
  shows "\<exists>evs. events (snd (snd (socks_branch E t network addr proxyAddr host port ips first q w))) =
           events w @ DialSOCKS proxyAddr (getSocksAuth (Some q)) t network (FormatIP first port) # evs"
proof -
  let ?d = "env_socks E proxyAddr (getSocksAuth (Some q)) t network"
  obtain r tried win where fb: "fallback ?d (resolve_plan first port ips) addr = (r, tried, win)"
    by (cases "fallback ?d (resolve_plan first port ips) addr") auto
  have rp: "resolve_plan first port ips = (FormatIP first port, None) # candidate_plan port ips"
    using assms(2) by (simp add: resolve_plan_def)
  obtain rest where tr: "tried = FormatIP first port # rest"
    using fb unfolding rp by (rule fallback_first_tried)
  show ?thesis
    using fb record_win_log_first [OF tr, of host win "DialSOCKS proxyAddr (getSocksAuth (Some q)) t network" w]
    by (simp add: socks_branch_eq_fallback [OF assms(1)] Let_def)
qed

subsection \<open>Properties of runs\<close>

text \<open>
  C33: along every sequence of dials of any descriptors through one environment, the
  resolver stays sound: every IP it remembers is non-nil, is stored under the empty tag,
  and was returned by the resolver's lookup of that host.
\<close>

theorem dial_run_resolver_sound:
  assumes "dial_run L E w w'" "resolver_sound E w"
  shows "resolver_sound E w'"
  using assms
proof (induction rule: dial_run.induct)
  case (run_nil w)
  then show ?case .
next
  case (run_step w w' w'')
  from run_step.prems have "resolver_sound E w'"
    using dial_step_within [OF run_step.hyps(1)] by (rule resolver_sound_within)
  then show ?case by (rule run_step.IH)
qed

theorem dial_run_resolver_sound_witness:
  "dial_run ex_lib ex_env ex_world (snd (snd (Dial ex_env (Some ex_proxy) ''tcp'' ''example.com:443'' ex_world))) \<and>
   resolver_sound ex_env ex_world \<and>
   resolver_sound ex_env (snd (snd (Dial ex_env (Some ex_proxy) ''tcp'' ''example.com:443'' ex_world)))"
proof -
  have r: "dial_run ex_lib ex_env ex_world (snd (snd (Dial ex_env (Some ex_proxy) ''tcp'' ''example.com:443'' ex_world)))"
    by (rule run_step [OF dial_step.dial run_nil])
  have s: "resolver_sound ex_env ex_world" by (simp add: resolver_sound_def ex_world_def)
  show ?thesis using r s dial_run_resolver_sound [OF r s] by simp
qed

text \<open>
  C34: the IP the resolver remembers for the proxy's host is the first address the next
  dial through that proxy attempts: for a descriptor that is not bypassed, whose proxy
  host is a name, the first connection attempt of \<open>Dial\<close> is to the remembered IP with
  the proxy's port, as a direct TCP dial for an HTTP proxy and through the SOCKS5 dialer
  for a SOCKS5 one (when that dialer can be built).
\<close>

theorem Dial_tries_remembered_first:
  assumes "URL q0 = Some U" "\<not> bypass q0 (split_host addr)"
    and "SplitHostPort (url_Host U) = Inr (h, port)" "env_parse_ip E h = None"
    and "first_ips w (h, '''') = Some ip" "ip \<noteq> []"
    and "IsSocksType (Some q0) \<longrightarrow> env_socks_new E ''tcp'' (url_Host U) (getSocksAuth (Some q0)) = None"
  shows "\<exists>evs. events (snd (snd (Dial E (Some q0) network addr w))) =
           events w @
           (if IsSocksType (Some q0)
            then DialSOCKS (url_Host U) (getSocksAuth (Some q0)) (getTimeout (Some q0)) network (FormatIP ip port)
            else DialTCP (getTimeout (Some q0)) network (FormatIP ip port)) # evs"
proof -
  let ?q = "q0\<lparr>DialAddr := split_host addr\<rparr>"
  have first: "GetFirstIP w h '''' = ip" using assms(5) by (simp add: GetFirstIP_def)
  show ?thesis
  proof (cases "IsSocksType (Some q0)")
    case True
    with assms(7) have "env_socks_new E ''tcp'' (url_Host U) (getSocksAuth (Some ?q)) = None"
      by simp
    from socks_branch_first [OF this assms(6)] True show ?thesis
      using assms(1-4) by (simp add: Dial_Some Let_def dial_via_proxy_def first)
  next
    case False
    from http_branch_first [OF assms(6)] False show ?thesis
      using assms(1-4) by (simp add: Dial_Some Let_def dial_via_proxy_def first)
  qed
qed

theorem Dial_tries_remembered_first_witness:
  "URL ex_proxy = Some (\<lparr>url_Scheme = ''http'', url_User = None, url_Host = ''proxy.local:8080'', url_Rest = ''''\<rparr>) \<and>
   \<not> bypass ex_proxy (split_host ''example.com:443'') \<and>
   SplitHostPort (url_Host (\<lparr>url_Scheme = ''http'', url_User = None, url_Host = ''proxy.local:8080'', url_Rest = ''''\<rparr>)) = Inr (''proxy.local'', ''8080'') \<and>
   env_parse_ip ex_env ''proxy.local'' = None \<and>
   first_ips (ex_world\<lparr>first_ips := [(''proxy.local'', '''') \<mapsto> [10, 0, 0, 3]]\<rparr>) (''proxy.local'', '''') =
     Some [10, 0, 0, 3] \<and>
   (\<exists>evs. events (snd (snd (Dial ex_env (Some ex_proxy) ''tcp'' ''example.com:443''
                  (ex_world\<lparr>first_ips := [(''proxy.local'', '''') \<mapsto> [10, 0, 0, 3]]\<rparr>)))) =
           events ex_world @ DialTCP (30 * Second) ''tcp'' ''10.0.0.3:8080'' # evs)"
proof -
  let ?w = "ex_world\<lparr>first_ips := [(''proxy.local'', '''') \<mapsto> [10, 0, 0, 3]]\<rparr>"
  have h1: "URL ex_proxy = Some (\<lparr>url_Scheme = ''http'', url_User = None, url_Host = ''proxy.local:8080'', url_Rest = ''''\<rparr>)"
    by (simp add: ex_proxy_def)
  have h2: "\<not> bypass ex_proxy (split_host ''example.com:443'')"
    by (simp add: bypass_def ex_proxy_def)
  have h3: "SplitHostPort (url_Host (\<lparr>url_Scheme = ''http'', url_User = None, url_Host = ''proxy.local:8080'', url_Rest = ''''\<rparr>)) = Inr (''proxy.local'', ''8080'')"
    by code_simp
  have h4: "env_parse_ip ex_env ''proxy.local'' = None" by (simp add: ex_env_def)
  have h5: "first_ips ?w (''proxy.local'', '''') = Some [10, 0, 0, 3]" by simp
  have h6: "[10, 0, 0, 3] \<noteq> ([] :: ip)" by simp
  have h7: "IsSocksType (Some ex_proxy) \<longrightarrow>
      env_socks_new ex_env ''tcp'' (url_Host (\<lparr>url_Scheme = ''http'', url_User = None, url_Host = ''proxy.local:8080'', url_Rest = ''''\<rparr>)) (getSocksAuth (Some ex_proxy)) = None"
    by (simp add: ex_env_def)
  have ns: "\<not> IsSocksType (Some ex_proxy)"
    by (simp add: IsSocksType_def ex_proxy_def ex_url_def ToLower_eval socks_schemes_def)
  have f: "FormatIP [10, 0, 0, 3] ''8080'' = ''10.0.0.3:8080''" by code_simp
  have t: "getTimeout (Some ex_proxy) = 30 * Second" by (simp add: getTimeout_def ex_proxy_def Second_def)
  show ?thesis
    using Dial_tries_remembered_first [OF h1 h2 h3 h4 h5 h6 h7, of "''tcp''"] h1 h2 h3 h4 h5 ns f t
    by simp
qed

end
