(* ===== verification/Spec2Isabelle.thy ===== *)
theory Spec2Isabelle
  imports Attempts Runs
begin

text \<open>
  \<^bold>\<open>A verification development of SunnyNet's proxy dialer.\<close>

  \<^bold>\<open>The program.\<close> src/src/SunnyProxy/Proxy.go (276 lines) is the proxy layer of
  SunnyNet: a descriptor \<open>Proxy\<close> parsed from a URL (\<open>ParseProxy\<close>, nil-safe
  accessors, \<open>Clone\<close>, \<open>SetTimeout\<close>), and \<open>Dial\<close>, which reaches a destination
  either directly (\<open>direct\<close>, a \<open>net.Dialer\<close> with a timeout), through a SOCKS5 proxy
  (\<open>golang.org/x/net/proxy\<close>) or through an HTTP proxy with a CONNECT handshake. To
  reach the proxy it first resolves the proxy's host name through SunnyNet's \<open>dns\<close>
  package, which also remembers the last IP that worked for a host
  (\<open>GetFirstIP\<close>/\<open>SetFirstIP\<close>); \<open>FormatIP\<close> turns an IP and a port into the
  dialed address. The only other Go file under src/ is a test of the TLS client.

  \<^bold>\<open>Theories.\<close>
  \<^item> \<open>Prelude\<close>: Go's types as the model writes them (\<open>net.IP\<close> as a byte list with
    \<open>[]\<close> for \<open>nil\<close>; \<open>int\<close> and \<open>time.Duration\<close> as \<open>64 word\<close>, so that
    \<open>time.Duration(t) * time.Millisecond\<close> wraps as on the machine); the \<open>error\<close>
    datatype; Go's pair (value, error) as \<open>go_ret\<close>; \<open>strings.IndexByte\<close>,
    decimal and hexadecimal rendering, \<open>strings.ToLower\<close>.
  \<^item> \<open>Proxy\<close>: lines 16--138, the descriptor (record \<open>Proxy\<close>, a pointer as
    \<open>Proxy option\<close>), \<open>ParseProxy\<close>, \<open>IsSocksType\<close>, \<open>proxy_String\<close>, \<open>User\<close>,
    \<open>Pass\<close>, \<open>Clone\<close>, \<open>SetTimeout\<close>, \<open>getTimeout\<close>, \<open>getSocksAuth\<close>. The
    \<open>net/url\<close> parser and printer enter as the interface record \<open>url_lib\<close>.
  \<^item> \<open>Address\<close>: \<open>FormatIP\<close> (lines 270--275) with the parts of Go's \<open>net\<close> it
    uses, \<open>IP.To4\<close>, \<open>IP.String\<close> (RFC 5952 for IPv6) and \<open>SplitHostPort\<close>,
    modelled from the Go documentation and standard library.
  \<^item> \<open>Net\<close>: the environment. \<open>net_env\<close> is a record of the effectful calls the code
    makes and does not implement (TCP dial, SOCKS5 dial, DNS lookup, \<open>net.ParseIP\<close>,
    connection write and read); \<open>world\<close> is the mutable state the code changes: the
    resolver's remembered IPs, keyed by (host, tag), and the trace of effects in order.
    \<open>dialer\<close> and \<open>dialer_Dial\<close> model the \<open>direct\<close> type (lines 256--264) and the
    SOCKS5 dialer, \<open>direct_DialContext\<close> \<open>direct.DialContext\<close> (lines 265--269),
    \<open>LookupIP\<close>/\<open>GetFirstIP\<close>/\<open>SetFirstIP\<close> the resolver contract
    (spec \<section>6).
  \<^item> \<open>Fallback\<close>: the abstract specification of the dial strategy (spec \<section>4.2): a plan
    of attempts tried in order, first success wins, a terminal attempt whose outcome is
    final; lemmas on its order, result, exhaustion and remembered key.
  \<^item> \<open>Fmt\<close>: Go's \<open>fmt.Errorf\<close> with no operands (\<open>(*pp).doPrintf\<close>,
    \<open>argNumber\<close>, \<open>parsenum\<close>, \<open>utf8.DecodeRuneInString\<close>), modelled from the Go
    library, since line 251 passes the proxy's reply to it as a format string;
    \<open>doPrintf\<close> terminates by a measure on the format's length.
  \<^item> \<open>Connect\<close>: the HTTP CONNECT handshake (lines 236--253); Base64
    (\<open>encoding/base64.StdEncoding\<close>) from RFC 4648, with the RFC's decoder, which the
    program does not call, to state that the credentials token decodes to
    \<open>user:password\<close> and has no line breaks.
  \<^item> \<open>Dialer\<close>: \<open>Dial\<close> (lines 147--254) block by block and \<open>DialWithTimeout\<close>
    (lines 139--146); the refinement of \<open>fallback\<close> by both proxy branches; the
    resolver invariant and the frame of the descriptor.
  \<^item> \<open>Attempts\<close>: the connection attempts of a dial: their number, progress of both
    branches when some candidate connects, ordering and exhaustion of the SOCKS5 branch.
  \<^item> \<open>Runs\<close>: sequences of dials sharing the resolver, as an inductive step relation
    \<open>dial_step\<close> (one \<open>Dial\<close> or \<open>DialWithTimeout\<close> of any descriptor) and its
    closure \<open>dial_run\<close>, with the invariant of the shared cache proved by rule
    induction, and the use of a remembered IP by the next dial.
  \<^item> This theory: properties of \<open>DialWithTimeout\<close> and of the zero-value descriptor.

  \<^bold>\<open>Correspondence of state.\<close> A call \<open>p.Dial(network, addr)\<close> is
  \<open>Dial E p network addr w\<close>; it returns the Go result pair, the descriptor after the
  call (only \<open>DialAddr\<close> changes, Go mutates it through the pointer) and the world
  after the call. Every effect of the source is an event of the trace, in the order the
  source performs it, and every \<open>return\<close> of the source is a branch of the model,
  including the returns of (nil, nil) and of (conn, err) that Go allows.

  \<^bold>\<open>What is proved.\<close> Both proxy branches are exactly the abstract \<open>fallback\<close> over the
  plan \<open>resolve_plan\<close> (remembered IP, then the non-nil candidates in the resolver's
  order, then the literal proxy address), hence ordering, first-success-wins and the
  terminal attempt; the resolver invariant (remembered IPs are non-nil) is kept by every
  dial; a dial only changes \<open>DialAddr\<close>; the bypass skips the proxy; a SOCKS5
  dialer that cannot be built fails the dial before any attempt; the three outcomes of
  the handshake, the rejection carrying the reply as \<open>fmt.Errorf\<close> prints it; the scheme normalisation, the error order and the timeout
  arithmetic of \<open>ParseProxy\<close>, exact in the range where it does not wrap and wrapping
  outside it; \<open>Clone\<close> as identity on every field (the bypass predicate included) for
  a round-tripping URL library; the single-line credentials header of the CONNECT
  request, whose token decodes to \<open>user:password\<close>; the round trip of
  \<open>FormatIP\<close> through \<open>SplitHostPort\<close>; the fail-open behaviour of
  \<open>DialWithTimeout\<close>; a dial makes at most two attempts more than the resolver's
  candidates and reaches a connection whenever one candidate accepts; along any sequence
  of dials the cache only holds non-nil looked-up candidates, and the IP it remembers
  for a proxy host is the first address the next dial through that proxy attempts; the
  zero-value descriptor behaves as nil. No loop of the source needs fuel: the candidate
  loops are structural recursions over the candidate list, and the helpers on numbers
  and \<open>doPrintf\<close> are \<open>function\<close>s with measures.

  \<^bold>\<open>Not modelled.\<close> \<open>dnsConfig\<close> (lines 16--19, a TLS configuration used by no
  function of the file); the cancellation of a context while a connection attempt is in
  progress (\<open>direct.DialContext\<close>, lines 265--269, is modelled with a context that is
  already done or live); the insides of \<open>net.Dialer\<close>, of the SOCKS5
  wire protocol of \<open>x/net/proxy\<close>, of the \<open>dns\<close> package and of \<open>url.Parse\<close>,
  which are libraries the file only calls: they are the fields of \<open>net_env\<close> and
  \<open>url_lib\<close>, and the theorems hold for every behaviour of them; concurrency (a
  shared descriptor dialed from several goroutines), since a single dial is sequential;
  the TLS client test under src/src/tlsClient.
\<close>

subsection \<open>Properties spanning the components\<close>

text \<open>
  C26: DialWithTimeout fails open: when the descriptor cannot be cloned (nil, without a
  URL, or with a host field shorter than three bytes) or its URL does not survive the
  print-and-reparse of Clone, the dial is made directly to the destination, never
  through the proxy, with the given timeout (15 seconds when it is zero).
\<close>

theorem DialWithTimeout_fail_open:
  assumes "Clone L p = None \<or> (\<exists>n. Clone L p = Some n \<and> URL n = None)"
  shows "DialWithTimeout L E p network addr T w =
           (go_ret (env_dial E (if T = 0 then 15 * Second else T) network addr),
            log_events [DialTCP (if T = 0 then 15 * Second else T) network addr] w)"
  using assms
  by (auto simp: DialWithTimeout_def Dial_Some Let_def dial_direct_remote_def getTimeout_def
        zero_Proxy_def split: sum.split)

theorem DialWithTimeout_fail_open_witness:
  "Clone ex_lib (Some (ex_http\<lparr>URL := Some (ex_url ''http'' None ''ab'')\<rparr>)) = None \<and>
   DialWithTimeout ex_lib ex_env (Some (ex_http\<lparr>URL := Some (ex_url ''http'' None ''ab'')\<rparr>))
     ''tcp'' ''10.0.0.3:8080'' 0 ex_world =
   ((Some ex_conn, None), log_events [DialTCP (15 * Second) ''tcp'' ''10.0.0.3:8080''] ex_world)"
proof -
  have h: "Clone ex_lib (Some (ex_http\<lparr>URL := Some (ex_url ''http'' None ''ab'')\<rparr>)) = None"
    by (simp add: Clone_def ex_url_def)
  show ?thesis
    using DialWithTimeout_fail_open [of ex_lib "Some (ex_http\<lparr>URL := Some (ex_url ''http'' None ''ab'')\<rparr>)"
        ex_env "''tcp''" "''10.0.0.3:8080''" 0 ex_world] h
    by (simp add: ex_env_def)
qed

text \<open>
  C36: Go's zero-value descriptor \<open>&Proxy{}\<close> is equivalent to a nil one: Dial returns
  the same result and leaves the same world (one direct dial with the 15-second default),
  and every accessor returns the same value; only the returned descriptor differs, since
  Dial records DialAddr in it.
\<close>

theorem zero_Proxy_equiv_nil:
  "fst (Dial E (Some zero_Proxy) network addr w) = fst (Dial E None network addr w) \<and>
   snd (snd (Dial E (Some zero_Proxy) network addr w)) = snd (snd (Dial E None network addr w)) \<and>
   IsSocksType (Some zero_Proxy) = IsSocksType None \<and> proxy_String L (Some zero_Proxy) = proxy_String L None \<and>
   User (Some zero_Proxy) = User None \<and> Pass (Some zero_Proxy) = Pass None \<and>
   getSocksAuth (Some zero_Proxy) = getSocksAuth None \<and> getTimeout (Some zero_Proxy) = getTimeout None \<and>
   Clone L (Some zero_Proxy) = Clone L None"
  by (simp add: Dial_def Let_def dial_direct_remote_def zero_Proxy_def getTimeout_def IsSocksType_def
      proxy_String_def User_def Pass_def getSocksAuth_def Clone_def split: sum.split prod.split)

end
